theory Spec2Isabelle
  imports Complex_Main "HOL-Library.Word"
begin

unbundle bit_operations_syntax

section \<open>Machine types and fatal conditions\<close>

type_synonym u8 = "8 word"
type_synonym u32 = "32 word"
type_synonym u64 = "64 word"
type_synonym usz = "64 word"
type_synonym GLuint = "32 word"
type_synonym GLenum = "32 word"

text \<open>
  \<^verbatim>\<open>Vec2u\<close> is a pair of \<^verbatim>\<open>u32\<close>, \<^verbatim>\<open>Vec2i\<close> a pair of \<^verbatim>\<open>i32\<close> (kept as 32-bit words: the
  code only compares and forwards them).
\<close>

type_synonym Vec2u = "u32 \<times> u32"
type_synonym Vec2i = "u32 \<times> u32"

text \<open>
  \<^verbatim>\<open>oic::System::log()->fatal(msg)\<close> ends the run (a fatal condition is not recoverable), and a
  failed \<^verbatim>\<open>oicAssert\<close> does too: both are the \<open>Inl\<close> branch of every result below.
\<close>

datatype error = Fatal string | AssertFailed string

section \<open>Pipeline::Info and its classification (pipeline.hpp)\<close>

text \<open>
  \<^verbatim>\<open>enum class ShaderStage : u8\<close> is declared in enums.hpp, which is not among the sources: a stage
  is its \<^verbatim>\<open>u8\<close> value, and the two enumerators the classification reads are parameters of the
  functions below, bundled in one record.
\<close>

type_synonym ShaderStage = u8

record ShaderStageEnum =
  COMPUTE :: ShaderStage
  PROPERTY_IS_RAYTRACING :: ShaderStage

text \<open>
  \<^verbatim>\<open>HashMap<ShaderStage, Pair<u32, String>> stages\<close> is the list of its entries in the container's
  iteration order, so that \<^verbatim>\<open>stages.begin()\<close> is the head of the list. The fixed-function state of
  a graphics pipeline (topology, depth/stencil, rasterizer, blend state, MSAA) and the parent
  pointer play no part in the classification and are left out of the record.
\<close>

record ('b, 'l, 'a) PipelineInfo =
  binaries :: "'b list"
  stages :: "(ShaderStage \<times> (u32 \<times> string)) list"
  pipelineLayout :: 'l
  flag :: u8
  attributeLayout :: "'a list"
  groupSize :: "u32 \<times> u32 \<times> u32"

text \<open>The compute constructor: one stage \<^verbatim>\<open>COMPUTE\<close> pointing at binary 0.\<close>

definition Info_compute ::
  "ShaderStageEnum \<Rightarrow> u8 \<Rightarrow> 'b \<Rightarrow> 'l \<Rightarrow> u32 \<times> u32 \<times> u32 \<Rightarrow> string \<Rightarrow> ('b, 'l, 'a) PipelineInfo" where
  "Info_compute E f computeShader pl gs entryPoint =
     \<lparr> binaries = [computeShader],
       stages = [(COMPUTE E, (0, entryPoint))],
       pipelineLayout = pl,
       flag = f,
       attributeLayout = [],
       groupSize = gs \<rparr>"

definition hasStage :: "('b, 'l, 'a) PipelineInfo \<Rightarrow> ShaderStage \<Rightarrow> bool" where
  "hasStage i stage = (stage \<in> set (map fst (stages i)))"

definition isCompute :: "ShaderStageEnum \<Rightarrow> ('b, 'l, 'a) PipelineInfo \<Rightarrow> bool" where
  "isCompute E i = (length (stages i) = 1 \<and> hasStage i (COMPUTE E))"

definition isRaytracing :: "ShaderStageEnum \<Rightarrow> ('b, 'l, 'a) PipelineInfo \<Rightarrow> bool" where
  "isRaytracing E i =
     (case stages i of
        [] \<Rightarrow> False
      | (s, _) # _ \<Rightarrow> s AND PROPERTY_IS_RAYTRACING E \<noteq> 0)"

definition isGraphics :: "ShaderStageEnum \<Rightarrow> ('b, 'l, 'a) PipelineInfo \<Rightarrow> bool" where
  "isGraphics E i = (\<not> isCompute E i \<and> \<not> isRaytracing E i)"

definition stagesE :: ShaderStageEnum where
  "stagesE = \<lparr>COMPUTE = 5, PROPERTY_IS_RAYTRACING = 0x40\<rparr>"

definition vertFragInfo :: "(nat, unit, unit) PipelineInfo" where
  "vertFragInfo =
     \<lparr> binaries = [0], stages = [(0, (0, ''main'')), (4, (1, ''main''))],
       pipelineLayout = (), flag = 0, attributeLayout = [], groupSize = (0, 0, 0) \<rparr>"


text \<open>
  An Info holds the declared stages \<open>ds\<close> (in the order of their declaration) when its map has
  exactly these entries. The order in which the \<^verbatim>\<open>HashMap\<close> iterates, and so the entry
  \<^verbatim>\<open>stages.begin()\<close> yields, is the container's own.
\<close>

definition holdsStages ::
  "('b, 'l, 'a) PipelineInfo \<Rightarrow> (ShaderStage \<times> (u32 \<times> string)) list \<Rightarrow> bool" where
  "holdsStages i ds =
     (distinct (map fst ds) \<and> distinct (map fst (stages i)) \<and> set (stages i) = set ds)"

text \<open>
  Two stages declared raytracing first: a raytracing library whose map iterates in the
  reverse of the declaration, and a map of a raytracing and a vertex stage that iterates the
  vertex stage first.
\<close>

definition rtDeclared :: "(ShaderStage \<times> (u32 \<times> string)) list" where
  "rtDeclared = [(0x40, (0, ''raygen'')), (0x41, (1, ''miss''))]"

definition rtLibInfo :: "(nat, unit, unit) PipelineInfo" where
  "rtLibInfo =
     \<lparr> binaries = [0, 1], stages = [(0x41, (1, ''miss'')), (0x40, (0, ''raygen''))],
       pipelineLayout = (), flag = 4, attributeLayout = [], groupSize = (0, 0, 0) \<rparr>"

definition mixedDeclared :: "(ShaderStage \<times> (u32 \<times> string)) list" where
  "mixedDeclared = [(0x40, (0, ''raygen'')), (0, (1, ''main''))]"

definition mixedInfo :: "(nat, unit, unit) PipelineInfo" where
  "mixedInfo =
     \<lparr> binaries = [0, 1], stages = [(0, (1, ''main'')), (0x40, (0, ''raygen''))],
       pipelineLayout = (), flag = 0, attributeLayout = [], groupSize = (0, 0, 0) \<rparr>"

section \<open>The execution context and the native calls (gl_context.hpp, part 001)\<close>

text \<open>
  The native driver is observed through the calls made to it. Every \<^verbatim>\<open>gl*\<close> call of the code
  appends one \<open>glcall\<close> to the trace; \<^verbatim>\<open>glGen*\<close> calls take the next unused object name from
  the driver. Label strings of \<^verbatim>\<open>glObjectLabel\<close> are not recorded.
\<close>

datatype glcall =
    GlEnable GLenum
  | GlDisable GLenum
  | GlViewport u32 u32 u32 u32
  | GlScissor u32 u32 u32 u32
  | GlBindBufferRange GLenum u32 GLuint usz usz
  | GlBindSampler u32 GLuint
  | GlGenTextures GLuint
  | GlTextureView GLuint GLenum GLuint GLenum u32 u32 u32 u32
  | GlObjectLabel GLenum GLuint
  | GlBindTextureUnit u32 GLuint
  | GlBindImageTexture u32 GLuint GLenum
  | GlDeleteFramebuffers GLuint
  | GlDeleteTextures GLuint
  | GlDeleteRenderbuffers GLuint
  | GlDeleteVertexArrays GLuint
  | GlGenFramebuffers GLuint
  | GlBindFramebuffer GLenum GLuint
  | GlBindTexture GLenum GLuint
  | GlTexImage2DMultisample GLenum u32 GLenum u32 u32
  | GlFramebufferTexture GLenum GLenum GLuint
  | GlGenRenderbuffers GLuint
  | GlBindRenderbuffer GLenum GLuint
  | GlRenderbufferStorageMultisample GLenum u32 GLenum u32 u32
  | GlFramebufferRenderbuffer GLenum GLenum GLenum GLuint
  | GlDrawBuffers "GLenum list"
  | GlCheckFramebufferStatus GLenum
  | GlBlitNamedFramebuffer GLuint GLuint "u32 list" "u32 list" GLenum GLenum
  | SwapchainBind
  | SwapchainPresent
  | LogWarn string

text \<open>Values of the Khronos headers (glext.h is not among the sources).\<close>

definition GL_SCISSOR_TEST :: GLenum where "GL_SCISSOR_TEST = 0x0C11"
definition GL_UNIFORM_BUFFER :: GLenum where "GL_UNIFORM_BUFFER = 0x8A11"
definition GL_SHADER_STORAGE_BUFFER :: GLenum where "GL_SHADER_STORAGE_BUFFER = 0x90D2"
definition GL_SAMPLER :: GLenum where "GL_SAMPLER = 0x82E6"
definition GL_TEXTURE :: GLenum where "GL_TEXTURE = 0x1702"
definition GL_IMAGE_2D :: GLenum where "GL_IMAGE_2D = 0x904D"
definition GL_FRAMEBUFFER :: GLenum where "GL_FRAMEBUFFER = 0x8D40"
definition GL_READ_FRAMEBUFFER :: GLenum where "GL_READ_FRAMEBUFFER = 0x8CA8"
definition GL_DRAW_FRAMEBUFFER :: GLenum where "GL_DRAW_FRAMEBUFFER = 0x8CA9"
definition GL_RENDERBUFFER :: GLenum where "GL_RENDERBUFFER = 0x8D41"
definition GL_FRAMEBUFFER_COMPLETE :: GLenum where "GL_FRAMEBUFFER_COMPLETE = 0x8CD5"
definition GL_TEXTURE_2D_MULTISAMPLE :: GLenum where "GL_TEXTURE_2D_MULTISAMPLE = 0x9100"
definition GL_DEPTH_ATTACHMENT :: GLenum where "GL_DEPTH_ATTACHMENT = 0x8D00"
definition GL_DEPTH_STENCIL_ATTACHMENT :: GLenum where "GL_DEPTH_STENCIL_ATTACHMENT = 0x821A"
definition GL_COLOR_ATTACHMENT0 :: GLenum where "GL_COLOR_ATTACHMENT0 = 0x8CE0"
definition GL_COLOR_BUFFER_BIT :: GLenum where "GL_COLOR_BUFFER_BIT = 0x4000"
definition GL_LINEAR :: GLenum where "GL_LINEAR = 0x2601"

record GL =
  calls :: "glcall list"
  nextName :: GLuint

definition emit :: "glcall \<Rightarrow> GL \<Rightarrow> GL" where
  "emit c gl = gl\<lparr>calls := calls gl @ [c]\<rparr>"

definition took :: "(GLuint \<Rightarrow> glcall) \<Rightarrow> GL \<Rightarrow> GL" where
  "took mk gl = gl\<lparr>calls := calls gl @ [mk (nextName gl)], nextName := nextName gl + 1\<rparr>"

definition genName :: "(GLuint \<Rightarrow> glcall) \<Rightarrow> GL \<Rightarrow> GLuint \<times> GL" where
  "genName mk gl = (nextName gl, took mk gl)"

record BoundRange =
  handle :: GLuint
  offset :: usz
  size_range :: usz

definition noRange :: BoundRange where
  "noRange = \<lparr>handle = 0, offset = 0, size_range = 0\<rparr>"

text \<open>
  \<^verbatim>\<open>GLContext\<close> is declared in gl_context.hpp, not among the sources; the record has the fields
  the code under \<^verbatim>\<open>src/\<close> reads and writes, under its names. \<^verbatim>\<open>currentFramebuffer\<close> is a pointer
  to the bound framebuffer, observed only through \<^verbatim>\<open>getInfo().size\<close>: it is \<open>None\<close> for
  \<^verbatim>\<open>nullptr\<close> and the size otherwise. \<^verbatim>\<open>vaos\<close> is keyed by the primitive buffer's identity. The
  type of \<^verbatim>\<open>frameId\<close> is not visible in the sources: it is a type parameter here, a machine word
  where it is incremented.
\<close>

record 'n GLContext =
  bound :: "GLenum \<rightharpoonup> GLuint"
  boundByBase :: "u64 \<rightharpoonup> BoundRange"
  viewportOff :: Vec2i
  viewportSize :: Vec2u
  scissorOff :: Vec2i
  scissorSize :: Vec2u
  enableScissor :: bool
  currentFramebuffer :: "Vec2u option"
  vaos :: "nat \<rightharpoonup> GLuint"
  deletedVaos :: "nat list"
  frameId :: 'n

text \<open>\<^verbatim>\<open>HashMap::operator[]\<close>: the entry, inserted value-initialised when the key is absent.\<close>

definition rangeAt :: "(u64 \<rightharpoonup> BoundRange) \<Rightarrow> u64 \<Rightarrow> BoundRange" where
  "rangeAt m k = (case m k of None \<Rightarrow> noRange | Some r \<Rightarrow> r)"

definition touchRange :: "(u64 \<rightharpoonup> BoundRange) \<Rightarrow> u64 \<Rightarrow> (u64 \<rightharpoonup> BoundRange)" where
  "touchRange m k = (case m k of None \<Rightarrow> m(k \<mapsto> noRange) | Some r \<Rightarrow> m)"

definition boundAt :: "(GLenum \<rightharpoonup> GLuint) \<Rightarrow> GLenum \<Rightarrow> GLuint" where
  "boundAt m k = (case m k of None \<Rightarrow> 0 | Some h \<Rightarrow> h)"

subsection \<open>Viewport and scissor\<close>

definition glxSetViewport ::
  "Vec2u \<Rightarrow> Vec2i \<Rightarrow> 'n GLContext \<times> GL \<Rightarrow> error + ('n GLContext \<times> GL)" where
  "glxSetViewport sz off s =
     (let (ctx, gl) = s in
      case (if fst sz = 0 \<or> snd sz = 0
            then (case currentFramebuffer ctx of
                    None \<Rightarrow> Inl (AssertFailed
                      ''SetViewport can't be called with null size if the framebuffer isn't bound'')
                  | Some fsz \<Rightarrow> Inr fsz)
            else Inr sz) of
        Inl e \<Rightarrow> Inl e
      | Inr sz' \<Rightarrow>
          if viewportOff ctx \<noteq> off \<or> viewportSize ctx \<noteq> sz'
          then Inr (ctx\<lparr>viewportOff := off, viewportSize := sz'\<rparr>,
                    emit (GlViewport (fst off) (snd off) (fst sz') (snd sz')) gl)
          else Inr (ctx, gl))"

definition glxSetScissor ::
  "Vec2u \<Rightarrow> Vec2i \<Rightarrow> 'n GLContext \<times> GL \<Rightarrow> error + ('n GLContext \<times> GL)" where
  "glxSetScissor sz off s =
     (let (ctx, gl) = s in
      case (if fst sz = 0 \<or> snd sz = 0
            then (case currentFramebuffer ctx of
                    None \<Rightarrow> Inl (AssertFailed
                      ''SetScissor can't be called with null size if the framebuffer isn't bound'')
                  | Some fsz \<Rightarrow> Inr fsz)
            else Inr sz) of
        Inl e \<Rightarrow> Inl e
      | Inr sz' \<Rightarrow>
          let (ctx1, gl1) =
                (if \<not> enableScissor ctx
                 then (ctx\<lparr>enableScissor := True\<rparr>, emit (GlEnable GL_SCISSOR_TEST) gl)
                 else (ctx, gl))
          in if scissorOff ctx1 \<noteq> off \<or> scissorSize ctx1 \<noteq> sz'
             then Inr (ctx1\<lparr>scissorOff := off, scissorSize := sz'\<rparr>,
                       emit (GlScissor (fst off) (snd off) (fst sz') (snd sz')) gl1)
             else Inr (ctx1, gl1))"

definition glxSetViewportAndScissor ::
  "Vec2u \<Rightarrow> Vec2i \<Rightarrow> 'n GLContext \<times> GL \<Rightarrow> error + ('n GLContext \<times> GL)" where
  "glxSetViewportAndScissor sz off s =
     (let (ctx, gl) = s;
          (ctx1, gl1) =
            (if enableScissor ctx
             then (ctx\<lparr>enableScissor := False\<rparr>, emit (GlDisable GL_SCISSOR_TEST) gl)
             else (ctx, gl))
      in glxSetViewport sz off (ctx1, gl1))"

text \<open>A value-initialised context, a fresh driver, and a context with scissor testing on.\<close>

definition ctx0 :: "u64 GLContext" where
  "ctx0 =
     \<lparr> bound = Map.empty, boundByBase = Map.empty,
       viewportOff = (0, 0), viewportSize = (0, 0),
       scissorOff = (0, 0), scissorSize = (0, 0),
       enableScissor = False, currentFramebuffer = None,
       vaos = Map.empty, deletedVaos = [], frameId = 0 \<rparr>"

definition gl0 :: GL where
  "gl0 = \<lparr>calls = [], nextName = 1\<rparr>"

definition scissorCtx :: "u64 GLContext" where
  "scissorCtx = ctx0\<lparr>scissorOff := (5, 6), scissorSize := (10, 20), enableScissor := True\<rparr>"

section \<open>Surface and Framebuffer (part 000, gl_framebuffer.cpp)\<close>

text \<open>
  \<^verbatim>\<open>Surface::Info\<close>, with the colour format, depth format and \<^verbatim>\<open>f64\<close> types as parameters
  (format.hpp and enums.hpp are not among the sources). The field \<^verbatim>\<open>size\<close> is \<open>size_info\<close> here.
\<close>

record ('c, 'd, 'f) SurfaceInfo =
  size_info :: Vec2u
  colorFormats :: "'c list"
  depthFormat :: 'd
  keepDepth :: bool
  samples :: u32
  isDynamic :: bool
  viewportScale :: 'f

text \<open>\<^verbatim>\<open>Framebuffer::Data\<close> (gl_framebuffer.hpp, absent): the three fields the code uses.\<close>

record FramebufferData =
  index :: GLuint
  depth :: GLuint
  renderTextures :: "GLuint list"

record ('c, 'd, 'f) Framebuffer =
  info :: "('c, 'd, 'f) SurfaceInfo"
  data :: FramebufferData

text \<open>
  What \<^verbatim>\<open>onResize\<close> takes from outside the sources: \<open>scaleU32 x s\<close> is the value of
  \<^verbatim>\<open>u32(x * s)\<close> for the \<^verbatim>\<open>f64\<close> \<open>s\<close>; \<open>glColorFormat\<close> and \<open>glDepthFormat\<close> are the two
  enumeration translations declared in gl_header.hpp (fatal on an unmapped value);
  \<open>hasStencil\<close> is \<^verbatim>\<open>FormatHelper::hasStencil\<close>; \<open>depthNONE\<close> is \<^verbatim>\<open>DepthFormat::NONE\<close>; and
  \<open>checkStatus\<close> is the driver's answer to \<^verbatim>\<open>glCheckFramebufferStatus\<close> after the calls made so
  far.
\<close>

record ('c, 'd, 'f) Backend =
  scaleU32 :: "u32 \<Rightarrow> 'f \<Rightarrow> u32"
  glColorFormat :: "'c \<Rightarrow> error + GLenum"
  glDepthFormat :: "'d \<Rightarrow> error + GLenum"
  hasStencil :: "'d \<Rightarrow> bool"
  depthNONE :: 'd
  checkStatus :: "glcall list \<Rightarrow> GLenum"

text \<open>The deletions at the head of \<^verbatim>\<open>onResize\<close>: each handle that is not 0 is deleted.\<close>

definition releaseCalls :: "('c, 'd, 'f) Framebuffer \<Rightarrow> glcall list" where
  "releaseCalls fb =
     (if index (data fb) \<noteq> 0 then [GlDeleteFramebuffers (index (data fb))] else [])
     @ (if depth (data fb) \<noteq> 0
        then (if keepDepth (info fb) then [GlDeleteTextures (depth (data fb))]
              else [GlDeleteRenderbuffers (depth (data fb))])
        else [])
     @ map GlDeleteTextures (filter (\<lambda>t. t \<noteq> 0) (renderTextures (data fb)))"

text \<open>The depth/stencil attachment; the result is the new value of \<^verbatim>\<open>data->depth\<close>.\<close>

definition allocDepth ::
  "('c, 'd, 'f) Backend \<Rightarrow> ('c, 'd, 'f) SurfaceInfo \<Rightarrow> Vec2u \<Rightarrow> GLuint \<Rightarrow> GL
     \<Rightarrow> error + (GLuint \<times> GL)" where
  "allocDepth B nfo sz old gl =
     (if depthFormat nfo \<noteq> depthNONE B then
        (if keepDepth nfo then
           (let (d, gl1) = genName GlGenTextures gl;
                gl2 = emit (GlObjectLabel GL_TEXTURE d)
                        (emit (GlBindTexture GL_TEXTURE_2D_MULTISAMPLE d) gl1)
            in case glDepthFormat B (depthFormat nfo) of
                 Inl e \<Rightarrow> Inl e
               | Inr f \<Rightarrow>
                   Inr (d, emit (GlFramebufferTexture GL_FRAMEBUFFER GL_DEPTH_ATTACHMENT d)
                          (emit (GlTexImage2DMultisample GL_TEXTURE_2D_MULTISAMPLE
                                   (samples nfo) f (fst sz) (snd sz)) gl2)))
         else
           (let (d, gl1) = genName GlGenRenderbuffers gl;
                gl2 = emit (GlObjectLabel GL_RENDERBUFFER d)
                        (emit (GlBindRenderbuffer GL_RENDERBUFFER d) gl1)
            in case glDepthFormat B (depthFormat nfo) of
                 Inl e \<Rightarrow> Inl e
               | Inr f \<Rightarrow>
                   Inr (d, emit (GlFramebufferRenderbuffer GL_FRAMEBUFFER
                                   (if hasStencil B (depthFormat nfo)
                                    then GL_DEPTH_STENCIL_ATTACHMENT else GL_DEPTH_ATTACHMENT)
                                   GL_RENDERBUFFER d)
                          (emit (GlRenderbufferStorageMultisample GL_RENDERBUFFER
                                   (samples nfo) f (fst sz) (snd sz)) gl2))))
      else Inr (old, gl))"

text \<open>
  The loop over the colour formats, from index \<open>i\<close>: the textures generated and the draw
  buffers named so far are accumulated in \<open>rts\<close> and \<open>dbs\<close>.
\<close>

fun allocColors ::
  "('c, 'd, 'f) Backend \<Rightarrow> u32 \<Rightarrow> Vec2u \<Rightarrow> 'c list \<Rightarrow> nat \<Rightarrow> GLuint list \<Rightarrow> GLenum list \<Rightarrow> GL
     \<Rightarrow> error + (GLuint list \<times> GLenum list \<times> GL)" where
  "allocColors B smp sz [] i rts dbs gl = Inr (rts, dbs, gl)"
| "allocColors B smp sz (c # cs) i rts dbs gl =
     (let (tex, gl1) = genName GlGenTextures gl;
          gl2 = emit (GlBindTexture GL_TEXTURE_2D_MULTISAMPLE tex) gl1
      in case glColorFormat B c of
           Inl e \<Rightarrow> Inl e
         | Inr f \<Rightarrow>
             (let gl3 = emit (GlTexImage2DMultisample GL_TEXTURE_2D_MULTISAMPLE smp f
                                (fst sz) (snd sz)) gl2;
                  gl4 = emit (GlObjectLabel GL_TEXTURE tex) gl3;
                  att = GL_COLOR_ATTACHMENT0 + of_nat i;
                  gl5 = emit (GlFramebufferTexture GL_FRAMEBUFFER att tex) gl4
              in allocColors B smp sz cs (Suc i) (rts @ [tex]) (dbs @ [att]) gl5))"

definition onResize ::
  "('c, 'd, 'f) Backend \<Rightarrow> Vec2u \<Rightarrow> ('c, 'd, 'f) Framebuffer \<times> GL
     \<Rightarrow> error + (('c, 'd, 'f) Framebuffer \<times> GL)" where
  "onResize B siz s =
     (let (fb, gl) = s;
          sz = (scaleU32 B (fst siz) (viewportScale (info fb)),
                scaleU32 B (snd siz) (viewportScale (info fb)))
      in if size_info (info fb) = sz \<or> \<not> isDynamic (info fb) then Inr (fb, gl)
         else
           (let nfo = (info fb)\<lparr>size_info := sz\<rparr>;
                gl1 = gl\<lparr>calls := calls gl @ releaseCalls fb\<rparr>
            in if fst sz = 0
               then Inr (\<lparr>info = nfo, data = (data fb)\<lparr>index := 0, depth := 0\<rparr>\<rparr>, gl1)
               else
                 (let (idx, gl2) = genName GlGenFramebuffers gl1;
                      gl3 = emit (GlObjectLabel GL_FRAMEBUFFER idx)
                              (emit (GlBindFramebuffer GL_FRAMEBUFFER idx) gl2)
                  in case allocDepth B nfo sz (depth (data fb)) gl3 of
                       Inl e \<Rightarrow> Inl e
                     | Inr (dep, gl4) \<Rightarrow>
                         (case allocColors B (samples nfo) sz (colorFormats nfo) 0 [] [] gl4 of
                            Inl e \<Rightarrow> Inl e
                          | Inr (rts, dbs, gl5) \<Rightarrow>
                              (let gl6 = emit (GlDrawBuffers dbs) gl5;
                                   status = checkStatus B (calls gl6);
                                   gl7 = emit (GlCheckFramebufferStatus status) gl6
                               in if status \<noteq> GL_FRAMEBUFFER_COMPLETE
                                  then Inl (Fatal ''Couldn't create framebuffer'')
                                  else Inr (\<lparr>info = nfo,
                                             data = \<lparr>index = idx, depth = dep,
                                                     renderTextures = rts\<rparr>\<rparr>, gl7))))))"

text \<open>
  A backend for concrete runs: the scale is a whole number, every format translates to itself,
  depth format 0 is \<^verbatim>\<open>NONE\<close>, and the driver reports every framebuffer complete.
\<close>

definition wholeB :: "(GLenum, GLenum, u32) Backend" where
  "wholeB =
     \<lparr> scaleU32 = (\<lambda>x s. x * s),
       glColorFormat = (\<lambda>c. Inr c),
       glDepthFormat = (\<lambda>d. Inr d),
       hasStencil = (\<lambda>d. False),
       depthNONE = 0,
       checkStatus = (\<lambda>cs. GL_FRAMEBUFFER_COMPLETE) \<rparr>"

definition fbInfo :: "bool \<Rightarrow> (GLenum, GLenum, u32) SurfaceInfo" where
  "fbInfo dyn =
     \<lparr> size_info = (4, 4), colorFormats = [0x8058], depthFormat = 0, keepDepth = False,
       samples = 1, isDynamic = dyn, viewportScale = 1 \<rparr>"

definition fbLive :: "bool \<Rightarrow> (GLenum, GLenum, u32) Framebuffer" where
  "fbLive dyn = \<lparr>info = fbInfo dyn, data = \<lparr>index = 3, depth = 0, renderTextures = [7]\<rparr>\<rparr>"

subsection \<open>The scaled size in binary64\<close>

text \<open>
  \<^verbatim>\<open>info.viewportScale\<close> is an \<^verbatim>\<open>f64\<close> and the computed size is \<^verbatim>\<open>u32(siz[i] * info.viewportScale)\<close>:
  the \<^verbatim>\<open>u32\<close> is converted to binary64 (exactly), the product is rounded to 53 significant
  bits, to nearest with ties to even, and the conversion to \<^verbatim>\<open>u32\<close> truncates towards zero and
  is undefined when the truncated value is not a \<^verbatim>\<open>u32\<close>. A finite binary64 is a sign, a
  significand and an exponent, of value \<open>\<plusminus> m * 2 ^ e\<close>. The exponent is not bounded here: a
  product that would overflow to an infinity, or underflow, converts to \<^verbatim>\<open>u32\<close> as the rounded
  product of unbounded exponent does (out of range, or 0).
\<close>

datatype f64 = Finite bool nat int | Infinite bool | NaN

text \<open>The number of bits of a significand.\<close>

fun bitlen :: "nat \<Rightarrow> nat" where
  "bitlen n = (if n = 0 then 0 else Suc (bitlen (n div 2)))"

declare bitlen.simps [simp del]

text \<open>\<open>rne M k\<close> is \<open>M / 2 ^ k\<close> rounded to nearest, ties to even.\<close>

definition rne :: "nat \<Rightarrow> nat \<Rightarrow> nat" where
  "rne M k =
     (let q = M div 2 ^ k; r = M mod 2 ^ k
      in if 2 ^ k < 2 * r \<or> (2 * r = 2 ^ k \<and> odd q) then q + 1 else q)"

definition round53 :: "bool \<Rightarrow> nat \<Rightarrow> int \<Rightarrow> f64" where
  "round53 sg M e = (let k = bitlen M - 53 in Finite sg (rne M k) (e + int k))"

fun f64_mul :: "f64 \<Rightarrow> f64 \<Rightarrow> f64" where
  "f64_mul (Finite s1 m1 e1) (Finite s2 m2 e2) = round53 (s1 \<noteq> s2) (m1 * m2) (e1 + e2)"
| "f64_mul (Finite s1 m1 e1) (Infinite s2) = (if m1 = 0 then NaN else Infinite (s1 \<noteq> s2))"
| "f64_mul (Infinite s1) (Finite s2 m2 e2) = (if m2 = 0 then NaN else Infinite (s1 \<noteq> s2))"
| "f64_mul (Infinite s1) (Infinite s2) = Infinite (s1 \<noteq> s2)"
| "f64_mul NaN y = NaN"
| "f64_mul x NaN = NaN"

definition f64_of_u32 :: "u32 \<Rightarrow> f64" where
  "f64_of_u32 x = Finite False (unat x) 0"

text \<open>The conversion to \<^verbatim>\<open>u32\<close>; \<open>None\<close> where the source's behaviour is undefined.\<close>

fun u32_of_f64 :: "f64 \<Rightarrow> u32 option" where
  "u32_of_f64 (Finite sg m e) =
     (let t = (if 0 \<le> e then m * 2 ^ nat e else m div 2 ^ nat (- e))
      in if t = 0 then Some 0
         else if sg \<or> 2 ^ 32 \<le> t then None
         else Some (of_nat t))"
| "u32_of_f64 (Infinite sg) = None"
| "u32_of_f64 NaN = None"

definition f64_scaleU32 :: "u32 \<Rightarrow> f64 \<Rightarrow> u32 option" where
  "f64_scaleU32 x s = u32_of_f64 (f64_mul (f64_of_u32 x) s)"

text \<open>The real number a binary64 stands for (0 for an infinity or a NaN).\<close>

fun valof :: "f64 \<Rightarrow> real" where
  "valof (Finite sg m e) =
     (if sg then - 1 else 1) * (if 0 \<le> e then real m * 2 ^ nat e else real m / 2 ^ nat (- e))"
| "valof (Infinite sg) = 0"
| "valof NaN = 0"

text \<open>
  A backend computes the scaled size in binary64 when its \<open>scaleU32\<close> is the conversion
  wherever that is defined.
\<close>

definition ieeeScale :: "('c, 'd, f64) Backend \<Rightarrow> bool" where
  "ieeeScale B = (\<forall>x s r. f64_scaleU32 x s = Some r \<longrightarrow> scaleU32 B x s = r)"

text \<open>
  Concrete runs in binary64: the scales 0.5 and the binary64 nearest to 0.7, a backend as
  \<open>wholeB\<close> with the binary64 scaling (0 where the conversion is undefined; the runs below stay
  in the defined range), and a live dynamic surface of size 4 x 4.
\<close>

definition half :: f64 where
  "half = Finite False 1 (- 1)"

definition seventenths :: f64 where
  "seventenths = Finite False 6305039478318694 (- 53)"

definition ieeeB :: "(GLenum, GLenum, f64) Backend" where
  "ieeeB =
     \<lparr> scaleU32 = (\<lambda>x s. case f64_scaleU32 x s of None \<Rightarrow> 0 | Some r \<Rightarrow> r),
       glColorFormat = (\<lambda>c. Inr c),
       glDepthFormat = (\<lambda>d. Inr d),
       hasStencil = (\<lambda>d. False),
       depthNONE = 0,
       checkStatus = (\<lambda>cs. GL_FRAMEBUFFER_COMPLETE) \<rparr>"

definition fbScaled :: "f64 \<Rightarrow> (GLenum, GLenum, f64) Framebuffer" where
  "fbScaled s =
     \<lparr> info = \<lparr> size_info = (4, 4), colorFormats = [0x8058], depthFormat = 0,
                keepDepth = False, samples = 1, isDynamic = True, viewportScale = s \<rparr>,
       data = \<lparr>index = 3, depth = 0, renderTextures = [7]\<rparr> \<rparr>"

text \<open>
  A live dynamic surface with a depth attachment (format \<^verbatim>\<open>0x81A6\<close>, handle 5), kept as a
  texture or not, and two colour formats; and a backend as \<open>wholeB\<close> whose depth formats have a
  stencil part.
\<close>

definition fbDepth :: "bool \<Rightarrow> (GLenum, GLenum, u32) Framebuffer" where
  "fbDepth keep =
     \<lparr> info = \<lparr> size_info = (4, 4), colorFormats = [0x8058, 0x881A], depthFormat = 0x81A6,
                keepDepth = keep, samples = 4, isDynamic = True, viewportScale = 1 \<rparr>,
       data = \<lparr>index = 3, depth = 5, renderTextures = [7, 0, 9]\<rparr> \<rparr>"

definition stencilB :: "(GLenum, GLenum, u32) Backend" where
  "stencilB = wholeB\<lparr>hasStencil := (\<lambda>d. True)\<rparr>"

section \<open>PrimitiveBuffer (primitive_buffer.cpp)\<close>

datatype GPUBufferType =
  UNIFORM | VERTEX | INDEX | STRUCTURED | STORAGE | INDIRECT_DRAW | INDIRECT_DISPATCH

text \<open>
  A \<^verbatim>\<open>GPUBuffer\<close> as the constructor sees it: its kind, its \<^verbatim>\<open>size()\<close> and its reference count.
  Buffers are held by value in the layout that points at them.
\<close>

record GPUBuffer =
  btype :: GPUBufferType
  bsize :: usz
  refCount :: nat

text \<open>
  \<^verbatim>\<open>BufferAttributes\<close> and \<^verbatim>\<open>BufferLayout\<close> are declared in buffer_layout.hpp, which is not among
  the sources. \<^verbatim>\<open>BufferAttributes\<close> is the list of its attributes (\<^verbatim>\<open>index\<close>, \<^verbatim>\<open>format\<close>, \<^verbatim>\<open>offset\<close>,
  as \<^verbatim>\<open>glxGenerateVao\<close> reads them) and \<^verbatim>\<open>!=\<close> on it is inequality of the lists; \<^verbatim>\<open>BufferLayout\<close>
  has the fields the code uses.
\<close>

record 'fmt Attribute =
  index_attr :: u32
  format_attr :: 'fmt
  offset_attr :: u32

type_synonym 'fmt BufferAttributes = "'fmt Attribute list"

record 'fmt BufferLayout =
  initData :: "u8 list"
  formats :: "'fmt BufferAttributes"
  buffer :: "GPUBuffer option"
  bufferOffset :: usz
  elements :: u32

record 'fmt PrimitiveBufferInfo =
  vertexLayout :: "'fmt BufferLayout list"
  indexLayout :: "'fmt BufferLayout"

text \<open>
  What the constructor takes from the absent headers: \<open>layoutSize\<close> is \<^verbatim>\<open>BufferLayout::size()\<close>,
  \<open>hasIndices\<close> is \<^verbatim>\<open>PrimitiveBuffer::hasIndices()\<close>, and \<open>indexFormats\<close> are the four enumerators
  \<^verbatim>\<open>R32u\<close>, \<^verbatim>\<open>R32i\<close>, \<^verbatim>\<open>R16u\<close>, \<^verbatim>\<open>R16i\<close> of \<^verbatim>\<open>GPUFormat\<close>.
\<close>

record 'fmt LayoutOps =
  layoutSize :: "'fmt BufferLayout \<Rightarrow> usz"
  hasIndices :: "'fmt PrimitiveBufferInfo \<Rightarrow> bool"
  indexFormats :: "'fmt list"

text \<open>
  Modelled from the spec: \<^verbatim>\<open>new GPUBuffer(g, name, GPUBuffer::Info(initData, type, usage))\<close> runs
  code of gpu_buffer.hpp, which is not among the sources. The spec has the buffer "sized to
  the layout's data" and owned with one reference once the constructor has taken its
  reference: the new buffer has the size of \<^verbatim>\<open>initData\<close> and no reference yet.
\<close>

definition newGPUBuffer :: "u8 list \<Rightarrow> GPUBufferType \<Rightarrow> GPUBuffer" where
  "newGPUBuffer init t = \<lparr>btype = t, bsize = of_nat (length init), refCount = 0\<rparr>"

definition addRef :: "GPUBuffer \<Rightarrow> GPUBuffer" where
  "addRef b = b\<lparr>refCount := Suc (refCount b)\<rparr>"

text \<open>
  The layout after \<^verbatim>\<open>it.buffer = new GPUBuffer(...)\<close> and \<^verbatim>\<open>it.initData.clear()\<close>.
\<close>

definition allocated :: "'fmt BufferLayout \<Rightarrow> 'fmt BufferLayout" where
  "allocated it = it\<lparr>initData := [], buffer := Some (newGPUBuffer (initData it) VERTEX)\<rparr>"

text \<open>
  One turn of the loop over \<^verbatim>\<open>info.vertexLayout\<close>: from the baseline \<open>els\<close> (the local
  \<^verbatim>\<open>elements\<close>) and the layout, the new baseline and the layout as the object keeps it. The
  first stage is the branch on \<^verbatim>\<open>it.buffer\<close>, which also yields the buffer \<^verbatim>\<open>it.buffer\<close> then points
  at; the second is the size check and \<^verbatim>\<open>addRef\<close>.
\<close>

definition vertexStep ::
  "'fmt LayoutOps \<Rightarrow> usz \<Rightarrow> 'fmt BufferLayout \<Rightarrow> error + (usz \<times> 'fmt BufferLayout)" where
  "vertexStep ops els it =
     (case (case buffer it of
              None \<Rightarrow>
                (let it1 = allocated it
                 in if layoutSize ops it1 = 0 then Inl (Fatal ''Invalid primitive buffer size'')
                    else if els = 0
                      then Inr (ucast (elements it1), it1, newGPUBuffer (initData it) VERTEX)
                    else if els \<noteq> ucast (elements it1)
                      then Inl (Fatal ''Invalid primitive buffer size'')
                    else Inr (els, it1, newGPUBuffer (initData it) VERTEX))
            | Some b \<Rightarrow>
                if btype b \<noteq> VERTEX then Inl (Fatal ''Invalid predefined vertex buffer'')
                else
                  (let els1 = (if els = 0 then ucast (elements it) else els)
                   in if els1 \<noteq> ucast (elements it) \<or> els1 = 0
                      then Inl (Fatal ''Invalid predefined vertex buffer size'')
                      else Inr (els1, it, b))) of
        Inl e \<Rightarrow> Inl e
      | Inr (els1, it1, b) \<Rightarrow>
          if bsize b \<noteq> layoutSize ops it1
          then Inl (Fatal ''Invalid primitive buffer size'')
          else Inr (els1, it1\<lparr>buffer := Some (addRef b)\<rparr>))"

fun vertexLoop ::
  "'fmt LayoutOps \<Rightarrow> usz \<Rightarrow> 'fmt BufferLayout list
     \<Rightarrow> error + (usz \<times> 'fmt BufferLayout list)" where
  "vertexLoop ops els [] = Inr (els, [])"
| "vertexLoop ops els (it # its) =
     (case vertexStep ops els it of
        Inl e \<Rightarrow> Inl e
      | Inr (els1, it1) \<Rightarrow>
          (case vertexLoop ops els1 its of
             Inl e \<Rightarrow> Inl e
           | Inr (els2, its1) \<Rightarrow> Inr (els2, it1 # its1)))"

text \<open>The index layout, when \<^verbatim>\<open>hasIndices()\<close> holds.\<close>

definition indexStep :: "'fmt LayoutOps \<Rightarrow> 'fmt BufferLayout \<Rightarrow> error + 'fmt BufferLayout" where
  "indexStep ops il =
     (case (case buffer il of
              None \<Rightarrow>
                Inr (il\<lparr>initData := [], buffer := Some (newGPUBuffer (initData il) INDEX)\<rparr>)
            | Some b \<Rightarrow>
                if btype b \<noteq> INDEX then Inl (Fatal ''Invalid predefined index buffer'')
                else Inr (il\<lparr>buffer := Some (addRef b)\<rparr>)) of
        Inl e \<Rightarrow> Inl e
      | Inr il1 \<Rightarrow>
          (case formats il1 of
             [a] \<Rightarrow>
               if format_attr a \<in> set (indexFormats ops) then Inr il1
               else Inl (Fatal ''Index buffer requires a 32 or 16 bit (unsigned) int format'')
           | _ \<Rightarrow> Inl (Fatal ''Index buffer requires one format'')))"

text \<open>The constructor: the object is its \<^verbatim>\<open>info\<close> after construction.\<close>

definition PrimitiveBuffer_ctor ::
  "'fmt LayoutOps \<Rightarrow> 'fmt PrimitiveBufferInfo \<Rightarrow> error + 'fmt PrimitiveBufferInfo" where
  "PrimitiveBuffer_ctor ops inf0 =
     (case vertexLoop ops 0 (vertexLayout inf0) of
        Inl e \<Rightarrow> Inl e
      | Inr (els, vl) \<Rightarrow>
          if length (vertexLayout inf0) = 0
          then Inl (Fatal ''Primitive buffer requires at least one vertex buffer'')
          else
            (let inf1 = inf0\<lparr>vertexLayout := vl\<rparr>
             in if hasIndices ops inf1
                then (case indexStep ops (indexLayout inf1) of
                        Inl e \<Rightarrow> Inl e
                      | Inr il \<Rightarrow> Inr (inf1\<lparr>indexLayout := il\<rparr>))
                else Inr inf1))"

text \<open>
  \<^verbatim>\<open>matchLayout\<close>: the loop runs over the indices of the candidate list and reads
  \<^verbatim>\<open>info.vertexLayout[i]\<close> unchecked; reading past the end of the vertex layouts is undefined
  behaviour in the source and the result \<open>OutOfRange\<close> here. The two lists are walked in
  step, which is the loop over \<open>i\<close>.
\<close>

datatype 'r access = OutOfRange | Returns 'r

fun matchLoop :: "'fmt BufferAttributes list \<Rightarrow> 'fmt BufferLayout list \<Rightarrow> bool access" where
  "matchLoop [] vs = Returns True"
| "matchLoop (l # ls) [] = OutOfRange"
| "matchLoop (l # ls) (v # vs) =
     (if l \<noteq> formats v then Returns False else matchLoop ls vs)"

definition matchLayout ::
  "'fmt PrimitiveBufferInfo \<Rightarrow> 'fmt BufferAttributes list \<Rightarrow> bool access" where
  "matchLayout pb layout = matchLoop layout (vertexLayout pb)"

text \<open>
  The checks a vertex layout has to pass on its own, and the index layout's: what the
  constructor requires besides the agreement of the element counts.
\<close>

definition vertexLayoutValid :: "'fmt LayoutOps \<Rightarrow> 'fmt BufferLayout \<Rightarrow> bool" where
  "vertexLayoutValid ops it =
     (case buffer it of
        None \<Rightarrow> layoutSize ops (allocated it) \<noteq> 0
               \<and> of_nat (length (initData it)) = layoutSize ops (allocated it)
      | Some b \<Rightarrow> btype b = VERTEX \<and> bsize b = layoutSize ops it)"

definition indexLayoutValid :: "'fmt LayoutOps \<Rightarrow> 'fmt PrimitiveBufferInfo \<Rightarrow> bool" where
  "indexLayoutValid ops inf0 =
     (\<forall>vl. hasIndices ops (inf0\<lparr>vertexLayout := vl\<rparr>) \<longrightarrow>
           (\<exists>il. indexStep ops (indexLayout inf0) = Inr il))"

text \<open>
  Concrete layouts: four bytes per element, an index layout is present when it names a
  format, and formats are numbered. \<open>autoLayout n\<close> brings \<open>4 * n\<close> bytes of initial data,
  \<open>givenLayout t n\<close> a supplied buffer of kind \<open>t\<close> holding \<open>n\<close> elements.
\<close>

definition wordOps :: "nat LayoutOps" where
  "wordOps =
     \<lparr> layoutSize = (\<lambda>it. 4 * ucast (elements it)),
       hasIndices = (\<lambda>i. formats (indexLayout i) \<noteq> []),
       indexFormats = [32, 33, 16, 17] \<rparr>"

definition posAttrs :: "nat BufferAttributes" where
  "posAttrs = [\<lparr>index_attr = 0, format_attr = 5, offset_attr = 0\<rparr>]"

definition uvAttrs :: "nat BufferAttributes" where
  "uvAttrs = [\<lparr>index_attr = 1, format_attr = 6, offset_attr = 0\<rparr>]"

definition autoLayout :: "nat \<Rightarrow> nat BufferLayout" where
  "autoLayout n =
     \<lparr> initData = replicate (4 * n) 0, formats = posAttrs, buffer = None,
       bufferOffset = 0, elements = of_nat n \<rparr>"

definition givenLayout :: "GPUBufferType \<Rightarrow> nat \<Rightarrow> nat BufferLayout" where
  "givenLayout t n =
     \<lparr> initData = [], formats = uvAttrs,
       buffer = Some \<lparr>btype = t, bsize = 4 * of_nat n, refCount = 1\<rparr>,
       bufferOffset = 0, elements = of_nat n \<rparr>"

definition noIndex :: "nat BufferLayout" where
  "noIndex = \<lparr>initData = [], formats = [], buffer = None, bufferOffset = 0, elements = 0\<rparr>"

definition pbInfo :: "nat BufferLayout list \<Rightarrow> nat PrimitiveBufferInfo" where
  "pbInfo vl = \<lparr>vertexLayout = vl, indexLayout = noIndex\<rparr>"

section \<open>Descriptor resolution (glxBindDescriptors, part 001)\<close>

text \<open>
  Of \<^verbatim>\<open>ResourceType\<close> (enums.hpp, absent) the code names \<^verbatim>\<open>CBUFFER\<close> only; the other enumerators
  are told apart by a number.
\<close>

datatype ResourceType = CBUFFER | OTHER_RESOURCE nat

record RegisterLayout =
  globalId :: u32
  localId :: u32
  type_reg :: ResourceType
  isWritable :: bool

datatype TextureType =
    TEXTURE_CUBE | TEXTURE_1D | TEXTURE_2D | TEXTURE_3D | TEXTURE_MS
  | TEXTURE_CUBE_ARRAY | TEXTURE_1D_ARRAY | TEXTURE_2D_ARRAY | TEXTURE_MS_ARRAY

definition glxTextureType :: "TextureType \<Rightarrow> GLenum" where
  "glxTextureType t =
     (case t of
        TEXTURE_CUBE \<Rightarrow> 0x8513
      | TEXTURE_1D \<Rightarrow> 0x0DE0
      | TEXTURE_2D \<Rightarrow> 0x0DE1
      | TEXTURE_3D \<Rightarrow> 0x806F
      | TEXTURE_MS \<Rightarrow> 0x9100
      | TEXTURE_CUBE_ARRAY \<Rightarrow> 0x9009
      | TEXTURE_1D_ARRAY \<Rightarrow> 0x8C18
      | TEXTURE_2D_ARRAY \<Rightarrow> 0x8C1A
      | TEXTURE_MS_ARRAY \<Rightarrow> 0x9102)"

record TextureRange =
  minLevel :: u32
  levelCount :: u32
  minLayer :: u32
  layerCount :: u32
  subType :: TextureType

text \<open>
  A texture as the resolver reads it: its identity, its handle and its format. The list
  \<^verbatim>\<open>textureViews\<close> of its \<^verbatim>\<open>Data\<close> is the one mutable part and lives in a store keyed by the
  identity.
\<close>

record 'fmt Texture =
  tid :: nat
  thandle :: GLuint
  tformat :: 'fmt

text \<open>
  What \<^verbatim>\<open>dynamic_cast\<close> finds behind \<^verbatim>\<open>subres.resource\<close>: a buffer or a sampler (their handles), a
  texture, or something else; \<^verbatim>\<open>nullptr\<close> is \<open>None\<close>.
\<close>

datatype 'fmt GPUResource =
  ResBuffer GLuint | ResSampler GLuint | ResTexture "'fmt Texture" | ResOther

record 'fmt Subresource =
  resource :: "'fmt GPUResource option"
  bufferRange :: "usz \<times> usz"
  textureRange :: TextureRange
  samplerTexture :: "'fmt Texture option"

record 'fmt DescriptorsInfo =
  layoutRegisters :: "RegisterLayout list"
  resources :: "u32 \<rightharpoonup> 'fmt Subresource"

type_synonym ViewStore = "nat \<Rightarrow> (TextureRange \<times> GLuint) list"

text \<open>The key of \<^verbatim>\<open>boundByBase\<close>: \<^verbatim>\<open>(u64(localId) << 32) | bindPoint\<close>.\<close>

definition baseKey :: "u32 \<Rightarrow> GLenum \<Rightarrow> u64" where
  "baseKey lid bindPoint = push_bit 32 (ucast lid) OR ucast bindPoint"

text \<open>The buffer branch: bind the range unless the cache holds the same triple.\<close>

definition bindBufferRange ::
  "RegisterLayout \<Rightarrow> GLuint \<Rightarrow> usz \<times> usz \<Rightarrow> 'n GLContext \<times> GL \<Rightarrow> 'n GLContext \<times> GL" where
  "bindBufferRange reg h rng s =
     (let (ctx, gl) = s;
          off = fst rng; sz = snd rng;
          bindPoint = (if type_reg reg = CBUFFER then GL_UNIFORM_BUFFER
                       else GL_SHADER_STORAGE_BUFFER);
          key = baseKey (localId reg) bindPoint;
          m = touchRange (boundByBase ctx) key;
          bnd = rangeAt m key
      in if handle bnd = h \<and> offset bnd = off \<and> size_range bnd = sz
         then (ctx\<lparr>boundByBase := m\<rparr>, gl)
         else (ctx\<lparr>boundByBase := m(key \<mapsto> \<lparr>handle = h, offset = off, size_range = sz\<rparr>)\<rparr>,
               emit (GlBindBufferRange bindPoint (localId reg) h off sz) gl))"

text \<open>The sampler branch: deduplicated by handle alone.\<close>

definition bindSamplerHandle ::
  "RegisterLayout \<Rightarrow> GLuint \<Rightarrow> 'n GLContext \<times> GL \<Rightarrow> 'n GLContext \<times> GL" where
  "bindSamplerHandle reg h s =
     (let (ctx, gl) = s;
          key = baseKey (localId reg) GL_SAMPLER;
          m = touchRange (boundByBase ctx) key;
          bnd = rangeAt m key
      in if handle bnd \<noteq> h
         then (ctx\<lparr>boundByBase := m(key \<mapsto> bnd\<lparr>handle := h\<rparr>)\<rparr>,
               emit (GlBindSampler (localId reg) h) gl)
         else (ctx\<lparr>boundByBase := m\<rparr>, gl))"

text \<open>The first view of the texture made for exactly this range; 0 when there is none.\<close>

fun findView :: "(TextureRange \<times> GLuint) list \<Rightarrow> TextureRange \<Rightarrow> GLuint" where
  "findView [] r = 0"
| "findView ((r', v) # vs) r = (if r' = r then v else findView vs r)"

text \<open>
  The texture branch. \<open>cf\<close> is \<^verbatim>\<open>glxColorFormat\<close> as a function of the texture's format (fatal on
  an unmapped value; \<^verbatim>\<open>GPUFormat\<close> is declared in a header outside the sources).
\<close>

definition bindTexture ::
  "('fmt \<Rightarrow> error + GLenum) \<Rightarrow> RegisterLayout \<Rightarrow> 'fmt Texture \<Rightarrow> TextureRange
     \<Rightarrow> 'n GLContext \<times> GL \<times> ViewStore \<Rightarrow> error + ('n GLContext \<times> GL \<times> ViewStore)" where
  "bindTexture cf reg tex r s =
     (let (ctx, gl, views) = s;
          found = findView (views (tid tex)) r
      in case (if found = 0
               then (let (v, gl1) = genName GlGenTextures gl
                     in case cf (tformat tex) of
                          Inl e \<Rightarrow> Inl e
                        | Inr f \<Rightarrow>
                            Inr (v,
                                 emit (GlObjectLabel GL_TEXTURE v)
                                   (emit (GlTextureView v (glxTextureType (subType r))
                                            (thandle tex) f (minLevel r) (levelCount r)
                                            (minLayer r) (layerCount r)) gl1),
                                 views(tid tex := views (tid tex) @ [(r, v)])))
               else Inr (found, gl, views)) of
           Inl e \<Rightarrow> Inl e
         | Inr (v, gl2, views2) \<Rightarrow>
             if \<not> isWritable reg
             then (let key = baseKey (localId reg) GL_TEXTURE;
                       m = touchRange (boundByBase ctx) key;
                       bnd = rangeAt m key
                   in if handle bnd \<noteq> v
                      then Inr (ctx\<lparr>boundByBase := m(key \<mapsto> bnd\<lparr>handle := v\<rparr>)\<rparr>,
                                emit (GlBindTextureUnit (localId reg) v) gl2, views2)
                      else Inr (ctx\<lparr>boundByBase := m\<rparr>, gl2, views2))
             else (let key = baseKey (localId reg) GL_IMAGE_2D;
                       m = touchRange (boundByBase ctx) key;
                       bnd = rangeAt m key
                   in if handle bnd \<noteq> v
                      then (case cf (tformat tex) of
                              Inl e \<Rightarrow> Inl e
                            | Inr f \<Rightarrow>
                                Inr (ctx\<lparr>boundByBase := m(key \<mapsto> bnd\<lparr>handle := v\<rparr>)\<rparr>,
                                     emit (GlBindImageTexture (localId reg) v f) gl2, views2))
                      else Inr (ctx\<lparr>boundByBase := m\<rparr>, gl2, views2)))"

text \<open>One turn of the loop over the pipeline layout.\<close>

definition bindSlot ::
  "('fmt \<Rightarrow> error + GLenum) \<Rightarrow> (u32 \<rightharpoonup> 'fmt Subresource) \<Rightarrow> RegisterLayout
     \<Rightarrow> 'n GLContext \<times> GL \<times> ViewStore \<Rightarrow> error + ('n GLContext \<times> GL \<times> ViewStore)" where
  "bindSlot cf res reg s =
     (case res (globalId reg) of
        None \<Rightarrow> Inr s
      | Some subres \<Rightarrow>
          (let (ctx, gl, views) = s
           in case resource subres of
                Some (ResBuffer h) \<Rightarrow>
                  (let (ctx1, gl1) = bindBufferRange reg h (bufferRange subres) (ctx, gl)
                   in Inr (ctx1, gl1, views))
              | Some (ResSampler h) \<Rightarrow>
                  (let (ctx1, gl1) = bindSamplerHandle reg h (ctx, gl)
                   in case samplerTexture subres of
                        None \<Rightarrow> Inr (ctx1, gl1, views)
                      | Some tex \<Rightarrow>
                          bindTexture cf reg tex (textureRange subres) (ctx1, gl1, views))
              | Some (ResTexture tex) \<Rightarrow>
                  bindTexture cf reg tex (textureRange subres) (ctx, gl, views)
              | _ \<Rightarrow> Inr s))"

fun bindSlots ::
  "('fmt \<Rightarrow> error + GLenum) \<Rightarrow> (u32 \<rightharpoonup> 'fmt Subresource) \<Rightarrow> RegisterLayout list
     \<Rightarrow> 'n GLContext \<times> GL \<times> ViewStore \<Rightarrow> error + ('n GLContext \<times> GL \<times> ViewStore)" where
  "bindSlots cf res [] s = Inr s"
| "bindSlots cf res (reg # regs) s =
     (case bindSlot cf res reg s of
        Inl e \<Rightarrow> Inl e
      | Inr s1 \<Rightarrow> bindSlots cf res regs s1)"

definition glxBindDescriptors ::
  "('fmt \<Rightarrow> error + GLenum) \<Rightarrow> 'fmt DescriptorsInfo
     \<Rightarrow> 'n GLContext \<times> GL \<times> ViewStore \<Rightarrow> error + ('n GLContext \<times> GL \<times> ViewStore)" where
  "glxBindDescriptors cf d s = bindSlots cf (resources d) (layoutRegisters d) s"

text \<open>
  Concrete descriptors: slot 0 is a constant buffer bound at binding point 2, slot 1 is
  declared by the layout and bound to nothing.
\<close>

definition cbufferSlot :: RegisterLayout where
  "cbufferSlot = \<lparr>globalId = 0, localId = 2, type_reg = CBUFFER, isWritable = False\<rparr>"

definition unboundSlot :: RegisterLayout where
  "unboundSlot = \<lparr>globalId = 1, localId = 3, type_reg = OTHER_RESOURCE 0, isWritable = False\<rparr>"

definition bufferSub :: "GLuint \<Rightarrow> usz \<Rightarrow> usz \<Rightarrow> nat Subresource" where
  "bufferSub h off sz =
     \<lparr> resource = Some (ResBuffer h), bufferRange = (off, sz),
       textureRange = \<lparr>minLevel = 0, levelCount = 0, minLayer = 0, layerCount = 0,
                        subType = TEXTURE_2D\<rparr>,
       samplerTexture = None \<rparr>"

definition oneBuffer :: "GLuint \<Rightarrow> usz \<Rightarrow> usz \<Rightarrow> nat DescriptorsInfo" where
  "oneBuffer h off sz =
     \<lparr> layoutRegisters = [cbufferSlot, unboundSlot],
       resources = [0 \<mapsto> bufferSub h off sz] \<rparr>"

definition noViews :: ViewStore where
  "noViews = (\<lambda>t. [])"

definition anyFormat :: "nat \<Rightarrow> error + GLenum" where
  "anyFormat f = Inr (of_nat f)"

section \<open>Submission (gl_graphics.cpp)\<close>

text \<open>
  \<^verbatim>\<open>Graphics::Data::updateContext\<close>: the vertex arrays queued for deletion are deleted and erased,
  and the queue is cleared. \<^verbatim>\<open>context.vaos[del]\<close> is \<^verbatim>\<open>operator[]\<close>, 0 for a key that is absent.
\<close>

fun deleteVaos :: "nat list \<Rightarrow> (nat \<rightharpoonup> GLuint) \<times> GL \<Rightarrow> (nat \<rightharpoonup> GLuint) \<times> GL" where
  "deleteVaos [] s = s"
| "deleteVaos (del # dels) s =
     (let (m, gl) = s
      in deleteVaos dels
           (m(del := None),
            emit (GlDeleteVertexArrays (case m del of None \<Rightarrow> 0 | Some v \<Rightarrow> v)) gl))"

definition updateContext :: "'n GLContext \<times> GL \<Rightarrow> 'n GLContext \<times> GL" where
  "updateContext s =
     (let (ctx, gl) = s;
          (m, gl1) = deleteVaos (deletedVaos ctx) (vaos ctx, gl)
      in (ctx\<lparr>vaos := m, deletedVaos := []\<rparr>, gl1))"

text \<open>
  \<^verbatim>\<open>CommandList::execute\<close> is not among the sources: \<open>run\<close> is what executing one command list does
  to the context and the driver, or the fatal condition it ends in.
\<close>

fun executeAll ::
  "('cl \<Rightarrow> 'n GLContext \<times> GL \<Rightarrow> error + ('n GLContext \<times> GL)) \<Rightarrow> 'cl list
     \<Rightarrow> 'n GLContext \<times> GL \<Rightarrow> error + ('n GLContext \<times> GL)" where
  "executeAll run [] s = Inr s"
| "executeAll run (cl # cls) s =
     (case run cl s of
        Inl e \<Rightarrow> Inl e
      | Inr s1 \<Rightarrow> executeAll run cls s1)"

definition execute ::
  "('cl \<Rightarrow> 'n GLContext \<times> GL \<Rightarrow> error + ('n GLContext \<times> GL)) \<Rightarrow> 'cl list
     \<Rightarrow> 'n GLContext \<times> GL \<Rightarrow> error + ('n GLContext \<times> GL)" where
  "execute run commands s = executeAll run commands (updateContext s)"

text \<open>
  \<^verbatim>\<open>Graphics::present\<close>. The intermediate framebuffer and the swapchain are pointers: \<open>None\<close> is
  \<^verbatim>\<open>nullptr\<close>; of the swapchain only \<^verbatim>\<open>getInfo().size\<close> is read. The warning of the log and the
  swapchain's \<^verbatim>\<open>bind()\<close> and \<^verbatim>\<open>present()\<close> are events of the trace. \<^verbatim>\<open>oicAssert\<close> is taken to check
  its condition.
\<close>

definition noIntermediateWarning :: string where
  "noIntermediateWarning =
     ''Presenting without an intermediate is valid but won't provide any results to the swapchain''"

definition present ::
  "('cl \<Rightarrow> 'w word GLContext \<times> GL \<Rightarrow> error + ('w word GLContext \<times> GL))
     \<Rightarrow> ('c, 'd, 'f) Framebuffer option \<Rightarrow> Vec2u option \<Rightarrow> 'cl list
     \<Rightarrow> ('w :: len) word GLContext \<times> GL \<Rightarrow> error + ('w word GLContext \<times> GL)" where
  "present run intermediate swapchain commands s =
     (case swapchain of
        None \<Rightarrow> Inl (Fatal ''Couldn't present; invalid intermediate or swapchain'')
      | Some scSize \<Rightarrow>
          (let (ctx, gl) = s;
               gl1 = (case intermediate of
                        None \<Rightarrow> emit (LogWarn noIntermediateWarning) gl
                      | Some fb \<Rightarrow> gl)
           in if (case intermediate of
                    None \<Rightarrow> False
                  | Some fb \<Rightarrow> size_info (info fb) \<noteq> scSize)
              then Inl (Fatal ''Couldn't present; swapchain and intermediate aren't same size'')
              else
                (case execute run commands (ctx, emit SwapchainBind gl1) of
                   Inl e \<Rightarrow> Inl e
                 | Inr (ctx2, gl2) \<Rightarrow>
                     (case (case intermediate of
                              None \<Rightarrow> Inr (ctx2, gl2)
                            | Some fb \<Rightarrow>
                                if renderTextures (data fb) = []
                                then Inl (AssertFailed
                                       ''Framebuffer should have 1 render texture to copy'')
                                else
                                  (case glxSetViewportAndScissor scSize (0, 0) (ctx2, gl2) of
                                     Inl e \<Rightarrow> Inl e
                                   | Inr (ctx3, gl3) \<Rightarrow>
                                       (let sz = size_info (info fb)
                                        in Inr (ctx3\<lparr>bound := (bound ctx3)
                                                  (GL_READ_FRAMEBUFFER \<mapsto> index (data fb),
                                                   GL_DRAW_FRAMEBUFFER \<mapsto> 0)\<rparr>,
                                                emit (GlBlitNamedFramebuffer (index (data fb)) 0
                                                        [0, 0, fst sz, snd sz]
                                                        [0, snd sz, fst sz, 0]
                                                        GL_COLOR_BUFFER_BIT GL_LINEAR) gl3)))) of
                        Inl e \<Rightarrow> Inl e
                      | Inr (ctx4, gl4) \<Rightarrow>
                          Inr (ctx4\<lparr>frameId := frameId ctx4 + 1\<rparr>,
                               emit SwapchainPresent gl4)))))"

text \<open>
  Concrete runs: a command list is the list of native calls it makes, and executing it appends
  them to the trace.
\<close>

definition runCalls :: "glcall list \<Rightarrow> u64 GLContext \<times> GL \<Rightarrow> error + (u64 GLContext \<times> GL)" where
  "runCalls cl s = (let (ctx, gl) = s in Inr (ctx, gl\<lparr>calls := calls gl @ cl\<rparr>))"
section \<open>Pipeline classification\<close>

lemma isCompute_single:
  "isCompute E i \<longleftrightarrow> (\<exists>v. stages i = [(COMPUTE E, v)])"
  by (cases "stages i") (auto simp: isCompute_def hasStage_def)

lemma stage_set_single:
  assumes "distinct (map fst xs)"
  shows "fst ` set xs = {c} \<longleftrightarrow> (\<exists>v. xs = [(c, v)])"
proof
  assume h: "fst ` set xs = {c}"
  show "\<exists>v. xs = [(c, v)]"
  proof (cases xs)
    case Nil
    with h show ?thesis by simp
  next
    case (Cons x ys)
    have x: "fst x = c" using h Cons by auto
    have "ys = []"
    proof (cases ys)
      case Nil
      then show ?thesis .
    next
      case (Cons y zs)
      have "fst y = c" using h \<open>xs = x # ys\<close> Cons by auto
      with x assms \<open>xs = x # ys\<close> Cons show ?thesis by simp
    qed
    with Cons x show ?thesis by (cases x) auto
  qed
next
  assume "\<exists>v. xs = [(c, v)]"
  then show "fst ` set xs = {c}" by auto
qed

text \<open>
  Claim C9, as amended. A \<^verbatim>\<open>Pipeline::Info\<close> built by the compute constructor is classified
  compute and neither graphics nor raytracing. In general \<open>isCompute\<close> holds exactly when the
  stage set is \<open>{COMPUTE}\<close>; \<open>isRaytracing\<close> holds exactly when the stage \<^verbatim>\<open>stages.begin()\<close> yields,
  the first in the map's iteration order, has a raytracing tag bit, and this is the first
  declared stage's bit whenever the declared stages agree on that bit; \<open>isGraphics\<close> holds
  exactly when neither of the two does; and exactly one of the three holds. The enumerator
  \<^verbatim>\<open>COMPUTE\<close> carries no raytracing tag bit (\<^verbatim>\<open>glxShaderStage\<close> relies on it), and the keys of the
  stage map are distinct.
\<close>

theorem pipeline_classification:
  assumes E: "COMPUTE E AND PROPERTY_IS_RAYTRACING E = 0"
    and d: "distinct (map fst (stages i))"
  shows "isCompute E (Info_compute E f sh pl gs ep :: ('b, 'l, 'a) PipelineInfo)
       \<and> \<not> isGraphics E (Info_compute E f sh pl gs ep :: ('b, 'l, 'a) PipelineInfo)
       \<and> \<not> isRaytracing E (Info_compute E f sh pl gs ep :: ('b, 'l, 'a) PipelineInfo)
       \<and> (isCompute E i \<longleftrightarrow> fst ` set (stages i) = {COMPUTE E})
       \<and> (isRaytracing E i \<longleftrightarrow>
            stages i \<noteq> [] \<and> fst (hd (stages i)) AND PROPERTY_IS_RAYTRACING E \<noteq> 0)
       \<and> (\<forall>ds. holdsStages i ds
              \<and> (\<forall>st \<in> fst ` set ds.
                    (st AND PROPERTY_IS_RAYTRACING E \<noteq> 0)
                      = (fst (hd ds) AND PROPERTY_IS_RAYTRACING E \<noteq> 0)) \<longrightarrow>
            (isRaytracing E i \<longleftrightarrow>
               ds \<noteq> [] \<and> fst (hd ds) AND PROPERTY_IS_RAYTRACING E \<noteq> 0))
       \<and> (isGraphics E i \<longleftrightarrow> \<not> isCompute E i \<and> \<not> isRaytracing E i)
       \<and> ((isCompute E i \<and> \<not> isRaytracing E i \<and> \<not> isGraphics E i)
          \<or> (\<not> isCompute E i \<and> isRaytracing E i \<and> \<not> isGraphics E i)
          \<or> (\<not> isCompute E i \<and> \<not> isRaytracing E i \<and> isGraphics E i))"
proof -
  have c1: "isCompute E (Info_compute E f sh pl gs ep :: ('b, 'l, 'a) PipelineInfo)"
    by (simp add: isCompute_def hasStage_def Info_compute_def)
  have c2: "\<not> isRaytracing E (Info_compute E f sh pl gs ep :: ('b, 'l, 'a) PipelineInfo)"
    using E by (simp add: isRaytracing_def Info_compute_def)
  have c3: "\<not> isGraphics E (Info_compute E f sh pl gs ep :: ('b, 'l, 'a) PipelineInfo)"
    using c1 by (simp add: isGraphics_def)
  have s: "isCompute E i \<longleftrightarrow> fst ` set (stages i) = {COMPUTE E}"
    using stage_set_single [OF d] by (simp add: isCompute_single)
  have r: "isRaytracing E i \<longleftrightarrow>
      stages i \<noteq> [] \<and> fst (hd (stages i)) AND PROPERTY_IS_RAYTRACING E \<noteq> 0"
    by (cases "stages i") (auto simp: isRaytracing_def)
  have o: "isRaytracing E i \<longleftrightarrow> ds \<noteq> [] \<and> fst (hd ds) AND PROPERTY_IS_RAYTRACING E \<noteq> 0"
    if h: "holdsStages i ds
      \<and> (\<forall>st \<in> fst ` set ds.
            (st AND PROPERTY_IS_RAYTRACING E \<noteq> 0)
              = (fst (hd ds) AND PROPERTY_IS_RAYTRACING E \<noteq> 0))" for ds
  proof (cases "stages i")
    case Nil
    with h have "ds = []" by (simp add: holdsStages_def)
    with Nil r show ?thesis by simp
  next
    case (Cons x xs)
    with h have "x \<in> set ds" by (auto simp: holdsStages_def)
    then have ne: "ds \<noteq> []" and "fst x \<in> fst ` set ds" by auto
    with h have "(fst x AND PROPERTY_IS_RAYTRACING E \<noteq> 0)
        = (fst (hd ds) AND PROPERTY_IS_RAYTRACING E \<noteq> 0)"
      by blast
    with Cons r ne show ?thesis by simp
  qed
  have excl: "\<not> (isCompute E i \<and> isRaytracing E i)"
    using E by (auto simp: isCompute_single isRaytracing_def)
  have g: "isGraphics E i \<longleftrightarrow> \<not> isCompute E i \<and> \<not> isRaytracing E i"
    by (simp add: isGraphics_def)
  from c1 c2 c3 s r o g excl show ?thesis by blast
qed

theorem pipeline_classification_witness:
  "isCompute stagesE (Info_compute stagesE 0 (0::nat) () (8, 8, 1) ''main''
        :: (nat, unit, unit) PipelineInfo)
   \<and> \<not> isGraphics stagesE (Info_compute stagesE 0 (0::nat) () (8, 8, 1) ''main''
        :: (nat, unit, unit) PipelineInfo)
   \<and> \<not> isCompute stagesE vertFragInfo
   \<and> \<not> isRaytracing stagesE vertFragInfo
   \<and> isGraphics stagesE vertFragInfo
   \<and> holdsStages rtLibInfo rtDeclared
   \<and> isRaytracing stagesE rtLibInfo
   \<and> \<not> isGraphics stagesE rtLibInfo"
proof -
  have h1: "COMPUTE stagesE AND PROPERTY_IS_RAYTRACING stagesE = 0"
    by (simp add: stagesE_def)
  have h2: "distinct (map fst (stages vertFragInfo))"
    by (simp add: vertFragInfo_def)
  have h3: "distinct (map fst (stages rtLibInfo))"
    by (simp add: rtLibInfo_def)
  have s: "fst ` set (stages vertFragInfo) \<noteq> {COMPUTE stagesE}"
    by (simp add: vertFragInfo_def stagesE_def)
  have r: "\<not> (fst (hd (stages vertFragInfo)) AND PROPERTY_IS_RAYTRACING stagesE \<noteq> 0)"
    by (simp add: vertFragInfo_def stagesE_def)
  have hs: "holdsStages rtLibInfo rtDeclared"
    by (auto simp: holdsStages_def rtLibInfo_def rtDeclared_def)
  have ag: "\<forall>st \<in> fst ` set rtDeclared.
      (st AND PROPERTY_IS_RAYTRACING stagesE \<noteq> 0)
        = (fst (hd rtDeclared) AND PROPERTY_IS_RAYTRACING stagesE \<noteq> 0)"
    by (simp add: rtDeclared_def stagesE_def)
  have fd: "rtDeclared \<noteq> [] \<and> fst (hd rtDeclared) AND PROPERTY_IS_RAYTRACING stagesE \<noteq> 0"
    by (simp add: rtDeclared_def stagesE_def)
  have a: "isCompute stagesE (Info_compute stagesE 0 (0::nat) () (8, 8, 1) ''main''
        :: (nat, unit, unit) PipelineInfo)
      \<and> \<not> isGraphics stagesE (Info_compute stagesE 0 (0::nat) () (8, 8, 1) ''main''
        :: (nat, unit, unit) PipelineInfo)
      \<and> \<not> isCompute stagesE vertFragInfo
      \<and> \<not> isRaytracing stagesE vertFragInfo
      \<and> isGraphics stagesE vertFragInfo"
    using pipeline_classification [OF h1 h2, of 0 "0::nat" "()" "(8, 8, 1)" "''main''"] s r
    by blast
  have b: "isRaytracing stagesE rtLibInfo \<and> \<not> isGraphics stagesE rtLibInfo"
    using pipeline_classification [OF h1 h3, of 0 "0::nat" "()" "(8, 8, 1)" "''main''"] hs ag fd
    by blast
  from a hs b show ?thesis by blast
qed

text \<open>
  Claim C9 as stated fails on the code: the stage read is the one the map iterates first,
  not the first declared. For the stages declared as a raytracing stage and then a vertex
  stage, held in a map that iterates the vertex stage first, the first declared stage has
  the raytracing bit and the Info is classified graphics.
\<close>

theorem pipeline_first_declared_counterexample:
  "holdsStages mixedInfo mixedDeclared
   \<and> fst (hd mixedDeclared) AND PROPERTY_IS_RAYTRACING stagesE \<noteq> 0
   \<and> \<not> isRaytracing stagesE mixedInfo
   \<and> isGraphics stagesE mixedInfo"
  by (auto simp: holdsStages_def mixedInfo_def mixedDeclared_def stagesE_def
      isRaytracing_def isGraphics_def isCompute_def hasStage_def)


section \<open>The trace of native calls\<close>

lemma calls_emit: "calls (emit c gl) = calls gl @ [c]"
  by (simp add: emit_def)

lemma nextName_emit: "nextName (emit c gl) = nextName gl"
  by (simp add: emit_def)

lemma calls_took: "calls (took mk gl) = calls gl @ [mk (nextName gl)]"
  by (simp add: took_def)

lemma nextName_took: "nextName (took mk gl) = nextName gl + 1"
  by (simp add: took_def)

section \<open>Widening a 32-bit count to the machine word\<close>

lemma unat_ucast_u32: "unat (ucast (x :: u32) :: usz) = unat x"
proof -
  have "unat x < 2 ^ 32" using unsigned_less [of x] by simp
  then have "unat x < 2 ^ 64" by simp
  then show ?thesis by (simp add: unsigned_ucast_eq take_bit_nat_eq_self)
qed

lemma ucast_u32_inj: "(ucast (x :: u32) :: usz) = ucast (y :: u32) \<longleftrightarrow> x = y"
proof
  assume "(ucast x :: usz) = ucast y"
  then have "unat (ucast x :: usz) = unat (ucast y :: usz)" by simp
  then have "unat x = unat y" by (simp add: unat_ucast_u32)
  then show "x = y" by (rule word_unat_eq_iff [THEN iffD2])
qed simp

lemma ucast_u32_0: "(ucast (x :: u32) :: usz) = 0 \<longleftrightarrow> x = 0"
  using ucast_u32_inj [of x 0] by simp

section \<open>Viewport and scissor state\<close>

lemma glxSetViewport_ok:
  assumes "glxSetViewport sz off (ctx, gl) = Inr (ctx', gl')"
  shows "enableScissor ctx' = enableScissor ctx \<and> scissorOff ctx' = scissorOff ctx
       \<and> scissorSize ctx' = scissorSize ctx \<and> viewportOff ctx' = off
       \<and> (fst sz \<noteq> 0 \<and> snd sz \<noteq> 0 \<longrightarrow> viewportSize ctx' = sz)
       \<and> (fst sz = 0 \<or> snd sz = 0 \<longrightarrow> currentFramebuffer ctx = Some (viewportSize ctx'))
       \<and> (\<exists>vp. calls gl' = calls gl @ vp
              \<and> (vp = [] \<or> vp = [GlViewport (fst off) (snd off)
                                     (fst (viewportSize ctx')) (snd (viewportSize ctx'))]))"
  using assms
  by (auto simp: glxSetViewport_def emit_def split: if_splits option.splits)

lemma glxSetViewport_returns:
  assumes "(fst sz \<noteq> 0 \<and> snd sz \<noteq> 0) \<or> currentFramebuffer ctx \<noteq> None"
  shows "\<exists>r. glxSetViewport sz off (ctx, gl) = Inr r"
  using assms
  by (auto simp: glxSetViewport_def split: option.splits)

text \<open>
  Claim C10. \<^verbatim>\<open>SetViewportAndScissor\<close> returns whenever the size is non-degenerate or a framebuffer
  is bound. When it returns, scissor testing is off on the context, \<^verbatim>\<open>glDisable(GL_SCISSOR_TEST)\<close>
  was issued exactly when it had been on, the only other call is at most one \<^verbatim>\<open>glViewport\<close>, the
  viewport state is the requested one, and the cached scissor offset and size are what they
  were. \<^verbatim>\<open>SetScissor\<close>, when it returns, leaves scissor testing on and the cached scissor rectangle
  equal to the requested one.
\<close>

theorem setViewportAndScissor_frame:
  "((fst sz \<noteq> 0 \<and> snd sz \<noteq> 0) \<or> currentFramebuffer ctx \<noteq> None \<longrightarrow>
      (\<exists>r. glxSetViewportAndScissor sz off (ctx, gl) = Inr r))
   \<and> (\<forall>ctx' gl'. glxSetViewportAndScissor sz off (ctx, gl) = Inr (ctx', gl') \<longrightarrow>
        \<not> enableScissor ctx'
        \<and> scissorOff ctx' = scissorOff ctx \<and> scissorSize ctx' = scissorSize ctx
        \<and> viewportOff ctx' = off
        \<and> (fst sz \<noteq> 0 \<and> snd sz \<noteq> 0 \<longrightarrow> viewportSize ctx' = sz)
        \<and> (fst sz = 0 \<or> snd sz = 0 \<longrightarrow> currentFramebuffer ctx = Some (viewportSize ctx'))
        \<and> (\<exists>vp. calls gl' =
                   calls gl @ (if enableScissor ctx then [GlDisable GL_SCISSOR_TEST] else []) @ vp
              \<and> (vp = [] \<or> vp = [GlViewport (fst off) (snd off)
                                     (fst (viewportSize ctx')) (snd (viewportSize ctx'))])))
   \<and> (\<forall>ctx' gl'. glxSetScissor sz off (ctx, gl) = Inr (ctx', gl') \<longrightarrow>
        enableScissor ctx' \<and> scissorOff ctx' = off
        \<and> (fst sz \<noteq> 0 \<and> snd sz \<noteq> 0 \<longrightarrow> scissorSize ctx' = sz)
        \<and> (fst sz = 0 \<or> snd sz = 0 \<longrightarrow> currentFramebuffer ctx = Some (scissorSize ctx'))
        \<and> viewportOff ctx' = viewportOff ctx \<and> viewportSize ctx' = viewportSize ctx)"
proof (intro conjI allI impI)
  assume "(fst sz \<noteq> 0 \<and> snd sz \<noteq> 0) \<or> currentFramebuffer ctx \<noteq> None"
  then show "\<exists>r. glxSetViewportAndScissor sz off (ctx, gl) = Inr r"
    using glxSetViewport_returns [of sz "ctx\<lparr>enableScissor := False\<rparr>" off]
      glxSetViewport_returns [of sz ctx off]
    by (simp add: glxSetViewportAndScissor_def)
next
  fix ctx' gl'
  assume r: "glxSetViewportAndScissor sz off (ctx, gl) = Inr (ctx', gl')"
  define ctx1 where "ctx1 = (if enableScissor ctx then ctx\<lparr>enableScissor := False\<rparr> else ctx)"
  define gl1 where "gl1 = (if enableScissor ctx then emit (GlDisable GL_SCISSOR_TEST) gl else gl)"
  have v: "glxSetViewport sz off (ctx1, gl1) = Inr (ctx', gl')"
    using r by (simp add: glxSetViewportAndScissor_def ctx1_def gl1_def split: if_splits)
  have c1: "\<not> enableScissor ctx1" "scissorOff ctx1 = scissorOff ctx"
    "scissorSize ctx1 = scissorSize ctx" "currentFramebuffer ctx1 = currentFramebuffer ctx"
    by (simp_all add: ctx1_def)
  have g1: "calls gl1 = calls gl @ (if enableScissor ctx then [GlDisable GL_SCISSOR_TEST] else [])"
    by (simp add: gl1_def emit_def)
  note ok = glxSetViewport_ok [OF v]
  show "\<not> enableScissor ctx'" "scissorOff ctx' = scissorOff ctx"
    "scissorSize ctx' = scissorSize ctx" "viewportOff ctx' = off"
    using ok c1 by simp_all
  show "viewportSize ctx' = sz" if "fst sz \<noteq> 0 \<and> snd sz \<noteq> 0"
    using ok that by simp
  show "currentFramebuffer ctx = Some (viewportSize ctx')" if "fst sz = 0 \<or> snd sz = 0"
    using ok that c1 by simp
  show "\<exists>vp. calls gl' =
          calls gl @ (if enableScissor ctx then [GlDisable GL_SCISSOR_TEST] else []) @ vp
        \<and> (vp = [] \<or> vp = [GlViewport (fst off) (snd off)
                               (fst (viewportSize ctx')) (snd (viewportSize ctx'))])"
    using ok g1 by auto
next
  fix ctx' gl'
  assume r: "glxSetScissor sz off (ctx, gl) = Inr (ctx', gl')"
  show "enableScissor ctx'" "scissorOff ctx' = off"
    "viewportOff ctx' = viewportOff ctx" "viewportSize ctx' = viewportSize ctx"
    using r
    by (auto simp: glxSetScissor_def Let_def split: if_splits option.splits)
  show "scissorSize ctx' = sz" if "fst sz \<noteq> 0 \<and> snd sz \<noteq> 0"
    using r that
    by (auto simp: glxSetScissor_def Let_def split: if_splits option.splits)
  show "currentFramebuffer ctx = Some (scissorSize ctx')" if "fst sz = 0 \<or> snd sz = 0"
    using r that
    by (auto simp: glxSetScissor_def Let_def split: if_splits option.splits)
qed

theorem setViewportAndScissor_frame_witness:
  "(\<exists>r. glxSetViewportAndScissor (800, 600) (0, 0) (scissorCtx, gl0) = Inr r)
   \<and> (case glxSetViewportAndScissor (800, 600) (0, 0) (scissorCtx, gl0) of
        Inl e \<Rightarrow> False
      | Inr (c, g) \<Rightarrow>
          \<not> enableScissor c \<and> scissorOff c = (5, 6) \<and> scissorSize c = (10, 20)
          \<and> viewportSize c = (800, 600)
          \<and> calls g = [GlDisable GL_SCISSOR_TEST, GlViewport 0 0 800 600])
   \<and> (case glxSetScissor (30, 40) (1, 2) (ctx0, gl0) of
        Inl e \<Rightarrow> False
      | Inr (c, g) \<Rightarrow> enableScissor c \<and> scissorOff c = (1, 2) \<and> scissorSize c = (30, 40))"
proof -
  let ?c = "scissorCtx\<lparr>enableScissor := False, viewportOff := (0, 0), viewportSize := (800, 600)\<rparr>"
  let ?g = "gl0\<lparr>calls := [GlDisable GL_SCISSOR_TEST, GlViewport 0 0 800 600]\<rparr>"
  have e: "glxSetViewportAndScissor (800, 600) (0, 0) (scissorCtx, gl0) = Inr (?c, ?g)"
    by (simp add: glxSetViewportAndScissor_def glxSetViewport_def scissorCtx_def ctx0_def
        gl0_def emit_def)
  let ?c2 = "ctx0\<lparr>enableScissor := True, scissorOff := (1, 2), scissorSize := (30, 40)\<rparr>"
  let ?g2 = "gl0\<lparr>calls := [GlEnable GL_SCISSOR_TEST, GlScissor 1 2 30 40]\<rparr>"
  have e2: "glxSetScissor (30, 40) (1, 2) (ctx0, gl0) = Inr (?c2, ?g2)"
    by (simp add: glxSetScissor_def ctx0_def gl0_def emit_def)
  have h: "fst (800 :: u32, 600 :: u32) \<noteq> 0 \<and> snd (800 :: u32, 600 :: u32) \<noteq> 0" by simp
  have h2: "fst (30 :: u32, 40 :: u32) \<noteq> 0 \<and> snd (30 :: u32, 40 :: u32) \<noteq> 0" by simp
  note t = setViewportAndScissor_frame [of "(800, 600)" scissorCtx "(0, 0)" gl0]
  note t2 = setViewportAndScissor_frame [of "(30, 40)" ctx0 "(1, 2)" gl0]
  have b: "\<not> enableScissor ?c \<and> scissorOff ?c = scissorOff scissorCtx
      \<and> scissorSize ?c = scissorSize scissorCtx \<and> viewportSize ?c = (800, 600)"
    using t e h by blast
  have b2: "enableScissor ?c2 \<and> scissorOff ?c2 = (1, 2) \<and> scissorSize ?c2 = (30, 40)"
    using t2 e2 h2 by blast
  show ?thesis
    unfolding e e2 using b b2 by (simp add: scissorCtx_def ctx0_def gl0_def)
qed

section \<open>Resizing a surface\<close>

text \<open>
  Claim C7. \<^verbatim>\<open>onResize\<close> changes nothing and calls nothing when the surface is static, whatever the
  size passed, and when the size computed from the argument is the size the surface already
  has: the surface (size and attachment handles) and the driver's trace are returned as they
  were.
\<close>

theorem onResize_noop:
  "(\<not> isDynamic (info fb) \<longrightarrow> (\<forall>siz. onResize B siz (fb, gl) = Inr (fb, gl)))
   \<and> (size_info (info fb) =
        (scaleU32 B (fst siz) (viewportScale (info fb)),
         scaleU32 B (snd siz) (viewportScale (info fb))) \<longrightarrow>
      onResize B siz (fb, gl) = Inr (fb, gl))"
  by (simp add: onResize_def)

theorem onResize_noop_witness:
  "onResize wholeB (800, 600) (fbLive False, gl0) = Inr (fbLive False, gl0)
   \<and> onResize wholeB (4, 4) (fbLive True, gl0) = Inr (fbLive True, gl0)"
proof -
  have s: "\<not> isDynamic (info (fbLive False))"
    by (simp add: fbLive_def fbInfo_def)
  have d: "size_info (info (fbLive True)) =
      (scaleU32 wholeB (fst (4 :: u32, 4 :: u32)) (viewportScale (info (fbLive True))),
       scaleU32 wholeB (snd (4 :: u32, 4 :: u32)) (viewportScale (info (fbLive True))))"
    by (simp add: fbLive_def fbInfo_def wholeB_def)
  show ?thesis
    using onResize_noop [of "fbLive False" wholeB gl0 "(4, 4)"]
      onResize_noop [of "fbLive True" wholeB gl0 "(4, 4)"] s d
    by blast
qed

lemma allocColors_returns:
  "\<forall>c \<in> set cs. \<exists>f. glColorFormat B c = Inr f \<Longrightarrow>
     \<exists>r. allocColors B smp sz cs i rts dbs gl = Inr r"
proof (induction cs arbitrary: i rts dbs gl)
  case Nil
  then show ?case by simp
next
  case (Cons c cs)
  from Cons.prems obtain f where f: "glColorFormat B c = Inr f" by auto
  from Cons.prems have "\<forall>c \<in> set cs. \<exists>f. glColorFormat B c = Inr f" by simp
  from Cons.IH [OF this] f show ?case
    by (simp add: Let_def genName_def)
qed

lemma allocDepth_returns:
  "depthFormat nfo = depthNONE B \<or> (\<exists>f. glDepthFormat B (depthFormat nfo) = Inr f) \<Longrightarrow>
     \<exists>r. allocDepth B nfo sz old gl = Inr r"
  by (auto simp: allocDepth_def Let_def genName_def split: if_splits sum.splits)


lemma onResize_Inr:
  fixes fb :: "('c, 'd, 'f) Framebuffer" and sz :: Vec2u and gl :: GL
  defines "nfo \<equiv> (info fb)\<lparr>size_info := sz\<rparr>"
    and "gl3 \<equiv> emit (GlObjectLabel GL_FRAMEBUFFER (nextName gl))
                 (emit (GlBindFramebuffer GL_FRAMEBUFFER (nextName gl))
                   (took GlGenFramebuffers (gl\<lparr>calls := calls gl @ releaseCalls fb\<rparr>)))"
  assumes "isDynamic (info fb)"
    and "size_info (info fb) \<noteq> sz"
    and "sz = (scaleU32 B (fst siz) (viewportScale (info fb)),
               scaleU32 B (snd siz) (viewportScale (info fb)))"
    and "fst sz \<noteq> 0"
    and "onResize B siz (fb, gl) = Inr (fb', gl')"
  shows "\<exists>dep gl4 rts dbs gl5.
      allocDepth B nfo sz (depth (data fb)) gl3 = Inr (dep, gl4)
    \<and> allocColors B (samples nfo) sz (colorFormats nfo) 0 [] [] gl4 = Inr (rts, dbs, gl5)
    \<and> checkStatus B (calls gl5 @ [GlDrawBuffers dbs]) = GL_FRAMEBUFFER_COMPLETE
    \<and> fb' = \<lparr>info = nfo, data = \<lparr>index = nextName gl, depth = dep, renderTextures = rts\<rparr>\<rparr>
    \<and> gl' = emit (GlCheckFramebufferStatus GL_FRAMEBUFFER_COMPLETE)
              (emit (GlDrawBuffers dbs) gl5)"
  using assms(3-7) unfolding nfo_def gl3_def
  by (auto simp: onResize_def Let_def genName_def calls_emit
      split: sum.splits if_splits prod.splits)

lemma onResize_alloc:
  fixes fb :: "('c, 'd, 'f) Framebuffer" and sz :: Vec2u and gl :: GL
  defines "nfo \<equiv> (info fb)\<lparr>size_info := sz\<rparr>"
    and "gl3 \<equiv> emit (GlObjectLabel GL_FRAMEBUFFER (nextName gl))
                 (emit (GlBindFramebuffer GL_FRAMEBUFFER (nextName gl))
                   (took GlGenFramebuffers (gl\<lparr>calls := calls gl @ releaseCalls fb\<rparr>)))"
  assumes "isDynamic (info fb)"
    and "size_info (info fb) \<noteq> sz"
    and "sz = (scaleU32 B (fst siz) (viewportScale (info fb)),
               scaleU32 B (snd siz) (viewportScale (info fb)))"
    and "fst sz \<noteq> 0"
    and "allocDepth B nfo sz (depth (data fb)) gl3 = Inr (dep, gl4)"
    and "allocColors B (samples nfo) sz (colorFormats nfo) 0 [] [] gl4 = Inr (rts, dbs, gl5)"
  shows "onResize B siz (fb, gl) =
     (if checkStatus B (calls gl5 @ [GlDrawBuffers dbs]) \<noteq> GL_FRAMEBUFFER_COMPLETE
      then Inl (Fatal ''Couldn't create framebuffer'')
      else Inr (\<lparr>info = nfo,
                 data = \<lparr>index = nextName gl, depth = dep, renderTextures = rts\<rparr>\<rparr>,
                emit (GlCheckFramebufferStatus GL_FRAMEBUFFER_COMPLETE)
                  (emit (GlDrawBuffers dbs) gl5)))"
  using assms(3-8) unfolding nfo_def gl3_def
  by (simp add: onResize_def Let_def genName_def calls_emit)

lemma emit_mk: "emit c \<lparr>calls = cs, nextName = n\<rparr> = \<lparr>calls = cs @ [c], nextName = n\<rparr>"
  by (simp add: emit_def)

lemma genName_mk:
  "genName mk \<lparr>calls = cs, nextName = n\<rparr> = (n, \<lparr>calls = cs @ [mk n], nextName = n + 1\<rparr>)"
  by (simp add: genName_def took_def)

lemma allocColors_exact:
  "map (glColorFormat B) cs = map Inr fs \<Longrightarrow>
     allocColors B smp sz cs i rts dbs \<lparr>calls = tr, nextName = t\<rparr> =
       Inr (rts @ map (\<lambda>j. t + of_nat j) [0..<length fs],
            dbs @ map (\<lambda>j. GL_COLOR_ATTACHMENT0 + of_nat (i + j)) [0..<length fs],
            \<lparr>calls = tr @
               concat (map (\<lambda>j. [GlGenTextures (t + of_nat j),
                        GlBindTexture GL_TEXTURE_2D_MULTISAMPLE (t + of_nat j),
                        GlTexImage2DMultisample GL_TEXTURE_2D_MULTISAMPLE smp (fs ! j)
                          (fst sz) (snd sz),
                        GlObjectLabel GL_TEXTURE (t + of_nat j),
                        GlFramebufferTexture GL_FRAMEBUFFER
                          (GL_COLOR_ATTACHMENT0 + of_nat (i + j)) (t + of_nat j)])
               [0..<length fs]),
              nextName = t + of_nat (length fs)\<rparr>)"
proof (induction cs arbitrary: fs i rts dbs tr t)
  case Nil
  then show ?case by simp
next
  case (Cons c cs)
  from Cons.prems obtain f fs' where fs: "fs = f # fs'" and f: "glColorFormat B c = Inr f"
    and r: "map (glColorFormat B) cs = map Inr fs'"
    by (cases fs) auto
  show ?case
    unfolding fs
    by (simp add: f genName_mk emit_mk Let_def Cons.IH [OF r] map_upt_Suc
        del: upt_Suc add: ac_simps)
qed


lemma allocDepth_exact:
  "depthFormat nfo = depthNONE B \<or> glDepthFormat B (depthFormat nfo) = Inr fd \<Longrightarrow>
     allocDepth B nfo sz old \<lparr>calls = tr, nextName = t\<rparr> =
       Inr (if depthFormat nfo = depthNONE B then old else t,
            \<lparr>calls = tr @
               (if depthFormat nfo = depthNONE B then []
                else if keepDepth nfo
                then [GlGenTextures t,
                      GlBindTexture GL_TEXTURE_2D_MULTISAMPLE t,
                      GlObjectLabel GL_TEXTURE t,
                      GlTexImage2DMultisample GL_TEXTURE_2D_MULTISAMPLE (samples nfo) fd
                        (fst sz) (snd sz),
                      GlFramebufferTexture GL_FRAMEBUFFER GL_DEPTH_ATTACHMENT t]
                else [GlGenRenderbuffers t,
                      GlBindRenderbuffer GL_RENDERBUFFER t,
                      GlObjectLabel GL_RENDERBUFFER t,
                      GlRenderbufferStorageMultisample GL_RENDERBUFFER (samples nfo) fd
                        (fst sz) (snd sz),
                      GlFramebufferRenderbuffer GL_FRAMEBUFFER
                        (if hasStencil B (depthFormat nfo)
                         then GL_DEPTH_STENCIL_ATTACHMENT else GL_DEPTH_ATTACHMENT)
                        GL_RENDERBUFFER t]),
              nextName = (if depthFormat nfo = depthNONE B then t else t + 1)\<rparr>)"
  by (auto simp: allocDepth_def genName_mk emit_mk Let_def)

lemma allocDepth_Inl:
  "depthFormat nfo \<noteq> depthNONE B \<Longrightarrow> glDepthFormat B (depthFormat nfo) = Inl e \<Longrightarrow>
     allocDepth B nfo sz old gl = Inl e"
  by (simp add: allocDepth_def genName_def Let_def)

lemma allocColors_Inl:
  "map (glColorFormat B) pre = map Inr fs \<Longrightarrow> glColorFormat B c = Inl e \<Longrightarrow>
     allocColors B smp sz (pre @ c # post) i rts dbs gl = Inl e"
proof (induction pre arbitrary: fs i rts dbs gl)
  case Nil
  then show ?case by (simp add: genName_def Let_def)
next
  case (Cons p pre)
  from Cons.prems obtain f fs' where f: "glColorFormat B p = Inr f"
    and r: "map (glColorFormat B) pre = map Inr fs'"
    by (cases fs) auto
  show ?case
    by (simp add: f genName_def Let_def Cons.IH [OF r Cons.prems(2)])
qed

lemma onResize_Inl:
  fixes fb :: "('c, 'd, 'f) Framebuffer" and sz :: Vec2u and gl :: GL
  defines "nfo \<equiv> (info fb)\<lparr>size_info := sz\<rparr>"
    and "gl3 \<equiv> emit (GlObjectLabel GL_FRAMEBUFFER (nextName gl))
                 (emit (GlBindFramebuffer GL_FRAMEBUFFER (nextName gl))
                   (took GlGenFramebuffers (gl\<lparr>calls := calls gl @ releaseCalls fb\<rparr>)))"
  assumes "isDynamic (info fb)"
    and "size_info (info fb) \<noteq> sz"
    and "sz = (scaleU32 B (fst siz) (viewportScale (info fb)),
               scaleU32 B (snd siz) (viewportScale (info fb)))"
    and "fst sz \<noteq> 0"
    and "allocDepth B nfo sz (depth (data fb)) gl3 = Inl e
         \<or> (\<exists>dep gl4. allocDepth B nfo sz (depth (data fb)) gl3 = Inr (dep, gl4)
              \<and> allocColors B (samples nfo) sz (colorFormats nfo) 0 [] [] gl4 = Inl e)"
  shows "onResize B siz (fb, gl) = Inl e"
  using assms(3-7) unfolding nfo_def gl3_def
  by (auto simp: onResize_def Let_def genName_def)


text \<open>
  Claim C8, as amended. For a dynamic surface whose computed size differs from its current
  one, \<^verbatim>\<open>onResize\<close> first deletes every handle that is not 0: the framebuffer, the depth
  attachment (as a texture when \<^verbatim>\<open>keepDepth\<close>, as a renderbuffer otherwise) and each colour
  texture. If the computed width is 0, the framebuffer and depth handles are reset to 0, the
  list of colour textures is left as it was, and nothing is generated, allocated or checked.
  Otherwise a framebuffer is generated, bound and labelled; when the depth format is not
  \<^verbatim>\<open>NONE\<close> a depth attachment is generated, labelled, given storage of the computed size at the
  sample count and attached (a texture at the depth attachment when \<^verbatim>\<open>keepDepth\<close>; otherwise a
  renderbuffer, at the depth-stencil attachment when the format has a stencil part), and
  otherwise the depth handle is left as it was; one multisample texture per colour format is
  generated, given storage, labelled and attached at the colour attachment of its index; the
  draw buffers are set and completeness is checked. The surface with the new handles is
  returned when the driver answers \<^verbatim>\<open>GL_FRAMEBUFFER_COMPLETE\<close>, and any other answer is fatal.
  A format that does not translate is fatal too.
\<close>

theorem onResize_reallocates:
  fixes fb :: "('c, 'd, 'f) Framebuffer" and B :: "('c, 'd, 'f) Backend" and gl :: GL
    and sz :: Vec2u and fs :: "GLenum list" and fd :: GLenum
  defines "n \<equiv> nextName gl"
  defines "hasDepth \<equiv> depthFormat (info fb) \<noteq> depthNONE B"
  defines "t0 \<equiv> (if hasDepth then n + 2 else n + 1)"
  defines "released \<equiv>
      (if index (data fb) \<noteq> 0 then [GlDeleteFramebuffers (index (data fb))] else [])
      @ (if depth (data fb) \<noteq> 0
         then [if keepDepth (info fb) then GlDeleteTextures (depth (data fb))
               else GlDeleteRenderbuffers (depth (data fb))]
         else [])
      @ map GlDeleteTextures (filter (\<lambda>t. t \<noteq> 0) (renderTextures (data fb)))"
  defines "depthCalls \<equiv>
      (if \<not> hasDepth then []
       else if keepDepth (info fb)
       then [GlGenTextures (n + 1),
             GlBindTexture GL_TEXTURE_2D_MULTISAMPLE (n + 1),
             GlObjectLabel GL_TEXTURE (n + 1),
             GlTexImage2DMultisample GL_TEXTURE_2D_MULTISAMPLE (samples (info fb)) fd
               (fst sz) (snd sz),
             GlFramebufferTexture GL_FRAMEBUFFER GL_DEPTH_ATTACHMENT (n + 1)]
       else [GlGenRenderbuffers (n + 1),
             GlBindRenderbuffer GL_RENDERBUFFER (n + 1),
             GlObjectLabel GL_RENDERBUFFER (n + 1),
             GlRenderbufferStorageMultisample GL_RENDERBUFFER (samples (info fb)) fd
               (fst sz) (snd sz),
             GlFramebufferRenderbuffer GL_FRAMEBUFFER
               (if hasStencil B (depthFormat (info fb))
                then GL_DEPTH_STENCIL_ATTACHMENT else GL_DEPTH_ATTACHMENT)
               GL_RENDERBUFFER (n + 1)])"
  defines "colorCalls \<equiv>
      concat (map (\<lambda>j. [GlGenTextures (t0 + of_nat j),
                         GlBindTexture GL_TEXTURE_2D_MULTISAMPLE (t0 + of_nat j),
                         GlTexImage2DMultisample GL_TEXTURE_2D_MULTISAMPLE (samples (info fb))
                           (fs ! j) (fst sz) (snd sz),
                         GlObjectLabel GL_TEXTURE (t0 + of_nat j),
                         GlFramebufferTexture GL_FRAMEBUFFER
                           (GL_COLOR_ATTACHMENT0 + of_nat j) (t0 + of_nat j)])
                [0..<length fs])"
  defines "trace \<equiv>
      calls gl @ released
      @ [GlGenFramebuffers n, GlBindFramebuffer GL_FRAMEBUFFER n, GlObjectLabel GL_FRAMEBUFFER n]
      @ depthCalls @ colorCalls
      @ [GlDrawBuffers (map (\<lambda>j. GL_COLOR_ATTACHMENT0 + of_nat j) [0..<length fs])]"
  assumes dyn: "isDynamic (info fb)"
    and ne: "size_info (info fb) \<noteq> sz"
    and sz: "sz = (scaleU32 B (fst siz) (viewportScale (info fb)),
                   scaleU32 B (snd siz) (viewportScale (info fb)))"
  shows
    "(fst sz = 0 \<longrightarrow>
        onResize B siz (fb, gl) =
          Inr (\<lparr>info = (info fb)\<lparr>size_info := sz\<rparr>,
                data = \<lparr>index = 0, depth = 0, renderTextures = renderTextures (data fb)\<rparr>\<rparr>,
               \<lparr>calls = calls gl @ released, nextName = n\<rparr>))
     \<and> (fst sz \<noteq> 0
          \<and> (hasDepth \<longrightarrow> glDepthFormat B (depthFormat (info fb)) = Inr fd)
          \<and> map (glColorFormat B) (colorFormats (info fb)) = map Inr fs \<longrightarrow>
        (checkStatus B trace = GL_FRAMEBUFFER_COMPLETE \<longrightarrow>
           onResize B siz (fb, gl) =
             Inr (\<lparr>info = (info fb)\<lparr>size_info := sz\<rparr>,
                   data = \<lparr>index = n,
                           depth = (if hasDepth then n + 1 else depth (data fb)),
                           renderTextures = map (\<lambda>j. t0 + of_nat j) [0..<length fs]\<rparr>\<rparr>,
                  \<lparr>calls = trace @ [GlCheckFramebufferStatus GL_FRAMEBUFFER_COMPLETE],
                    nextName = t0 + of_nat (length fs)\<rparr>))
        \<and> (checkStatus B trace \<noteq> GL_FRAMEBUFFER_COMPLETE \<longrightarrow>
           onResize B siz (fb, gl) = Inl (Fatal ''Couldn't create framebuffer'')))
     \<and> (fst sz \<noteq> 0 \<and> hasDepth \<and> glDepthFormat B (depthFormat (info fb)) = Inl e \<longrightarrow>
        onResize B siz (fb, gl) = Inl e)
     \<and> (fst sz \<noteq> 0
          \<and> (hasDepth \<longrightarrow> (\<exists>f. glDepthFormat B (depthFormat (info fb)) = Inr f))
          \<and> (\<exists>pre c post fs'. colorFormats (info fb) = pre @ c # post
                \<and> map (glColorFormat B) pre = map Inr fs' \<and> glColorFormat B c = Inl e) \<longrightarrow>
        onResize B siz (fb, gl) = Inl e)"
proof -
  define nfo where "nfo = (info fb)\<lparr>size_info := sz\<rparr>"
  define gl3 where "gl3 = emit (GlObjectLabel GL_FRAMEBUFFER (nextName gl))
                 (emit (GlBindFramebuffer GL_FRAMEBUFFER (nextName gl))
                   (took GlGenFramebuffers (gl\<lparr>calls := calls gl @ releaseCalls fb\<rparr>)))"
  have rel: "releaseCalls fb = released"
    by (simp add: releaseCalls_def released_def)
  have g3: "gl3 = \<lparr>calls = calls gl @ released
                     @ [GlGenFramebuffers n, GlBindFramebuffer GL_FRAMEBUFFER n,
                        GlObjectLabel GL_FRAMEBUFFER n],
                   nextName = n + 1\<rparr>"
    by (simp add: gl3_def emit_def took_def n_def rel)
  have c1: "onResize B siz (fb, gl) =
      Inr (\<lparr>info = (info fb)\<lparr>size_info := sz\<rparr>,
            data = \<lparr>index = 0, depth = 0, renderTextures = renderTextures (data fb)\<rparr>\<rparr>,
           \<lparr>calls = calls gl @ released, nextName = n\<rparr>)"
    if "fst sz = 0"
    using dyn ne sz that by (simp add: onResize_def Let_def rel n_def)
  have c2: "(checkStatus B trace = GL_FRAMEBUFFER_COMPLETE \<longrightarrow>
           onResize B siz (fb, gl) =
             Inr (\<lparr>info = (info fb)\<lparr>size_info := sz\<rparr>,
                   data = \<lparr>index = n,
                           depth = (if hasDepth then n + 1 else depth (data fb)),
                           renderTextures = map (\<lambda>j. t0 + of_nat j) [0..<length fs]\<rparr>\<rparr>,
                  \<lparr>calls = trace @ [GlCheckFramebufferStatus GL_FRAMEBUFFER_COMPLETE],
                    nextName = t0 + of_nat (length fs)\<rparr>))
        \<and> (checkStatus B trace \<noteq> GL_FRAMEBUFFER_COMPLETE \<longrightarrow>
           onResize B siz (fb, gl) = Inl (Fatal ''Couldn't create framebuffer''))"
    if h: "fst sz \<noteq> 0
          \<and> (hasDepth \<longrightarrow> glDepthFormat B (depthFormat (info fb)) = Inr fd)
          \<and> map (glColorFormat B) (colorFormats (info fb)) = map Inr fs"
  proof -
    from h have nz: "fst sz \<noteq> 0" by simp
    define dep where "dep = (if hasDepth then n + 1 else depth (data fb))"
    define gl4 where "gl4 = \<lparr>calls = calls gl @ released
                     @ [GlGenFramebuffers n, GlBindFramebuffer GL_FRAMEBUFFER n,
                        GlObjectLabel GL_FRAMEBUFFER n] @ depthCalls,
                   nextName = t0\<rparr>"
    define rts where "rts = map (\<lambda>j. t0 + of_nat j) [0..<length fs]"
    define dbs where "dbs = map (\<lambda>j. GL_COLOR_ATTACHMENT0 + of_nat j :: GLenum) [0..<length fs]"
    define gl5 where "gl5 = \<lparr>calls = calls gl4 @ colorCalls, nextName = t0 + of_nat (length fs)\<rparr>"
    have "depthFormat nfo = depthNONE B \<or> glDepthFormat B (depthFormat nfo) = Inr fd"
      using h by (auto simp: nfo_def hasDepth_def)
    from allocDepth_exact [OF this]
    have a: "allocDepth B nfo sz (depth (data fb)) gl3 = Inr (dep, gl4)"
      unfolding g3
      by (simp add: dep_def gl4_def hasDepth_def depthCalls_def t0_def nfo_def)
    have "map (glColorFormat B) (colorFormats nfo) = map Inr fs"
      using h by (simp add: nfo_def)
    from allocColors_exact [OF this]
    have c: "allocColors B (samples nfo) sz (colorFormats nfo) 0 [] [] gl4 = Inr (rts, dbs, gl5)"
      unfolding gl4_def
      by (simp add: rts_def dbs_def gl5_def gl4_def colorCalls_def nfo_def)
    note u = onResize_alloc [OF dyn ne sz nz a [unfolded nfo_def gl3_def] c [unfolded nfo_def]]
    have t: "calls gl5 @ [GlDrawBuffers dbs] = trace"
      by (simp add: gl5_def gl4_def dbs_def trace_def)
    have g: "emit (GlCheckFramebufferStatus GL_FRAMEBUFFER_COMPLETE) (emit (GlDrawBuffers dbs) gl5)
        = \<lparr>calls = trace @ [GlCheckFramebufferStatus GL_FRAMEBUFFER_COMPLETE],
            nextName = t0 + of_nat (length fs)\<rparr>"
      unfolding t [symmetric] by (simp add: emit_def gl5_def)
    show ?thesis
      using u unfolding t g by (simp add: dep_def rts_def n_def)
  qed
  have c3: "onResize B siz (fb, gl) = Inl e"
    if h: "fst sz \<noteq> 0 \<and> hasDepth \<and> glDepthFormat B (depthFormat (info fb)) = Inl e"
  proof -
    have "allocDepth B nfo sz (depth (data fb)) gl3 = Inl e"
      using h by (simp add: allocDepth_Inl nfo_def hasDepth_def)
    then show ?thesis
      using onResize_Inl [where e = e and gl = gl, OF dyn ne sz] h unfolding nfo_def gl3_def by blast
  qed
  have c4: "onResize B siz (fb, gl) = Inl e"
    if h: "fst sz \<noteq> 0
          \<and> (hasDepth \<longrightarrow> (\<exists>f. glDepthFormat B (depthFormat (info fb)) = Inr f))
          \<and> (\<exists>pre c post fs'. colorFormats (info fb) = pre @ c # post
                \<and> map (glColorFormat B) pre = map Inr fs' \<and> glColorFormat B c = Inl e)"
  proof -
    have "depthFormat nfo = depthNONE B \<or> (\<exists>f. glDepthFormat B (depthFormat nfo) = Inr f)"
      using h by (auto simp: nfo_def hasDepth_def)
    from allocDepth_returns [OF this] obtain dep gl4 where
      a: "allocDepth B nfo sz (depth (data fb)) gl3 = Inr (dep, gl4)"
      by (metis surj_pair)
    from h obtain pre c post fs' where p: "colorFormats (info fb) = pre @ c # post"
      "map (glColorFormat B) pre = map Inr fs'" "glColorFormat B c = Inl e"
      by blast
    have "allocColors B (samples nfo) sz (colorFormats nfo) 0 [] [] gl4 = Inl e"
      using allocColors_Inl [OF p(2,3)] p(1) by (simp add: nfo_def)
    with a show ?thesis
      using onResize_Inl [where e = e and gl = gl, OF dyn ne sz] h unfolding nfo_def gl3_def by blast
  qed
  from c1 c2 c3 c4 show ?thesis
    by blast
qed


theorem onResize_reallocates_witness:
  "onResize wholeB (8, 6) (fbDepth True, gl0) =
     Inr (\<lparr>info = (info (fbDepth True))\<lparr>size_info := (8, 6)\<rparr>,
           data = \<lparr>index = 1, depth = 2, renderTextures = [3, 4]\<rparr>\<rparr>,
          \<lparr>calls = [GlDeleteFramebuffers 3, GlDeleteTextures 5,
                    GlDeleteTextures 7, GlDeleteTextures 9,
                    GlGenFramebuffers 1,
                    GlBindFramebuffer GL_FRAMEBUFFER 1,
                    GlObjectLabel GL_FRAMEBUFFER 1,
                    GlGenTextures 2,
                    GlBindTexture GL_TEXTURE_2D_MULTISAMPLE 2,
                    GlObjectLabel GL_TEXTURE 2,
                    GlTexImage2DMultisample GL_TEXTURE_2D_MULTISAMPLE 4 0x81A6 8 6,
                    GlFramebufferTexture GL_FRAMEBUFFER GL_DEPTH_ATTACHMENT 2,
                    GlGenTextures 3,
                    GlBindTexture GL_TEXTURE_2D_MULTISAMPLE 3,
                    GlTexImage2DMultisample GL_TEXTURE_2D_MULTISAMPLE 4 0x8058 8 6,
                    GlObjectLabel GL_TEXTURE 3,
                    GlFramebufferTexture GL_FRAMEBUFFER GL_COLOR_ATTACHMENT0 3,
                    GlGenTextures 4,
                    GlBindTexture GL_TEXTURE_2D_MULTISAMPLE 4,
                    GlTexImage2DMultisample GL_TEXTURE_2D_MULTISAMPLE 4 0x881A 8 6,
                    GlObjectLabel GL_TEXTURE 4,
                    GlFramebufferTexture GL_FRAMEBUFFER (GL_COLOR_ATTACHMENT0 + 1) 4,
                    GlDrawBuffers [GL_COLOR_ATTACHMENT0, GL_COLOR_ATTACHMENT0 + 1],
                    GlCheckFramebufferStatus GL_FRAMEBUFFER_COMPLETE],
            nextName = 5\<rparr>)
   \<and> onResize stencilB (8, 6) (fbDepth False, gl0) =
     Inr (\<lparr>info = (info (fbDepth False))\<lparr>size_info := (8, 6)\<rparr>,
           data = \<lparr>index = 1, depth = 2, renderTextures = [3, 4]\<rparr>\<rparr>,
          \<lparr>calls = [GlDeleteFramebuffers 3, GlDeleteRenderbuffers 5,
                    GlDeleteTextures 7, GlDeleteTextures 9,
                    GlGenFramebuffers 1,
                    GlBindFramebuffer GL_FRAMEBUFFER 1,
                    GlObjectLabel GL_FRAMEBUFFER 1,
                    GlGenRenderbuffers 2,
                    GlBindRenderbuffer GL_RENDERBUFFER 2,
                    GlObjectLabel GL_RENDERBUFFER 2,
                    GlRenderbufferStorageMultisample GL_RENDERBUFFER 4 0x81A6 8 6,
                    GlFramebufferRenderbuffer GL_FRAMEBUFFER GL_DEPTH_STENCIL_ATTACHMENT
                      GL_RENDERBUFFER 2,
                    GlGenTextures 3,
                    GlBindTexture GL_TEXTURE_2D_MULTISAMPLE 3,
                    GlTexImage2DMultisample GL_TEXTURE_2D_MULTISAMPLE 4 0x8058 8 6,
                    GlObjectLabel GL_TEXTURE 3,
                    GlFramebufferTexture GL_FRAMEBUFFER GL_COLOR_ATTACHMENT0 3,
                    GlGenTextures 4,
                    GlBindTexture GL_TEXTURE_2D_MULTISAMPLE 4,
                    GlTexImage2DMultisample GL_TEXTURE_2D_MULTISAMPLE 4 0x881A 8 6,
                    GlObjectLabel GL_TEXTURE 4,
                    GlFramebufferTexture GL_FRAMEBUFFER (GL_COLOR_ATTACHMENT0 + 1) 4,
                    GlDrawBuffers [GL_COLOR_ATTACHMENT0, GL_COLOR_ATTACHMENT0 + 1],
                    GlCheckFramebufferStatus GL_FRAMEBUFFER_COMPLETE],
            nextName = 5\<rparr>)
   \<and> onResize wholeB (8, 6) (fbLive True, gl0) =
     Inr (\<lparr>info = (fbInfo True)\<lparr>size_info := (8, 6)\<rparr>,
           data = \<lparr>index = 1, depth = 0, renderTextures = [2]\<rparr>\<rparr>,
          \<lparr>calls = [GlDeleteFramebuffers 3, GlDeleteTextures 7,
                    GlGenFramebuffers 1,
                    GlBindFramebuffer GL_FRAMEBUFFER 1,
                    GlObjectLabel GL_FRAMEBUFFER 1,
                    GlGenTextures 2,
                    GlBindTexture GL_TEXTURE_2D_MULTISAMPLE 2,
                    GlTexImage2DMultisample GL_TEXTURE_2D_MULTISAMPLE 1 0x8058 8 6,
                    GlObjectLabel GL_TEXTURE 2,
                    GlFramebufferTexture GL_FRAMEBUFFER GL_COLOR_ATTACHMENT0 2,
                    GlDrawBuffers [GL_COLOR_ATTACHMENT0],
                    GlCheckFramebufferStatus GL_FRAMEBUFFER_COMPLETE],
            nextName = 3\<rparr>)
   \<and> onResize (wholeB\<lparr>checkStatus := (\<lambda>cs. 0)\<rparr>) (8, 6) (fbDepth True, gl0) =
       Inl (Fatal ''Couldn't create framebuffer'')
   \<and> onResize wholeB (0, 0) (fbDepth True, gl0) =
     Inr (\<lparr>info = (info (fbDepth True))\<lparr>size_info := (0, 0)\<rparr>,
           data = \<lparr>index = 0, depth = 0, renderTextures = [7, 0, 9]\<rparr>\<rparr>,
          \<lparr>calls = [GlDeleteFramebuffers 3, GlDeleteTextures 5,
                    GlDeleteTextures 7, GlDeleteTextures 9],
            nextName = 1\<rparr>)
   \<and> onResize (wholeB\<lparr>glDepthFormat := (\<lambda>d. Inl (Fatal ''depth format''))\<rparr>) (8, 6)
         (fbDepth True, gl0) = Inl (Fatal ''depth format'')
   \<and> onResize (wholeB\<lparr>glColorFormat :=
                   (\<lambda>c. if c = 0x881A then Inl (Fatal ''colour format'') else Inr c)\<rparr>) (8, 6)
         (fbDepth True, gl0) = Inl (Fatal ''colour format'')"
proof -
  let ?bad = "wholeB\<lparr>checkStatus := (\<lambda>cs. 0)\<rparr>"
  let ?nod = "wholeB\<lparr>glDepthFormat := (\<lambda>d. Inl (Fatal ''depth format''))\<rparr>"
  let ?noc = "wholeB\<lparr>glColorFormat :=
                   (\<lambda>c. if c = 0x881A then Inl (Fatal ''colour format'') else Inr c)\<rparr>"
  have dyn: "isDynamic (info (fbDepth k))" "isDynamic (info (fbLive True))" for k
    by (simp_all add: fbDepth_def fbLive_def fbInfo_def)
  have ne: "size_info (info (fbDepth k)) \<noteq> (8, 6)" "size_info (info (fbDepth k)) \<noteq> (0, 0)"
    "size_info (info (fbLive True)) \<noteq> (8, 6)" for k
    by (simp_all add: fbDepth_def fbLive_def fbInfo_def)
  have s8: "(8, 6) = (scaleU32 B (fst (8 :: u32, 6 :: u32)) (viewportScale (info (fbDepth k))),
                      scaleU32 B (snd (8 :: u32, 6 :: u32)) (viewportScale (info (fbDepth k))))"
    if "scaleU32 B = (\<lambda>x s. x * s)" for B :: "(GLenum, GLenum, u32) Backend" and k
    using that by (simp add: fbDepth_def)
  have s0: "(0, 0) = (scaleU32 wholeB (fst (0 :: u32, 0 :: u32))
                        (viewportScale (info (fbDepth True))),
                      scaleU32 wholeB (snd (0 :: u32, 0 :: u32))
                        (viewportScale (info (fbDepth True))))"
    by (simp add: fbDepth_def wholeB_def)
  have l8: "(8, 6) = (scaleU32 wholeB (fst (8 :: u32, 6 :: u32))
                        (viewportScale (info (fbLive True))),
                      scaleU32 wholeB (snd (8 :: u32, 6 :: u32))
                        (viewportScale (info (fbLive True))))"
    by (simp add: fbLive_def fbInfo_def wholeB_def)
  have sc: "scaleU32 wholeB = (\<lambda>x s. x * s)" "scaleU32 stencilB = (\<lambda>x s. x * s)"
    "scaleU32 ?bad = (\<lambda>x s. x * s)" "scaleU32 ?nod = (\<lambda>x s. x * s)"
    "scaleU32 ?noc = (\<lambda>x s. x * s)"
    by (simp_all add: wholeB_def stencilB_def)
  have a: "onResize wholeB (8, 6) (fbDepth True, gl0) =
     Inr (\<lparr>info = (info (fbDepth True))\<lparr>size_info := (8, 6)\<rparr>,
           data = \<lparr>index = 1, depth = 2, renderTextures = [3, 4]\<rparr>\<rparr>,
          \<lparr>calls = [GlDeleteFramebuffers 3, GlDeleteTextures 5,
                    GlDeleteTextures 7, GlDeleteTextures 9,
                    GlGenFramebuffers 1,
                    GlBindFramebuffer GL_FRAMEBUFFER 1,
                    GlObjectLabel GL_FRAMEBUFFER 1,
                    GlGenTextures 2,
                    GlBindTexture GL_TEXTURE_2D_MULTISAMPLE 2,
                    GlObjectLabel GL_TEXTURE 2,
                    GlTexImage2DMultisample GL_TEXTURE_2D_MULTISAMPLE 4 0x81A6 8 6,
                    GlFramebufferTexture GL_FRAMEBUFFER GL_DEPTH_ATTACHMENT 2,
                    GlGenTextures 3,
                    GlBindTexture GL_TEXTURE_2D_MULTISAMPLE 3,
                    GlTexImage2DMultisample GL_TEXTURE_2D_MULTISAMPLE 4 0x8058 8 6,
                    GlObjectLabel GL_TEXTURE 3,
                    GlFramebufferTexture GL_FRAMEBUFFER GL_COLOR_ATTACHMENT0 3,
                    GlGenTextures 4,
                    GlBindTexture GL_TEXTURE_2D_MULTISAMPLE 4,
                    GlTexImage2DMultisample GL_TEXTURE_2D_MULTISAMPLE 4 0x881A 8 6,
                    GlObjectLabel GL_TEXTURE 4,
                    GlFramebufferTexture GL_FRAMEBUFFER (GL_COLOR_ATTACHMENT0 + 1) 4,
                    GlDrawBuffers [GL_COLOR_ATTACHMENT0, GL_COLOR_ATTACHMENT0 + 1],
                    GlCheckFramebufferStatus GL_FRAMEBUFFER_COMPLETE],
            nextName = 5\<rparr>)"
    using onResize_reallocates [OF dyn(1) ne(1) s8 [where k = True, OF sc(1)], where gl = gl0
        and fs = "[0x8058, 0x881A]" and fd = "0x81A6"]
    by (simp add: fbDepth_def wholeB_def gl0_def)
  have b: "onResize stencilB (8, 6) (fbDepth False, gl0) =
     Inr (\<lparr>info = (info (fbDepth False))\<lparr>size_info := (8, 6)\<rparr>,
           data = \<lparr>index = 1, depth = 2, renderTextures = [3, 4]\<rparr>\<rparr>,
          \<lparr>calls = [GlDeleteFramebuffers 3, GlDeleteRenderbuffers 5,
                    GlDeleteTextures 7, GlDeleteTextures 9,
                    GlGenFramebuffers 1,
                    GlBindFramebuffer GL_FRAMEBUFFER 1,
                    GlObjectLabel GL_FRAMEBUFFER 1,
                    GlGenRenderbuffers 2,
                    GlBindRenderbuffer GL_RENDERBUFFER 2,
                    GlObjectLabel GL_RENDERBUFFER 2,
                    GlRenderbufferStorageMultisample GL_RENDERBUFFER 4 0x81A6 8 6,
                    GlFramebufferRenderbuffer GL_FRAMEBUFFER GL_DEPTH_STENCIL_ATTACHMENT
                      GL_RENDERBUFFER 2,
                    GlGenTextures 3,
                    GlBindTexture GL_TEXTURE_2D_MULTISAMPLE 3,
                    GlTexImage2DMultisample GL_TEXTURE_2D_MULTISAMPLE 4 0x8058 8 6,
                    GlObjectLabel GL_TEXTURE 3,
                    GlFramebufferTexture GL_FRAMEBUFFER GL_COLOR_ATTACHMENT0 3,
                    GlGenTextures 4,
                    GlBindTexture GL_TEXTURE_2D_MULTISAMPLE 4,
                    GlTexImage2DMultisample GL_TEXTURE_2D_MULTISAMPLE 4 0x881A 8 6,
                    GlObjectLabel GL_TEXTURE 4,
                    GlFramebufferTexture GL_FRAMEBUFFER (GL_COLOR_ATTACHMENT0 + 1) 4,
                    GlDrawBuffers [GL_COLOR_ATTACHMENT0, GL_COLOR_ATTACHMENT0 + 1],
                    GlCheckFramebufferStatus GL_FRAMEBUFFER_COMPLETE],
            nextName = 5\<rparr>)"
    using onResize_reallocates [OF dyn(1) ne(1) s8 [where k = False, OF sc(2)], where gl = gl0
        and fs = "[0x8058, 0x881A]" and fd = "0x81A6"]
    by (simp add: fbDepth_def stencilB_def wholeB_def gl0_def)
  have c: "onResize wholeB (8, 6) (fbLive True, gl0) =
     Inr (\<lparr>info = (fbInfo True)\<lparr>size_info := (8, 6)\<rparr>,
           data = \<lparr>index = 1, depth = 0, renderTextures = [2]\<rparr>\<rparr>,
          \<lparr>calls = [GlDeleteFramebuffers 3, GlDeleteTextures 7,
                    GlGenFramebuffers 1,
                    GlBindFramebuffer GL_FRAMEBUFFER 1,
                    GlObjectLabel GL_FRAMEBUFFER 1,
                    GlGenTextures 2,
                    GlBindTexture GL_TEXTURE_2D_MULTISAMPLE 2,
                    GlTexImage2DMultisample GL_TEXTURE_2D_MULTISAMPLE 1 0x8058 8 6,
                    GlObjectLabel GL_TEXTURE 2,
                    GlFramebufferTexture GL_FRAMEBUFFER GL_COLOR_ATTACHMENT0 2,
                    GlDrawBuffers [GL_COLOR_ATTACHMENT0],
                    GlCheckFramebufferStatus GL_FRAMEBUFFER_COMPLETE],
            nextName = 3\<rparr>)"
    using onResize_reallocates [OF dyn(2) ne(3) l8, where gl = gl0
        and fs = "[0x8058]" and fd = 0]
    by (simp add: fbLive_def fbInfo_def wholeB_def gl0_def)
  have d: "onResize ?bad (8, 6) (fbDepth True, gl0) = Inl (Fatal ''Couldn't create framebuffer'')"
    using onResize_reallocates [OF dyn(1) ne(1) s8 [where k = True, OF sc(3)], where gl = gl0
        and fs = "[0x8058, 0x881A]" and fd = "0x81A6"]
    by (simp add: fbDepth_def wholeB_def gl0_def GL_FRAMEBUFFER_COMPLETE_def)
  have e: "onResize wholeB (0, 0) (fbDepth True, gl0) =
     Inr (\<lparr>info = (info (fbDepth True))\<lparr>size_info := (0, 0)\<rparr>,
           data = \<lparr>index = 0, depth = 0, renderTextures = [7, 0, 9]\<rparr>\<rparr>,
          \<lparr>calls = [GlDeleteFramebuffers 3, GlDeleteTextures 5,
                    GlDeleteTextures 7, GlDeleteTextures 9],
            nextName = 1\<rparr>)"
    using onResize_reallocates [OF dyn(1) ne(2) s0, where gl = gl0]
    by (simp add: fbDepth_def wholeB_def gl0_def)
  have f: "onResize ?nod (8, 6) (fbDepth True, gl0) = Inl (Fatal ''depth format'')"
    using onResize_reallocates [OF dyn(1) ne(1) s8 [where k = True, OF sc(4)], where gl = gl0
        and e = "Fatal ''depth format''"]
    by (simp add: fbDepth_def wholeB_def gl0_def)
  have nz: "fst (8 :: u32, 6 :: u32) \<noteq> 0"
    by simp
  have pd: "depthFormat (info (fbDepth True)) \<noteq> depthNONE ?noc \<longrightarrow>
      (\<exists>f. glDepthFormat ?noc (depthFormat (info (fbDepth True))) = Inr f)"
    by (simp add: fbDepth_def wholeB_def)
  have "colorFormats (info (fbDepth True)) = [0x8058] @ 0x881A # []
      \<and> map (glColorFormat ?noc) [0x8058] = map Inr [0x8058]
      \<and> glColorFormat ?noc 0x881A = Inl (Fatal ''colour format'')"
    by (simp add: fbDepth_def wholeB_def)
  then have pc: "\<exists>pre c post fs'. colorFormats (info (fbDepth True)) = pre @ c # post
      \<and> map (glColorFormat ?noc) pre = map Inr fs'
      \<and> glColorFormat ?noc c = Inl (Fatal ''colour format'')"
    by blast
  have g: "onResize ?noc (8, 6) (fbDepth True, gl0) = Inl (Fatal ''colour format'')"
    using onResize_reallocates [OF dyn(1) ne(1) s8 [where k = True, OF sc(5)], where gl = gl0
        and e = "Fatal ''colour format''"] nz pd pc
    by blast
  from a b c d e f g show ?thesis
    by blast
qed

text \<open>
  Claim C8 as stated fails on the code: the test is on the width alone. With a computed size
  of (0, 5), which is not the zero size, the handles are deleted and nothing is allocated or
  checked; with a computed size of (5, 0) a framebuffer and a colour texture of height 0 are
  allocated and the completeness check runs. In the first run the deleted colour texture's
  name stays in \<open>renderTextures\<close>.
\<close>

theorem onResize_zero_counterexample:
  "(0 :: u32, 5 :: u32) \<noteq> (0, 0)
   \<and> onResize wholeB (0, 5) (fbLive True, gl0) =
       Inr (\<lparr>info = (fbInfo True)\<lparr>size_info := (0, 5)\<rparr>,
             data = \<lparr>index = 0, depth = 0, renderTextures = [7]\<rparr>\<rparr>,
            \<lparr>calls = [GlDeleteFramebuffers 3, GlDeleteTextures 7], nextName = 1\<rparr>)
   \<and> onResize wholeB (5, 0) (fbLive True, gl0) =
       Inr (\<lparr>info = (fbInfo True)\<lparr>size_info := (5, 0)\<rparr>,
             data = \<lparr>index = 1, depth = 0, renderTextures = [2]\<rparr>\<rparr>,
            \<lparr>calls = [GlDeleteFramebuffers 3, GlDeleteTextures 7,
                      GlGenFramebuffers 1,
                      GlBindFramebuffer GL_FRAMEBUFFER 1,
                      GlObjectLabel GL_FRAMEBUFFER 1,
                      GlGenTextures 2,
                      GlBindTexture GL_TEXTURE_2D_MULTISAMPLE 2,
                      GlTexImage2DMultisample GL_TEXTURE_2D_MULTISAMPLE 1 0x8058 5 0,
                      GlObjectLabel GL_TEXTURE 2,
                      GlFramebufferTexture GL_FRAMEBUFFER GL_COLOR_ATTACHMENT0 2,
                      GlDrawBuffers [GL_COLOR_ATTACHMENT0],
                      GlCheckFramebufferStatus GL_FRAMEBUFFER_COMPLETE],
              nextName = 3\<rparr>)"
  by (simp add: onResize_def Let_def genName_def took_def emit_def releaseCalls_def
      allocDepth_def fbLive_def fbInfo_def wholeB_def gl0_def)

lemma bitlen_0: "bitlen 0 = 0"
  by (simp add: bitlen.simps)

lemma bitlen_pos: "n \<noteq> 0 \<Longrightarrow> bitlen n = Suc (bitlen (n div 2))"
  by (subst bitlen.simps) simp

lemma bitlen_le: "M < 2 ^ k \<Longrightarrow> bitlen M \<le> k"
proof (induction k arbitrary: M)
  case 0
  then show ?case by (simp add: bitlen_0)
next
  case (Suc k)
  show ?case
  proof (cases "M = 0")
    case True
    then show ?thesis by (simp add: bitlen_0)
  next
    case False
    from Suc.prems have "M div 2 < 2 ^ k" by simp
    from Suc.IH [OF this] False show ?thesis
      by (simp add: bitlen_pos)
  qed
qed

lemma rne_0: "rne M 0 = M"
  by (simp add: rne_def)

lemma round53_exact: "M < 2 ^ 53 \<Longrightarrow> round53 sg M e = Finite sg M e"
  using bitlen_le [of M 53] by (simp add: round53_def rne_0)

lemma f64_mul_exact:
  "unat x * m < 2 ^ 53 \<Longrightarrow> f64_mul (f64_of_u32 x) (Finite sg m e) = Finite sg (unat x * m) e"
  by (simp add: f64_of_u32_def round53_exact)

lemma valof_scale: "valof (Finite sg (x * m) e) = real x * valof (Finite sg m e)"
  by simp

lemma u32_of_f64_floor:
  assumes "u32_of_f64 (Finite False M e) = Some r"
  shows "int (unat r) = \<lfloor>valof (Finite False M e)\<rfloor>"
proof -
  define t where "t = (if 0 \<le> e then M * 2 ^ nat e else M div 2 ^ nat (- e))"
  from assms have r: "r = of_nat t" and b: "t < 2 ^ 32"
    by (auto simp: t_def Let_def split: if_splits)
  have u: "unat r = t"
    unfolding r using b by (simp add: unsigned_of_nat take_bit_nat_eq_self)
  have "\<lfloor>valof (Finite False M e)\<rfloor> = int t"
  proof (cases "0 \<le> e")
    case True
    then have "valof (Finite False M e) = real t"
      by (simp add: t_def)
    then show ?thesis by simp
  next
    case False
    then have "valof (Finite False M e) = real M / real (2 ^ nat (- e))"
      by simp
    then show ?thesis
      using False by (simp only: floor_divide_of_nat_eq) (simp add: t_def)
  qed
  with u show ?thesis by simp
qed

lemma f64_scaleU32_floor:
  assumes "f64_scaleU32 x (Finite False m e) = Some r"
  shows "int (unat r) = \<lfloor>valof (f64_mul (f64_of_u32 x) (Finite False m e))\<rfloor>"
  using assms u32_of_f64_floor
  by (simp add: f64_scaleU32_def f64_of_u32_def round53_def Let_def)


lemma onResize_size:
  assumes dyn: "isDynamic (info fb)"
    and r: "onResize B siz (fb, gl) = Inr (fb', gl')"
  shows "size_info (info fb') =
      (scaleU32 B (fst siz) (viewportScale (info fb)),
       scaleU32 B (snd siz) (viewportScale (info fb)))"
proof -
  define sz where "sz = (scaleU32 B (fst siz) (viewportScale (info fb)),
                         scaleU32 B (snd siz) (viewportScale (info fb)))"
  show ?thesis
  proof (cases "size_info (info fb) = sz")
    case True
    with r show ?thesis
      by (simp add: onResize_def sz_def)
  next
    case ne: False
    show ?thesis
    proof (cases "fst sz = 0")
      case True
      with r dyn ne show ?thesis
        by (auto simp: onResize_def Let_def sz_def)
    next
      case False
      from onResize_Inr [OF dyn ne sz_def False r] show ?thesis
        by (auto simp: sz_def)
    qed
  qed
qed

lemma onResize_returns:
  assumes dyn: "isDynamic (info fb)"
    and sz: "sz = (scaleU32 B (fst siz) (viewportScale (info fb)),
                   scaleU32 B (snd siz) (viewportScale (info fb)))"
    and h: "size_info (info fb) = sz \<or> fst sz = 0
        \<or> ((depthFormat (info fb) = depthNONE B
               \<or> (\<exists>f. glDepthFormat B (depthFormat (info fb)) = Inr f))
           \<and> (\<forall>c \<in> set (colorFormats (info fb)). \<exists>f. glColorFormat B c = Inr f)
           \<and> (\<forall>cs. checkStatus B cs = GL_FRAMEBUFFER_COMPLETE))"
  shows "\<exists>r. onResize B siz (fb, gl) = Inr r"
proof (cases "size_info (info fb) = sz \<or> fst sz = 0")
  case True
  then show ?thesis
    using sz by (auto simp: onResize_def Let_def)
next
  case False
  then have ne: "size_info (info fb) \<noteq> sz" and nz: "fst sz \<noteq> 0"
    by simp_all
  define nfo where "nfo = (info fb)\<lparr>size_info := sz\<rparr>"
  define gl3 where "gl3 = emit (GlObjectLabel GL_FRAMEBUFFER (nextName gl))
                 (emit (GlBindFramebuffer GL_FRAMEBUFFER (nextName gl))
                   (took GlGenFramebuffers (gl\<lparr>calls := calls gl @ releaseCalls fb\<rparr>)))"
  have "depthFormat nfo = depthNONE B \<or> (\<exists>f. glDepthFormat B (depthFormat nfo) = Inr f)"
    using h False by (auto simp: nfo_def)
  from allocDepth_returns [OF this] obtain dep gl4 where
    a: "allocDepth B nfo sz (depth (data fb)) gl3 = Inr (dep, gl4)"
    by (metis surj_pair)
  have "\<forall>c \<in> set (colorFormats nfo). \<exists>f. glColorFormat B c = Inr f"
    using h False by (auto simp: nfo_def)
  from allocColors_returns [OF this] obtain rts dbs gl5 where
    c: "allocColors B (samples nfo) sz (colorFormats nfo) 0 [] [] gl4 = Inr (rts, dbs, gl5)"
    by (metis surj_pair)
  have ok: "\<forall>cs. checkStatus B cs = GL_FRAMEBUFFER_COMPLETE"
    using h False by blast
  show ?thesis
    using onResize_alloc [OF dyn ne sz nz a [unfolded nfo_def gl3_def] c [unfolded nfo_def]] ok
    by simp
qed

text \<open>
  Claim C6, as amended. For a dynamic surface, on a backend that computes \<^verbatim>\<open>u32(x * viewportScale)\<close>
  in binary64, and a backbuffer size for which both conversions are defined: every surface
  \<^verbatim>\<open>onResize\<close> returns has as its size the two converted products, and \<^verbatim>\<open>onResize\<close> does return
  when the size is unchanged, when the computed width is 0, or when the formats translate and
  the driver reports the framebuffer complete. For a finite scale that is not negative, each
  component is the floor of the product as rounded to 53 significant bits (to nearest, ties
  to even), and it is the floor of \<open>viewportScale * size\<close> itself whenever the product of the
  component and the scale's significand is below \<open>2 ^ 53\<close>, so that the product is not rounded.
  With scale 0.5 the size (800, 600) gives (400, 300).
\<close>

theorem onResize_scaled_size:
  assumes ie: "ieeeScale B"
    and dyn: "isDynamic (info fb)"
    and a: "f64_scaleU32 (fst siz) (viewportScale (info fb)) = Some a"
    and b: "f64_scaleU32 (snd siz) (viewportScale (info fb)) = Some b"
  shows
    "(\<forall>fb' gl'. onResize B siz (fb, gl) = Inr (fb', gl') \<longrightarrow> size_info (info fb') = (a, b))
     \<and> (size_info (info fb) = (a, b) \<or> a = 0
          \<or> ((depthFormat (info fb) = depthNONE B
                 \<or> (\<exists>f. glDepthFormat B (depthFormat (info fb)) = Inr f))
             \<and> (\<forall>c \<in> set (colorFormats (info fb)). \<exists>f. glColorFormat B c = Inr f)
             \<and> (\<forall>cs. checkStatus B cs = GL_FRAMEBUFFER_COMPLETE)) \<longrightarrow>
        (\<exists>fb' gl'. onResize B siz (fb, gl) = Inr (fb', gl') \<and> size_info (info fb') = (a, b)))
     \<and> (\<forall>m e. viewportScale (info fb) = Finite False m e \<longrightarrow>
          int (unat a) = \<lfloor>valof (f64_mul (f64_of_u32 (fst siz)) (viewportScale (info fb)))\<rfloor>
        \<and> int (unat b) = \<lfloor>valof (f64_mul (f64_of_u32 (snd siz)) (viewportScale (info fb)))\<rfloor>
        \<and> (unat (fst siz) * m < 2 ^ 53 \<longrightarrow>
             int (unat a) = \<lfloor>real (unat (fst siz)) * valof (viewportScale (info fb))\<rfloor>)
        \<and> (unat (snd siz) * m < 2 ^ 53 \<longrightarrow>
             int (unat b) = \<lfloor>real (unat (snd siz)) * valof (viewportScale (info fb))\<rfloor>))"
proof (intro conjI allI impI)
  from ie a b have sz: "(a, b) = (scaleU32 B (fst siz) (viewportScale (info fb)),
                                  scaleU32 B (snd siz) (viewportScale (info fb)))"
    by (simp add: ieeeScale_def)
  {
    fix fb' gl'
    assume "onResize B siz (fb, gl) = Inr (fb', gl')"
    from onResize_size [OF dyn this] sz show "size_info (info fb') = (a, b)"
      by simp
  next
    assume h: "size_info (info fb) = (a, b) \<or> a = 0
          \<or> ((depthFormat (info fb) = depthNONE B
                 \<or> (\<exists>f. glDepthFormat B (depthFormat (info fb)) = Inr f))
             \<and> (\<forall>c \<in> set (colorFormats (info fb)). \<exists>f. glColorFormat B c = Inr f)
             \<and> (\<forall>cs. checkStatus B cs = GL_FRAMEBUFFER_COMPLETE))"
    then have "size_info (info fb) = (a, b) \<or> fst (a, b) = 0
          \<or> ((depthFormat (info fb) = depthNONE B
                 \<or> (\<exists>f. glDepthFormat B (depthFormat (info fb)) = Inr f))
             \<and> (\<forall>c \<in> set (colorFormats (info fb)). \<exists>f. glColorFormat B c = Inr f)
             \<and> (\<forall>cs. checkStatus B cs = GL_FRAMEBUFFER_COMPLETE))"
      by simp
    from onResize_returns [OF dyn sz this] obtain fb' gl' where
      r: "onResize B siz (fb, gl) = Inr (fb', gl')"
      by (metis surj_pair)
    from onResize_size [OF dyn r] sz have "size_info (info fb') = (a, b)"
      by simp
    with r show "\<exists>fb' gl'. onResize B siz (fb, gl) = Inr (fb', gl')
        \<and> size_info (info fb') = (a, b)"
      by blast
  }
next
  fix m e
  assume s: "viewportScale (info fb) = Finite False m e"
  from a show ra: "int (unat a)
      = \<lfloor>valof (f64_mul (f64_of_u32 (fst siz)) (viewportScale (info fb)))\<rfloor>"
    unfolding s by (rule f64_scaleU32_floor)
  from b show rb: "int (unat b)
      = \<lfloor>valof (f64_mul (f64_of_u32 (snd siz)) (viewportScale (info fb)))\<rfloor>"
    unfolding s by (rule f64_scaleU32_floor)
  show "int (unat a) = \<lfloor>real (unat (fst siz)) * valof (viewportScale (info fb))\<rfloor>"
    if "unat (fst siz) * m < 2 ^ 53"
    using ra unfolding s f64_mul_exact [OF that] valof_scale .
  show "int (unat b) = \<lfloor>real (unat (snd siz)) * valof (viewportScale (info fb))\<rfloor>"
    if "unat (snd siz) * m < 2 ^ 53"
    using rb unfolding s f64_mul_exact [OF that] valof_scale .
qed


theorem onResize_scaled_size_witness:
  "(\<exists>fb' gl'. onResize ieeeB (800, 600) (fbScaled half, gl0) = Inr (fb', gl')
       \<and> size_info (info fb') = (400, 300))
   \<and> valof half = 1 / 2
   \<and> int (unat (400 :: u32)) = \<lfloor>real (unat (800 :: u32)) * valof half\<rfloor>
   \<and> int (unat (300 :: u32)) = \<lfloor>real (unat (600 :: u32)) * valof half\<rfloor>"
proof -
  let ?fb = "fbScaled half"
  have ie: "ieeeScale ieeeB"
    by (simp add: ieeeScale_def ieeeB_def)
  have dyn: "isDynamic (info ?fb)"
    by (simp add: fbScaled_def)
  have a: "f64_scaleU32 (fst (800 :: u32, 600 :: u32)) (viewportScale (info ?fb)) = Some 400"
    by (simp add: fbScaled_def f64_scaleU32_def f64_of_u32_def half_def round53_exact)
  have b: "f64_scaleU32 (snd (800 :: u32, 600 :: u32)) (viewportScale (info ?fb)) = Some 300"
    by (simp add: fbScaled_def f64_scaleU32_def f64_of_u32_def half_def round53_exact)
  have h: "size_info (info ?fb) = (400, 300) \<or> (400 :: u32) = 0
      \<or> ((depthFormat (info ?fb) = depthNONE ieeeB
            \<or> (\<exists>f. glDepthFormat ieeeB (depthFormat (info ?fb)) = Inr f))
         \<and> (\<forall>c \<in> set (colorFormats (info ?fb)). \<exists>f. glColorFormat ieeeB c = Inr f)
         \<and> (\<forall>cs. checkStatus ieeeB cs = GL_FRAMEBUFFER_COMPLETE))"
    by (simp add: fbScaled_def ieeeB_def)
  have s: "viewportScale (info ?fb) = Finite False 1 (- 1)"
    by (simp add: fbScaled_def half_def)
  have x: "unat (fst (800 :: u32, 600 :: u32)) * 1 < 2 ^ 53"
    "unat (snd (800 :: u32, 600 :: u32)) * 1 < 2 ^ 53"
    by simp_all
  have v: "valof half = 1 / 2"
    by (simp add: half_def)
  note t = onResize_scaled_size [OF ie dyn a b, of gl0]
  from t h have r: "\<exists>fb' gl'. onResize ieeeB (800, 600) (?fb, gl0) = Inr (fb', gl')
       \<and> size_info (info fb') = (400, 300)"
    by blast
  from t s x have
    "int (unat (400 :: u32)) = \<lfloor>real (unat (fst (800 :: u32, 600 :: u32)))
        * valof (viewportScale (info ?fb))\<rfloor>"
    "int (unat (300 :: u32)) = \<lfloor>real (unat (snd (800 :: u32, 600 :: u32)))
        * valof (viewportScale (info ?fb))\<rfloor>"
    by blast+
  then have f: "int (unat (400 :: u32)) = \<lfloor>real (unat (800 :: u32)) * valof half\<rfloor>"
    "int (unat (300 :: u32)) = \<lfloor>real (unat (600 :: u32)) * valof half\<rfloor>"
    by (simp_all add: fbScaled_def)
  from r v f show ?thesis
    by blast
qed

lemma bitlen_product: "bitlen 63050394783186940 = 56"
  by (simp add: bitlen_0 bitlen_pos)

text \<open>
  Claim C6 as stated fails on the code: the product is rounded before it is truncated. With the
  binary64 nearest to 0.7, which is below 0.7, and the backbuffer size (10, 10), the exact
  product is below 7 and its floor is 6; the product rounded to 53 bits is 7 (a tie, resolved
  to the even significand), and the surface gets the size (7, 7).
\<close>

theorem onResize_floor_counterexample:
  "isDynamic (info (fbScaled seventenths))
   \<and> \<bar>valof seventenths - 7 / 10\<bar> < 1 / 2 ^ 54
   \<and> f64_scaleU32 10 seventenths = Some 7
   \<and> \<lfloor>real (unat (10 :: u32)) * valof seventenths\<rfloor> = 6
   \<and> onResize ieeeB (10, 10) (fbScaled seventenths, gl0) =
       Inr (\<lparr>info = (info (fbScaled seventenths))\<lparr>size_info := (7, 7)\<rparr>,
             data = \<lparr>index = 1, depth = 0, renderTextures = [2]\<rparr>\<rparr>,
            \<lparr>calls = [GlDeleteFramebuffers 3, GlDeleteTextures 7,
                      GlGenFramebuffers 1,
                      GlBindFramebuffer GL_FRAMEBUFFER 1,
                      GlObjectLabel GL_FRAMEBUFFER 1,
                      GlGenTextures 2,
                      GlBindTexture GL_TEXTURE_2D_MULTISAMPLE 2,
                      GlTexImage2DMultisample GL_TEXTURE_2D_MULTISAMPLE 1 0x8058 7 7,
                      GlObjectLabel GL_TEXTURE 2,
                      GlFramebufferTexture GL_FRAMEBUFFER GL_COLOR_ATTACHMENT0 2,
                      GlDrawBuffers [GL_COLOR_ATTACHMENT0],
                      GlCheckFramebufferStatus GL_FRAMEBUFFER_COMPLETE],
              nextName = 3\<rparr>)"
proof -
  have d: "isDynamic (info (fbScaled seventenths))"
    by (simp add: fbScaled_def)
  have n: "\<bar>valof seventenths - 7 / 10\<bar> < 1 / 2 ^ 54"
    by (simp add: seventenths_def abs_if field_simps)
  have s: "f64_scaleU32 10 seventenths = Some 7"
    by (simp add: f64_scaleU32_def f64_of_u32_def seventenths_def round53_def rne_def
        bitlen_product)
  have f: "\<lfloor>real (unat (10 :: u32)) * valof seventenths\<rfloor> = 6"
    by (simp add: seventenths_def floor_eq_iff)
  have r: "onResize ieeeB (10, 10) (fbScaled seventenths, gl0) =
       Inr (\<lparr>info = (info (fbScaled seventenths))\<lparr>size_info := (7, 7)\<rparr>,
             data = \<lparr>index = 1, depth = 0, renderTextures = [2]\<rparr>\<rparr>,
            \<lparr>calls = [GlDeleteFramebuffers 3, GlDeleteTextures 7,
                      GlGenFramebuffers 1,
                      GlBindFramebuffer GL_FRAMEBUFFER 1,
                      GlObjectLabel GL_FRAMEBUFFER 1,
                      GlGenTextures 2,
                      GlBindTexture GL_TEXTURE_2D_MULTISAMPLE 2,
                      GlTexImage2DMultisample GL_TEXTURE_2D_MULTISAMPLE 1 0x8058 7 7,
                      GlObjectLabel GL_TEXTURE 2,
                      GlFramebufferTexture GL_FRAMEBUFFER GL_COLOR_ATTACHMENT0 2,
                      GlDrawBuffers [GL_COLOR_ATTACHMENT0],
                      GlCheckFramebufferStatus GL_FRAMEBUFFER_COMPLETE],
              nextName = 3\<rparr>)"
    by (simp add: onResize_def Let_def genName_def took_def emit_def releaseCalls_def
        allocDepth_def fbScaled_def ieeeB_def gl0_def s)
  from d n s f r show ?thesis
    by blast
qed

section \<open>Constructing a PrimitiveBuffer\<close>

lemma vertexStep_valid:
  assumes v: "vertexLayoutValid ops it" and e: "elements it \<noteq> 0"
    and b: "els = 0 \<or> els = ucast (elements it)"
  shows "\<exists>it'. vertexStep ops els it = Inr (ucast (elements it), it')
             \<and> elements it' = elements it"
proof (cases "buffer it")
  case None
  with v have s: "layoutSize ops (allocated it) \<noteq> 0"
    "of_nat (length (initData it)) = layoutSize ops (allocated it)"
    by (simp_all add: vertexLayoutValid_def)
  have el: "elements (allocated it) = elements it"
    by (simp add: allocated_def)
  from b show ?thesis
    using None s el e
    by (auto simp: vertexStep_def Let_def newGPUBuffer_def ucast_u32_0)
next
  case (Some g)
  with v have s: "btype g = VERTEX" "bsize g = layoutSize ops it"
    by (simp_all add: vertexLayoutValid_def)
  from b show ?thesis
    using Some s e
    by (auto simp: vertexStep_def Let_def ucast_u32_0)
qed

lemma vertexLoop_valid:
  assumes "\<forall>it \<in> set its. elements it = E \<and> vertexLayoutValid ops it" and "E \<noteq> 0"
    and "els = 0 \<or> els = ucast E"
  shows "\<exists>els' its'. vertexLoop ops els its = Inr (els', its')
             \<and> map elements its' = map elements its"
  using assms
proof (induction its arbitrary: els)
  case Nil
  then show ?case by simp
next
  case (Cons it its)
  from Cons.prems have e: "elements it = E" and v: "vertexLayoutValid ops it" by simp_all
  from Cons.prems e have "els = 0 \<or> els = ucast (elements it)" by simp
  from vertexStep_valid [OF v _ this] e Cons.prems(2) obtain it' where
    s: "vertexStep ops els it = Inr (ucast E, it')" and e': "elements it' = elements it"
    by auto
  from Cons.prems have "\<forall>it \<in> set its. elements it = E \<and> vertexLayoutValid ops it" by simp
  from Cons.IH [OF this Cons.prems(2), of "ucast E"] obtain els' its' where
    l: "vertexLoop ops (ucast E) its = Inr (els', its')" and
    m: "map elements its' = map elements its"
    by auto
  from s l e' m show ?case by simp
qed

lemma vertexStep_Inr:
  assumes s: "vertexStep ops els it = Inr (els', it')"
    and z: "buffer it = None \<and> elements it = 0 \<longrightarrow> layoutSize ops (allocated it) = 0"
  shows "els' = ucast (elements it) \<and> els' \<noteq> 0 \<and> (els = 0 \<or> els = els')"
proof (cases "buffer it")
  case None
  have el: "elements (allocated it) = elements it"
    by (simp add: allocated_def)
  from s None have n: "layoutSize ops (allocated it) \<noteq> 0"
    by (auto simp: vertexStep_def Let_def split: if_splits)
  with z None have "elements it \<noteq> 0" by auto
  then have "(ucast (elements it) :: usz) \<noteq> 0" by (simp add: ucast_u32_0)
  with s None el show ?thesis
    by (auto simp: vertexStep_def Let_def split: if_splits)
next
  case (Some g)
  with s show ?thesis
    by (auto simp: vertexStep_def Let_def split: if_splits)
qed

lemma vertexLoop_Inr:
  assumes "vertexLoop ops els its = Inr (els', its')"
    and "\<forall>it \<in> set its. buffer it = None \<and> elements it = 0 \<longrightarrow>
           layoutSize ops (allocated it) = 0"
  shows "\<forall>it \<in> set its. ucast (elements it) = els'"
  using assms
proof (induction its arbitrary: els els' its')
  case Nil
  then show ?case by simp
next
  case (Cons it its)
  from Cons.prems(1) obtain els1 it1 where
    s: "vertexStep ops els it = Inr (els1, it1)"
    by (auto split: sum.splits)
  from Cons.prems(1) s obtain its1 where
    l: "vertexLoop ops els1 its = Inr (els', its1)"
    by (auto split: sum.splits)
  from Cons.prems(2) have
    z: "buffer it = None \<and> elements it = 0 \<longrightarrow> layoutSize ops (allocated it) = 0" and
    zs: "\<forall>it \<in> set its. buffer it = None \<and> elements it = 0 \<longrightarrow>
           layoutSize ops (allocated it) = 0"
    by simp_all
  from vertexStep_Inr [OF s z] have
    e1: "els1 = ucast (elements it)" and n1: "els1 \<noteq> 0"
    by blast+
  note ih = Cons.IH [OF l zs]
  have "els1 = els'"
  proof (cases its)
    case Nil
    with l show ?thesis by simp
  next
    case (Cons x xs)
    from l Cons obtain els2 x2 where
      sx: "vertexStep ops els1 x = Inr (els2, x2)"
      by (auto split: sum.splits)
    from zs Cons have
      "buffer x = None \<and> elements x = 0 \<longrightarrow> layoutSize ops (allocated x) = 0"
      by simp
    from vertexStep_Inr [OF sx this] n1 have "els1 = els2" "els2 = ucast (elements x)"
      by auto
    moreover from ih Cons have "ucast (elements x) = els'" by simp
    ultimately show ?thesis by simp
  qed
  with e1 ih show ?case by simp
qed

lemma vertexStep_Inl: "vertexStep ops els it = Inl e \<Longrightarrow> \<exists>msg. e = Fatal msg"
  by (auto simp: vertexStep_def Let_def split: option.splits if_splits)

lemma vertexLoop_Inl: "vertexLoop ops els its = Inl e \<Longrightarrow> \<exists>msg. e = Fatal msg"
proof (induction its arbitrary: els)
  case Nil
  then show ?case by simp
next
  case (Cons it its)
  show ?case
  proof (cases "vertexStep ops els it")
    case (Inl e')
    with Cons.prems have "e' = e" by simp
    with Inl vertexStep_Inl show ?thesis by blast
  next
    case (Inr p)
    obtain els1 it1 where p: "p = (els1, it1)" by (cases p)
    with Cons.prems Inr have "vertexLoop ops els1 its = Inl e"
      by (auto split: sum.splits)
    then show ?thesis by (rule Cons.IH)
  qed
qed

text \<open>
  Claim C1, as amended. If an Info has at least one vertex layout, all its vertex layouts
  share one element count \<open>E\<close> that is not 0, each passes the checks made on it alone
  (auto-allocated with a size that is not 0 and equals the size of its data, or supplied with
  kind \<^verbatim>\<open>VERTEX\<close> and the layout's size) and the index layout, if there is one, passes its checks,
  then construction succeeds and every vertex layout of the object has element count \<open>E\<close>. If
  two vertex layouts differ in their element counts, construction is fatal, given that an
  auto-allocated layout of no elements has size 0.
\<close>

theorem PrimitiveBuffer_element_count:
  "(vertexLayout inf0 \<noteq> [] \<and> E \<noteq> 0
      \<and> (\<forall>it \<in> set (vertexLayout inf0). elements it = E \<and> vertexLayoutValid ops it)
      \<and> indexLayoutValid ops inf0 \<longrightarrow>
      (\<exists>pb. PrimitiveBuffer_ctor ops inf0 = Inr pb
           \<and> length (vertexLayout pb) = length (vertexLayout inf0)
           \<and> (\<forall>it \<in> set (vertexLayout pb). elements it = E)))
   \<and> ((\<forall>it \<in> set (vertexLayout inf0). buffer it = None \<and> elements it = 0 \<longrightarrow>
           layoutSize ops (allocated it) = 0)
      \<and> (\<exists>a \<in> set (vertexLayout inf0). \<exists>b \<in> set (vertexLayout inf0).
             elements a \<noteq> elements b) \<longrightarrow>
      (\<exists>msg. PrimitiveBuffer_ctor ops inf0 = Inl (Fatal msg)))"
proof (intro conjI impI)
  assume h: "vertexLayout inf0 \<noteq> [] \<and> E \<noteq> 0
      \<and> (\<forall>it \<in> set (vertexLayout inf0). elements it = E \<and> vertexLayoutValid ops it)
      \<and> indexLayoutValid ops inf0"
  then have ne: "vertexLayout inf0 \<noteq> []" and e: "E \<noteq> 0"
    and v: "\<forall>it \<in> set (vertexLayout inf0). elements it = E \<and> vertexLayoutValid ops it"
    and i: "indexLayoutValid ops inf0"
    by simp_all
  from vertexLoop_valid [OF v e, of 0] obtain els vl where
    l: "vertexLoop ops 0 (vertexLayout inf0) = Inr (els, vl)" and
    m: "map elements vl = map elements (vertexLayout inf0)"
    by auto
  from m have len: "length vl = length (vertexLayout inf0)"
    by (rule map_eq_imp_length_eq)
  have all: "\<forall>it \<in> set vl. elements it = E"
  proof
    fix it assume "it \<in> set vl"
    then have "elements it \<in> set (map elements vl)" by simp
    with m have "elements it \<in> elements ` set (vertexLayout inf0)" by simp
    with v show "elements it = E" by auto
  qed
  show "\<exists>pb. PrimitiveBuffer_ctor ops inf0 = Inr pb
      \<and> length (vertexLayout pb) = length (vertexLayout inf0)
      \<and> (\<forall>it \<in> set (vertexLayout pb). elements it = E)"
  proof (cases "hasIndices ops (inf0\<lparr>vertexLayout := vl\<rparr>)")
    case True
    with i obtain il where "indexStep ops (indexLayout inf0) = Inr il"
      by (auto simp: indexLayoutValid_def)
    with l ne True len all show ?thesis
      by (simp add: PrimitiveBuffer_ctor_def Let_def)
  next
    case False
    with l ne len all show ?thesis
      by (simp add: PrimitiveBuffer_ctor_def Let_def)
  qed
next
  assume h: "(\<forall>it \<in> set (vertexLayout inf0). buffer it = None \<and> elements it = 0 \<longrightarrow>
           layoutSize ops (allocated it) = 0)
      \<and> (\<exists>a \<in> set (vertexLayout inf0). \<exists>b \<in> set (vertexLayout inf0).
             elements a \<noteq> elements b)"
  then obtain a b where
    z: "\<forall>it \<in> set (vertexLayout inf0). buffer it = None \<and> elements it = 0 \<longrightarrow>
           layoutSize ops (allocated it) = 0" and
    a: "a \<in> set (vertexLayout inf0)" and b: "b \<in> set (vertexLayout inf0)" and
    d: "elements a \<noteq> elements b"
    by blast
  show "\<exists>msg. PrimitiveBuffer_ctor ops inf0 = Inl (Fatal msg)"
  proof (cases "vertexLoop ops 0 (vertexLayout inf0)")
    case (Inl e)
    with vertexLoop_Inl obtain msg where "e = Fatal msg" by blast
    with Inl show ?thesis by (simp add: PrimitiveBuffer_ctor_def)
  next
    case (Inr p)
    obtain els vl where "p = (els, vl)" by (cases p)
    with Inr have "vertexLoop ops 0 (vertexLayout inf0) = Inr (els, vl)" by simp
    from vertexLoop_Inr [OF this z] a b have
      "(ucast (elements a) :: usz) = ucast (elements b)"
      by simp
    with d show ?thesis by (simp add: ucast_u32_inj)
  qed
qed

theorem PrimitiveBuffer_element_count_witness:
  "(\<exists>pb. PrimitiveBuffer_ctor wordOps (pbInfo [autoLayout 2, givenLayout VERTEX 2]) = Inr pb
        \<and> length (vertexLayout pb) = 2
        \<and> (\<forall>it \<in> set (vertexLayout pb). elements it = 2))
   \<and> (\<exists>msg. PrimitiveBuffer_ctor wordOps (pbInfo [autoLayout 2, givenLayout VERTEX 3])
               = Inl (Fatal msg))"
proof -
  let ?good = "pbInfo [autoLayout 2, givenLayout VERTEX 2]"
  let ?bad = "pbInfo [autoLayout 2, givenLayout VERTEX 3]"
  have g: "vertexLayout ?good \<noteq> [] \<and> (2 :: u32) \<noteq> 0
      \<and> (\<forall>it \<in> set (vertexLayout ?good). elements it = 2 \<and> vertexLayoutValid wordOps it)
      \<and> indexLayoutValid wordOps ?good"
    by (simp add: pbInfo_def autoLayout_def givenLayout_def vertexLayoutValid_def
        indexLayoutValid_def wordOps_def allocated_def noIndex_def)
  have b: "(\<forall>it \<in> set (vertexLayout ?bad). buffer it = None \<and> elements it = 0 \<longrightarrow>
           layoutSize wordOps (allocated it) = 0)
      \<and> (\<exists>a \<in> set (vertexLayout ?bad). \<exists>b \<in> set (vertexLayout ?bad).
             elements a \<noteq> elements b)"
    by (auto simp: pbInfo_def autoLayout_def givenLayout_def wordOps_def allocated_def)
  have l: "length (vertexLayout ?good) = 2"
    by (simp add: pbInfo_def)
  have "\<exists>pb. PrimitiveBuffer_ctor wordOps ?good = Inr pb
      \<and> length (vertexLayout pb) = length (vertexLayout ?good)
      \<and> (\<forall>it \<in> set (vertexLayout pb). elements it = 2)"
    using PrimitiveBuffer_element_count [of ?good 2 wordOps] g by blast
  then have first: "\<exists>pb. PrimitiveBuffer_ctor wordOps ?good = Inr pb
      \<and> length (vertexLayout pb) = 2
      \<and> (\<forall>it \<in> set (vertexLayout pb). elements it = 2)"
    unfolding l .
  have second: "\<exists>msg. PrimitiveBuffer_ctor wordOps ?bad = Inl (Fatal msg)"
    using PrimitiveBuffer_element_count [of ?bad 2 wordOps] b by blast
  from first second show ?thesis by (rule conjI)
qed

text \<open>
  Claim C1 as stated fails on the code: a single supplied vertex buffer with no elements
  shares the count 0 with itself and is refused, and a supplied buffer of another kind is
  refused whatever its count.
\<close>

theorem PrimitiveBuffer_counterexample:
  "PrimitiveBuffer_ctor wordOps (pbInfo [givenLayout VERTEX 0])
     = Inl (Fatal ''Invalid predefined vertex buffer size'')
   \<and> PrimitiveBuffer_ctor wordOps (pbInfo [givenLayout INDEX 2])
     = Inl (Fatal ''Invalid predefined vertex buffer'')"
  by (simp add: PrimitiveBuffer_ctor_def vertexStep_def pbInfo_def givenLayout_def Let_def)

section \<open>Matching a pipeline's attribute layout\<close>

lemma matchLoop_True:
  "matchLoop ls vs = Returns True \<longleftrightarrow>
     length ls \<le> length vs \<and> ls = map formats (take (length ls) vs)"
  by (induction ls vs rule: matchLoop.induct) auto

text \<open>
  Claim C3 on the code. \<^verbatim>\<open>matchLayout\<close> compares only as many entries as the candidate has:
  for a buffer with one vertex layout, the empty candidate is accepted although the layouts
  differ, and a candidate with two entries whose first matches makes the loop read
  \<^verbatim>\<open>info.vertexLayout[1]\<close>, past the end.
\<close>

theorem matchLayout_prefix_only:
  "matchLayout (pbInfo [autoLayout 2]) [] = Returns True
   \<and> matchLayout (pbInfo [autoLayout 2]) [posAttrs, uvAttrs] = OutOfRange
   \<and> matchLayout (pbInfo [autoLayout 2]) [posAttrs] = Returns True
   \<and> matchLayout (pbInfo [autoLayout 2]) [uvAttrs] = Returns False"
  by (simp add: matchLayout_def pbInfo_def autoLayout_def posAttrs_def uvAttrs_def)

section \<open>Descriptor resolution\<close>

text \<open>
  The key of the cache determines the local binding point and the bind point: the two halves
  of the 64-bit word do not overlap.
\<close>

lemma baseKey_low: "take_bit 32 (baseKey lid bp) = ucast bp"
  unfolding baseKey_def
  by (rule bit_word_eqI) (auto simp: bit_simps dest: bit_imp_le_length)

lemma baseKey_high: "drop_bit 32 (baseKey lid bp) = ucast lid"
  unfolding baseKey_def
  by (rule bit_word_eqI) (auto simp: bit_simps dest: bit_imp_le_length)

lemma baseKey_inj: "baseKey lid bp = baseKey lid' bp' \<longleftrightarrow> lid = lid' \<and> bp = bp'"
proof
  assume e: "baseKey lid bp = baseKey lid' bp'"
  from arg_cong [OF e, of "take_bit 32"] have "(ucast bp :: u64) = ucast bp'"
    by (simp add: baseKey_low)
  moreover from arg_cong [OF e, of "drop_bit 32"] have "(ucast lid :: u64) = ucast lid'"
    by (simp add: baseKey_high)
  ultimately show "lid = lid' \<and> bp = bp'"
    by (simp add: ucast_u32_inj)
qed simp

lemma rangeAt_touch: "rangeAt (touchRange m k) k' = rangeAt m k'"
  by (simp add: rangeAt_def touchRange_def noRange_def split: option.splits)

lemma rangeAt_upd: "rangeAt (m(k \<mapsto> v)) k' = (if k' = k then v else rangeAt m k')"
  by (simp add: rangeAt_def)

lemma BoundRange_eq:
  "(handle b = h \<and> offset b = off \<and> size_range b = sz)
     \<longleftrightarrow> b = \<lparr>handle = h, offset = off, size_range = sz\<rparr>"
  by (cases b) auto

lemma bindBufferRange_eq:
  fixes reg h rng
  defines "bp \<equiv> (if type_reg reg = CBUFFER then GL_UNIFORM_BUFFER else GL_SHADER_STORAGE_BUFFER)"
  defines "key \<equiv> baseKey (localId reg) bp"
    and "t \<equiv> \<lparr>handle = h, offset = fst rng, size_range = snd rng\<rparr>"
  shows "bindBufferRange reg h rng (ctx, gl) =
     (if rangeAt (boundByBase ctx) key = t
      then (ctx\<lparr>boundByBase := touchRange (boundByBase ctx) key\<rparr>, gl)
      else (ctx\<lparr>boundByBase := (touchRange (boundByBase ctx) key)(key \<mapsto> t)\<rparr>,
            emit (GlBindBufferRange bp (localId reg) h (fst rng) (snd rng)) gl))"
  unfolding bp_def key_def t_def
  by (simp add: bindBufferRange_def Let_def rangeAt_touch BoundRange_eq)

lemma bindSlot_buffer:
  fixes reg h rng
  defines "bp \<equiv> (if type_reg reg = CBUFFER then GL_UNIFORM_BUFFER else GL_SHADER_STORAGE_BUFFER)"
  defines "key \<equiv> baseKey (localId reg) bp"
    and "t \<equiv> \<lparr>handle = h, offset = fst rng, size_range = snd rng\<rparr>"
  assumes "res (globalId reg) = Some sub" and "resource sub = Some (ResBuffer h)"
    and "bufferRange sub = rng"
  shows "bindSlot cf res reg (ctx, gl, views) =
     Inr (if rangeAt (boundByBase ctx) key = t
          then (ctx\<lparr>boundByBase := touchRange (boundByBase ctx) key\<rparr>, gl, views)
          else (ctx\<lparr>boundByBase := (touchRange (boundByBase ctx) key)(key \<mapsto> t)\<rparr>,
                emit (GlBindBufferRange bp (localId reg) h (fst rng) (snd rng)) gl, views))"
  using assms(4-6) bindBufferRange_eq [of reg h rng ctx gl]
  unfolding bp_def key_def t_def
  by (simp add: bindSlot_def)

lemma bindSlot_absent: "res (globalId reg) = None \<Longrightarrow> bindSlot cf res reg s = Inr s"
  by (simp add: bindSlot_def)

lemma bindSlots_filter:
  "bindSlots cf res regs s =
     bindSlots cf res (filter (\<lambda>r. res (globalId r) \<noteq> None) regs) s"
  by (induction regs arbitrary: s) (auto simp: bindSlot_absent split: sum.splits)

text \<open>
  Claim C4. A slot of the pipeline layout whose global id has no entry in the bound resources
  is skipped: the turn of the loop returns the context, the trace of native calls and the
  texture views as they were, with no error; so resolution of the whole layout is resolution
  of the slots that are bound, and a layout with no bound slot changes nothing.
\<close>

theorem unbound_slot_skipped:
  "(res (globalId reg) = None \<longrightarrow> bindSlot cf res reg s = Inr s)
   \<and> glxBindDescriptors cf d s =
       glxBindDescriptors cf
         (d\<lparr>layoutRegisters :=
              filter (\<lambda>r. resources d (globalId r) \<noteq> None) (layoutRegisters d)\<rparr>) s
   \<and> ((\<forall>r \<in> set (layoutRegisters d). resources d (globalId r) = None) \<longrightarrow>
        glxBindDescriptors cf d s = Inr s)"
proof (intro conjI impI)
  assume "res (globalId reg) = None"
  then show "bindSlot cf res reg s = Inr s" by (rule bindSlot_absent)
next
  show "glxBindDescriptors cf d s =
      glxBindDescriptors cf
        (d\<lparr>layoutRegisters :=
             filter (\<lambda>r. resources d (globalId r) \<noteq> None) (layoutRegisters d)\<rparr>) s"
    using bindSlots_filter [of cf "resources d" "layoutRegisters d" s]
    by (simp add: glxBindDescriptors_def)
next
  assume "\<forall>r \<in> set (layoutRegisters d). resources d (globalId r) = None"
  then have "filter (\<lambda>r. resources d (globalId r) \<noteq> None) (layoutRegisters d) = []"
    by (simp add: filter_empty_conv)
  then show "glxBindDescriptors cf d s = Inr s"
    using bindSlots_filter [of cf "resources d" "layoutRegisters d" s]
    by (simp add: glxBindDescriptors_def)
qed

theorem unbound_slot_skipped_witness:
  "bindSlot anyFormat (resources (oneBuffer 9 0 64)) unboundSlot (ctx0, gl0, noViews)
     = Inr (ctx0, gl0, noViews)
   \<and> glxBindDescriptors anyFormat (oneBuffer 9 0 64) (ctx0, gl0, noViews)
     = glxBindDescriptors anyFormat ((oneBuffer 9 0 64)\<lparr>layoutRegisters := [cbufferSlot]\<rparr>)
         (ctx0, gl0, noViews)
   \<and> glxBindDescriptors anyFormat ((oneBuffer 9 0 64)\<lparr>layoutRegisters := [unboundSlot]\<rparr>)
         (ctx0, gl0, noViews)
     = Inr (ctx0, gl0, noViews)"
proof -
  let ?d = "oneBuffer 9 0 64"
  let ?u = "?d\<lparr>layoutRegisters := [unboundSlot]\<rparr>"
  have a: "resources ?d (globalId unboundSlot) = None"
    by (simp add: oneBuffer_def unboundSlot_def)
  have f: "filter (\<lambda>r. resources ?d (globalId r) \<noteq> None) (layoutRegisters ?d) = [cbufferSlot]"
    by (simp add: oneBuffer_def unboundSlot_def cbufferSlot_def)
  have n: "\<forall>r \<in> set (layoutRegisters ?u). resources ?u (globalId r) = None"
    by (simp add: oneBuffer_def unboundSlot_def)
  have 1: "bindSlot anyFormat (resources ?d) unboundSlot (ctx0, gl0, noViews)
      = Inr (ctx0, gl0, noViews)"
    using unbound_slot_skipped [of "resources ?d" unboundSlot anyFormat "(ctx0, gl0, noViews)"] a
    by blast
  have 2: "glxBindDescriptors anyFormat ?d (ctx0, gl0, noViews)
      = glxBindDescriptors anyFormat (?d\<lparr>layoutRegisters := [cbufferSlot]\<rparr>)
          (ctx0, gl0, noViews)"
    using unbound_slot_skipped [of "resources ?d" unboundSlot anyFormat "(ctx0, gl0, noViews)" ?d]
    unfolding f by blast
  have 3: "glxBindDescriptors anyFormat ?u (ctx0, gl0, noViews) = Inr (ctx0, gl0, noViews)"
    using unbound_slot_skipped [of "resources ?d" unboundSlot anyFormat "(ctx0, gl0, noViews)" ?u] n
    by blast
  from 1 2 3 show ?thesis by blast
qed

lemma bindSlots_append:
  "bindSlots cf res (xs @ ys) s =
     (case bindSlots cf res xs s of Inl e \<Rightarrow> Inl e | Inr s1 \<Rightarrow> bindSlots cf res ys s1)"
  by (induction xs arbitrary: s) (auto split: sum.splits)

lemma bindSlots_single: "bindSlots cf res [reg] s = bindSlot cf res reg s"
  by (simp split: sum.splits)

lemma glxBindDescriptors_only:
  assumes "filter (\<lambda>r. resources d (globalId r) \<noteq> None) (layoutRegisters d) = [reg]"
  shows "glxBindDescriptors cf d s = bindSlot cf (resources d) reg s"
  using bindSlots_filter [of cf "resources d" "layoutRegisters d" s] assms
  by (simp add: glxBindDescriptors_def bindSlots_single del: bindSlots.simps)

text \<open>
  Claim C2. In the resolution of a descriptor set, the turn of a slot whose bound resource
  is a buffer issues \<^verbatim>\<open>glBindBufferRange\<close> exactly when the triple (handle, offset, size) differs
  from the one the cache holds under the slot's key, after whatever the slots before it did;
  afterwards the cache holds the triple under that key, and the entries of every other
  (local binding point, bind point) are what they were: the key stands for exactly one such
  pair. For descriptor sets in which the slot is the one bound, starting from a cache that
  holds another triple, binding the same set twice issues one call, and binding a set with a
  different range next issues a second one. A key never bound reads as the
  value-initialised triple, as \<^verbatim>\<open>operator[]\<close> gives it.
\<close>

theorem buffer_bind_deduplicated:
  fixes reg h rng hB rngB
  defines "bp \<equiv> (if type_reg reg = CBUFFER then GL_UNIFORM_BUFFER else GL_SHADER_STORAGE_BUFFER)"
  defines "key \<equiv> baseKey (localId reg) bp"
    and "t \<equiv> \<lparr>handle = h, offset = fst rng, size_range = snd rng\<rparr>"
    and "tB \<equiv> \<lparr>handle = hB, offset = fst rngB, size_range = snd rngB\<rparr>"
    and "call \<equiv> GlBindBufferRange bp (localId reg) h (fst rng) (snd rng)"
    and "callB \<equiv> GlBindBufferRange bp (localId reg) hB (fst rngB) (snd rngB)"
  assumes r: "resources d (globalId reg) = Some sub" "resource sub = Some (ResBuffer h)"
      "bufferRange sub = rng"
    and rB: "resources dB (globalId reg) = Some subB" "resource subB = Some (ResBuffer hB)"
      "bufferRange subB = rngB"
  shows "(\<forall>pre s0 c g v.
            glxBindDescriptors cf (d\<lparr>layoutRegisters := pre\<rparr>) s0 = Inr (c, g, v) \<longrightarrow>
            (\<exists>c1 g1.
                glxBindDescriptors cf (d\<lparr>layoutRegisters := pre @ [reg]\<rparr>) s0 = Inr (c1, g1, v)
              \<and> calls g1 = calls g @ (if rangeAt (boundByBase c) key \<noteq> t then [call] else [])
              \<and> rangeAt (boundByBase c1) key = t
              \<and> (\<forall>lid' bp'. (lid', bp') \<noteq> (localId reg, bp) \<longrightarrow>
                    rangeAt (boundByBase c1) (baseKey lid' bp')
                      = rangeAt (boundByBase c) (baseKey lid' bp'))))
       \<and> (\<forall>lid' bp'. baseKey lid' bp' = key \<longleftrightarrow> lid' = localId reg \<and> bp' = bp)
       \<and> (filter (\<lambda>r. resources d (globalId r) \<noteq> None) (layoutRegisters d) = [reg]
            \<and> filter (\<lambda>r. resources dB (globalId r) \<noteq> None) (layoutRegisters dB) = [reg]
            \<and> rangeAt (boundByBase ctx) key \<noteq> t \<and> tB \<noteq> t \<longrightarrow>
            (\<exists>c1 g1 c2 g2 c3 g3.
                glxBindDescriptors cf d (ctx, gl, views) = Inr (c1, g1, views)
              \<and> glxBindDescriptors cf d (c1, g1, views) = Inr (c2, g2, views)
              \<and> glxBindDescriptors cf dB (c2, g2, views) = Inr (c3, g3, views)
              \<and> calls g1 = calls gl @ [call]
              \<and> calls g2 = calls g1
              \<and> calls g3 = calls g2 @ [callB]))"
proof (intro conjI allI impI)
  note b1 = bindSlot_buffer [where res = "resources d" and reg = reg and cf = cf, OF r,
      folded bp_def key_def t_def call_def]
  fix pre s0 c g v
  assume p: "glxBindDescriptors cf (d\<lparr>layoutRegisters := pre\<rparr>) s0 = Inr (c, g, v)"
  then have "bindSlots cf (resources d) pre s0 = Inr (c, g, v)"
    by (simp add: glxBindDescriptors_def)
  then have e: "glxBindDescriptors cf (d\<lparr>layoutRegisters := pre @ [reg]\<rparr>) s0
      = bindSlot cf (resources d) reg (c, g, v)"
    by (simp add: glxBindDescriptors_def bindSlots_append bindSlots_single del: bindSlots.simps)
  have fr: "rangeAt ((touchRange (boundByBase c) key)(key \<mapsto> t)) (baseKey lid' bp')
      = rangeAt (boundByBase c) (baseKey lid' bp')"
    if "(lid', bp') \<noteq> (localId reg, bp)" for lid' bp'
    using that by (auto simp add: rangeAt_upd rangeAt_touch key_def baseKey_inj)
  show "\<exists>c1 g1.
        glxBindDescriptors cf (d\<lparr>layoutRegisters := pre @ [reg]\<rparr>) s0 = Inr (c1, g1, v)
      \<and> calls g1 = calls g @ (if rangeAt (boundByBase c) key \<noteq> t then [call] else [])
      \<and> rangeAt (boundByBase c1) key = t
      \<and> (\<forall>lid' bp'. (lid', bp') \<noteq> (localId reg, bp) \<longrightarrow>
            rangeAt (boundByBase c1) (baseKey lid' bp')
              = rangeAt (boundByBase c) (baseKey lid' bp'))"
  proof (cases "rangeAt (boundByBase c) key \<noteq> t")
    case True
    let ?c1 = "c\<lparr>boundByBase := (touchRange (boundByBase c) key)(key \<mapsto> t)\<rparr>"
    have "glxBindDescriptors cf (d\<lparr>layoutRegisters := pre @ [reg]\<rparr>) s0
        = Inr (?c1, emit call g, v)"
      unfolding e using True by (simp add: b1)
    moreover have "calls (emit call g)
        = calls g @ (if rangeAt (boundByBase c) key \<noteq> t then [call] else [])"
      using True by (simp add: calls_emit)
    moreover have "rangeAt (boundByBase ?c1) key = t"
      by (simp add: rangeAt_upd)
    moreover have "\<forall>lid' bp'. (lid', bp') \<noteq> (localId reg, bp) \<longrightarrow>
        rangeAt (boundByBase ?c1) (baseKey lid' bp') = rangeAt (boundByBase c) (baseKey lid' bp')"
      using fr by simp
    ultimately show ?thesis
      by blast
  next
    case False
    let ?c1 = "c\<lparr>boundByBase := touchRange (boundByBase c) key\<rparr>"
    have "glxBindDescriptors cf (d\<lparr>layoutRegisters := pre @ [reg]\<rparr>) s0 = Inr (?c1, g, v)"
      unfolding e using False by (simp add: b1)
    moreover have "calls g
        = calls g @ (if rangeAt (boundByBase c) key \<noteq> t then [call] else [])"
      using False by simp
    moreover have "rangeAt (boundByBase ?c1) key = t"
      using False by (simp add: rangeAt_touch)
    moreover have "\<forall>lid' bp'. (lid', bp') \<noteq> (localId reg, bp) \<longrightarrow>
        rangeAt (boundByBase ?c1) (baseKey lid' bp') = rangeAt (boundByBase c) (baseKey lid' bp')"
      by (simp add: rangeAt_touch)
    ultimately show ?thesis
      by blast
  qed
next
  fix lid' bp'
  show "baseKey lid' bp' = key \<longleftrightarrow> lid' = localId reg \<and> bp' = bp"
    by (simp add: key_def baseKey_inj)
next
  note b1 = bindSlot_buffer [where res = "resources d" and reg = reg and cf = cf, OF r,
      folded bp_def key_def t_def call_def]
  note b2 = bindSlot_buffer [where res = "resources dB" and reg = reg and cf = cf, OF rB,
      folded bp_def key_def tB_def callB_def]
  assume a: "filter (\<lambda>r. resources d (globalId r) \<noteq> None) (layoutRegisters d) = [reg]
      \<and> filter (\<lambda>r. resources dB (globalId r) \<noteq> None) (layoutRegisters dB) = [reg]
      \<and> rangeAt (boundByBase ctx) key \<noteq> t \<and> tB \<noteq> t"
  then have o: "\<And>s. glxBindDescriptors cf d s = bindSlot cf (resources d) reg s"
    and oB: "\<And>s. glxBindDescriptors cf dB s = bindSlot cf (resources dB) reg s"
    by (simp_all add: glxBindDescriptors_only)
  from a have d: "rangeAt (boundByBase ctx) key \<noteq> t" and d': "t \<noteq> tB" by auto
  let ?c1 = "ctx\<lparr>boundByBase := (touchRange (boundByBase ctx) key)(key \<mapsto> t)\<rparr>"
  let ?g1 = "emit call gl"
  let ?c2 = "?c1\<lparr>boundByBase := touchRange (boundByBase ?c1) key\<rparr>"
  let ?c3 = "?c2\<lparr>boundByBase := (touchRange (boundByBase ?c2) key)(key \<mapsto> tB)\<rparr>"
  let ?g3 = "emit callB ?g1"
  have s1: "glxBindDescriptors cf d (ctx, gl, views) = Inr (?c1, ?g1, views)"
    unfolding o using d by (simp add: b1)
  have k1: "rangeAt (boundByBase ?c1) key = t"
    by (simp add: rangeAt_upd)
  have s2: "glxBindDescriptors cf d (?c1, ?g1, views) = Inr (?c2, ?g1, views)"
    unfolding o using k1 by (simp add: b1)
  have k2: "rangeAt (boundByBase ?c2) key = t"
    by (simp add: rangeAt_upd rangeAt_touch)
  have s3: "glxBindDescriptors cf dB (?c2, ?g1, views) = Inr (?c3, ?g3, views)"
    unfolding oB using k2 d' by (simp add: b2)
  have "calls ?g1 = calls gl @ [call]" "calls ?g3 = calls ?g1 @ [callB]"
    by (simp_all add: calls_emit)
  with s1 s2 s3 show "\<exists>c1 g1 c2 g2 c3 g3.
        glxBindDescriptors cf d (ctx, gl, views) = Inr (c1, g1, views)
      \<and> glxBindDescriptors cf d (c1, g1, views) = Inr (c2, g2, views)
      \<and> glxBindDescriptors cf dB (c2, g2, views) = Inr (c3, g3, views)
      \<and> calls g1 = calls gl @ [call]
      \<and> calls g2 = calls g1
      \<and> calls g3 = calls g2 @ [callB]"
    by blast
qed

theorem buffer_bind_deduplicated_witness:
  "(\<exists>c1 g1 c2 g2 c3 g3.
      glxBindDescriptors anyFormat (oneBuffer 9 0 64) (ctx0, gl0, noViews)
        = Inr (c1, g1, noViews)
    \<and> glxBindDescriptors anyFormat (oneBuffer 9 0 64) (c1, g1, noViews)
        = Inr (c2, g2, noViews)
    \<and> glxBindDescriptors anyFormat (oneBuffer 9 64 64) (c2, g2, noViews)
        = Inr (c3, g3, noViews)
    \<and> calls g1 = [GlBindBufferRange GL_UNIFORM_BUFFER 2 9 0 64]
    \<and> calls g2 = calls g1
    \<and> calls g3 = [GlBindBufferRange GL_UNIFORM_BUFFER 2 9 0 64,
                  GlBindBufferRange GL_UNIFORM_BUFFER 2 9 64 64])
   \<and> (\<exists>c1 g1.
        glxBindDescriptors anyFormat ((oneBuffer 9 0 64)\<lparr>layoutRegisters := [] @ [cbufferSlot]\<rparr>)
          (ctx0, gl0, noViews) = Inr (c1, g1, noViews)
      \<and> calls g1 = [GlBindBufferRange GL_UNIFORM_BUFFER 2 9 0 64]
      \<and> rangeAt (boundByBase c1) (baseKey 2 GL_UNIFORM_BUFFER)
          = \<lparr>handle = 9, offset = 0, size_range = 64\<rparr>
      \<and> rangeAt (boundByBase c1) (baseKey 2 GL_SHADER_STORAGE_BUFFER) = noRange)"
proof -
  have r: "resources (oneBuffer 9 0 64) (globalId cbufferSlot) = Some (bufferSub 9 0 64)"
    "resource (bufferSub 9 0 64) = Some (ResBuffer 9)"
    "bufferRange (bufferSub 9 0 64) = (0, 64)"
    by (simp_all add: oneBuffer_def cbufferSlot_def bufferSub_def)
  have rB: "resources (oneBuffer 9 64 64) (globalId cbufferSlot) = Some (bufferSub 9 64 64)"
    "resource (bufferSub 9 64 64) = Some (ResBuffer 9)"
    "bufferRange (bufferSub 9 64 64) = (64, 64)"
    by (simp_all add: oneBuffer_def cbufferSlot_def bufferSub_def)
  have bp: "(if type_reg cbufferSlot = CBUFFER then GL_UNIFORM_BUFFER
             else GL_SHADER_STORAGE_BUFFER) = GL_UNIFORM_BUFFER"
    by (simp add: cbufferSlot_def)
  have lid: "localId cbufferSlot = 2"
    by (simp add: cbufferSlot_def)
  have f: "filter (\<lambda>r. resources (oneBuffer 9 0 64) (globalId r) \<noteq> None)
        (layoutRegisters (oneBuffer 9 0 64)) = [cbufferSlot]"
    "filter (\<lambda>r. resources (oneBuffer 9 64 64) (globalId r) \<noteq> None)
        (layoutRegisters (oneBuffer 9 64 64)) = [cbufferSlot]"
    by (simp_all add: oneBuffer_def unboundSlot_def cbufferSlot_def)
  have d: "rangeAt (boundByBase ctx0) (baseKey 2 GL_UNIFORM_BUFFER)
        \<noteq> \<lparr>handle = 9, offset = fst (0 :: usz, 64 :: usz), size_range = snd (0 :: usz, 64 :: usz)\<rparr>"
    "\<lparr>handle = 9, offset = fst (64 :: usz, 64 :: usz), size_range = snd (64 :: usz, 64 :: usz)\<rparr>
        \<noteq> \<lparr>handle = 9, offset = fst (0 :: usz, 64 :: usz), size_range = snd (0 :: usz, 64 :: usz)\<rparr>"
    by (simp_all add: rangeAt_def ctx0_def noRange_def)
  have e: "glxBindDescriptors anyFormat ((oneBuffer 9 0 64)\<lparr>layoutRegisters := []\<rparr>)
      (ctx0, gl0, noViews) = Inr (ctx0, gl0, noViews)"
    by (simp add: glxBindDescriptors_def)
  have o: "(2 :: u32, GL_SHADER_STORAGE_BUFFER) \<noteq> (2, GL_UNIFORM_BUFFER)"
    by (simp add: GL_SHADER_STORAGE_BUFFER_def GL_UNIFORM_BUFFER_def)
  have z: "rangeAt (boundByBase ctx0) (baseKey 2 GL_SHADER_STORAGE_BUFFER) = noRange"
    by (simp add: rangeAt_def ctx0_def)
  note t = buffer_bind_deduplicated [where cf = anyFormat and ctx = ctx0 and gl = gl0
      and views = noViews and reg = cbufferSlot and d = "oneBuffer 9 0 64"
      and dB = "oneBuffer 9 64 64", OF r rB, unfolded bp lid]
  from t f d have "\<exists>c1 g1 c2 g2 c3 g3.
      glxBindDescriptors anyFormat (oneBuffer 9 0 64) (ctx0, gl0, noViews)
        = Inr (c1, g1, noViews)
    \<and> glxBindDescriptors anyFormat (oneBuffer 9 0 64) (c1, g1, noViews)
        = Inr (c2, g2, noViews)
    \<and> glxBindDescriptors anyFormat (oneBuffer 9 64 64) (c2, g2, noViews)
        = Inr (c3, g3, noViews)
    \<and> calls g1 = calls gl0 @ [GlBindBufferRange GL_UNIFORM_BUFFER 2 9 (fst (0 :: usz, 64 :: usz))
                                 (snd (0 :: usz, 64 :: usz))]
    \<and> calls g2 = calls g1
    \<and> calls g3 = calls g2 @ [GlBindBufferRange GL_UNIFORM_BUFFER 2 9 (fst (64 :: usz, 64 :: usz))
                                 (snd (64 :: usz, 64 :: usz))]"
    by blast
  then have first: "\<exists>c1 g1 c2 g2 c3 g3.
      glxBindDescriptors anyFormat (oneBuffer 9 0 64) (ctx0, gl0, noViews)
        = Inr (c1, g1, noViews)
    \<and> glxBindDescriptors anyFormat (oneBuffer 9 0 64) (c1, g1, noViews)
        = Inr (c2, g2, noViews)
    \<and> glxBindDescriptors anyFormat (oneBuffer 9 64 64) (c2, g2, noViews)
        = Inr (c3, g3, noViews)
    \<and> calls g1 = [GlBindBufferRange GL_UNIFORM_BUFFER 2 9 0 64]
    \<and> calls g2 = calls g1
    \<and> calls g3 = [GlBindBufferRange GL_UNIFORM_BUFFER 2 9 0 64,
                  GlBindBufferRange GL_UNIFORM_BUFFER 2 9 64 64]"
    by (auto simp: gl0_def)
  from t e obtain c1 g1 where
    s: "glxBindDescriptors anyFormat ((oneBuffer 9 0 64)\<lparr>layoutRegisters := [] @ [cbufferSlot]\<rparr>)
          (ctx0, gl0, noViews) = Inr (c1, g1, noViews)" and
    c: "calls g1 = calls gl0 @
          (if rangeAt (boundByBase ctx0) (baseKey 2 GL_UNIFORM_BUFFER)
                \<noteq> \<lparr>handle = 9, offset = fst (0 :: usz, 64 :: usz),
                     size_range = snd (0 :: usz, 64 :: usz)\<rparr>
           then [GlBindBufferRange GL_UNIFORM_BUFFER 2 9 (fst (0 :: usz, 64 :: usz))
                   (snd (0 :: usz, 64 :: usz))]
           else [])" and
    k: "rangeAt (boundByBase c1) (baseKey 2 GL_UNIFORM_BUFFER)
          = \<lparr>handle = 9, offset = fst (0 :: usz, 64 :: usz), size_range = snd (0 :: usz, 64 :: usz)\<rparr>" and
    fr: "\<forall>lid' bp'. (lid', bp') \<noteq> (2, GL_UNIFORM_BUFFER) \<longrightarrow>
          rangeAt (boundByBase c1) (baseKey lid' bp')
            = rangeAt (boundByBase ctx0) (baseKey lid' bp')"
    by blast
  from fr o z have "rangeAt (boundByBase c1) (baseKey 2 GL_SHADER_STORAGE_BUFFER) = noRange"
    by metis
  moreover from c d have "calls g1 = [GlBindBufferRange GL_UNIFORM_BUFFER 2 9 0 64]"
    by (simp add: gl0_def)
  moreover from k have "rangeAt (boundByBase c1) (baseKey 2 GL_UNIFORM_BUFFER)
          = \<lparr>handle = 9, offset = 0, size_range = 64\<rparr>"
    by simp
  ultimately have second: "\<exists>c1 g1.
        glxBindDescriptors anyFormat ((oneBuffer 9 0 64)\<lparr>layoutRegisters := [] @ [cbufferSlot]\<rparr>)
          (ctx0, gl0, noViews) = Inr (c1, g1, noViews)
      \<and> calls g1 = [GlBindBufferRange GL_UNIFORM_BUFFER 2 9 0 64]
      \<and> rangeAt (boundByBase c1) (baseKey 2 GL_UNIFORM_BUFFER)
          = \<lparr>handle = 9, offset = 0, size_range = 64\<rparr>
      \<and> rangeAt (boundByBase c1) (baseKey 2 GL_SHADER_STORAGE_BUFFER) = noRange"
    using s by blast
  from first second show ?thesis by (rule conjI)
qed

section \<open>Presenting\<close>

lemma updateContext_frameId: "updateContext (ctx, gl) = (ctx', gl') \<Longrightarrow> frameId ctx' = frameId ctx"
  by (auto simp: updateContext_def Let_def split: prod.splits)

lemma executeAll_frameId:
  assumes "\<forall>cl c g c' g'. run cl (c, g) = Inr (c', g') \<longrightarrow> frameId c' = frameId c"
    and "executeAll run cls (ctx, gl) = Inr (ctx', gl')"
  shows "frameId ctx' = frameId ctx"
  using assms(2)
proof (induction cls arbitrary: ctx gl)
  case Nil
  then show ?case by simp
next
  case (Cons cl cls)
  from Cons.prems obtain c1 g1 where
    r: "run cl (ctx, gl) = Inr (c1, g1)" and e: "executeAll run cls (c1, g1) = Inr (ctx', gl')"
    by (auto split: sum.splits)
  from assms(1) r have "frameId c1 = frameId ctx" by blast
  with Cons.IH [OF e] show ?case by simp
qed

lemma execute_frameId:
  assumes "\<forall>cl c g c' g'. run cl (c, g) = Inr (c', g') \<longrightarrow> frameId c' = frameId c"
    and "execute run cls (ctx, gl) = Inr (ctx', gl')"
  shows "frameId ctx' = frameId ctx"
proof -
  obtain c1 g1 where u: "updateContext (ctx, gl) = (c1, g1)"
    by (cases "updateContext (ctx, gl)")
  with assms(2) have "executeAll run cls (c1, g1) = Inr (ctx', gl')"
    by (simp add: execute_def)
  from executeAll_frameId [OF assms(1) this] updateContext_frameId [OF u]
  show ?thesis by simp
qed

lemma glxSetViewportAndScissor_frameId:
  "glxSetViewportAndScissor sz off (ctx, gl) = Inr (ctx', gl') \<Longrightarrow> frameId ctx' = frameId ctx"
  by (auto simp: glxSetViewportAndScissor_def glxSetViewport_def Let_def
      split: if_splits option.splits)

text \<open>
  Claim C5. With an intermediate surface whose size differs from the target's, \<^verbatim>\<open>present\<close> is
  fatal. With no intermediate surface the warning is logged and execution goes on: the
  target is bound, the command lists are executed, and if they complete the target presents
  and the frame counter is one more than the counter they left. Whenever \<^verbatim>\<open>present\<close> completes
  (command lists do not touch the frame counter), the counter has advanced by exactly one and
  the target's present is the last event.
\<close>

theorem present_contract:
  "(size_info (info fb) \<noteq> sc \<longrightarrow>
      present run (Some fb) (Some sc) cmds (ctx, gl) =
        Inl (Fatal ''Couldn't present; swapchain and intermediate aren't same size''))
   \<and> present run None (Some sc) cmds (ctx, gl) =
       (case execute run cmds
               (ctx, emit SwapchainBind (emit (LogWarn noIntermediateWarning) gl)) of
          Inl e \<Rightarrow> Inl e
        | Inr (c, g) \<Rightarrow> Inr (c\<lparr>frameId := frameId c + 1\<rparr>, emit SwapchainPresent g))
   \<and> ((\<forall>cl c g c' g'. run cl (c, g) = Inr (c', g') \<longrightarrow> frameId c' = frameId c) \<longrightarrow>
        (\<forall>ctx' gl'. present run im sw cmds (ctx, gl) = Inr (ctx', gl') \<longrightarrow>
           frameId ctx' = frameId ctx + 1
           \<and> calls gl' \<noteq> [] \<and> last (calls gl') = SwapchainPresent))"
proof (intro conjI impI allI)
  assume "size_info (info fb) \<noteq> sc"
  then show "present run (Some fb) (Some sc) cmds (ctx, gl) =
      Inl (Fatal ''Couldn't present; swapchain and intermediate aren't same size'')"
    by (simp add: present_def)
next
  show "present run None (Some sc) cmds (ctx, gl) =
      (case execute run cmds
              (ctx, emit SwapchainBind (emit (LogWarn noIntermediateWarning) gl)) of
         Inl e \<Rightarrow> Inl e
       | Inr (c, g) \<Rightarrow> Inr (c\<lparr>frameId := frameId c + 1\<rparr>, emit SwapchainPresent g))"
    by (simp add: present_def split: sum.splits)
next
  fix ctx' gl'
  assume run: "\<forall>cl c g c' g'. run cl (c, g) = Inr (c', g') \<longrightarrow> frameId c' = frameId c"
    and p: "present run im sw cmds (ctx, gl) = Inr (ctx', gl')"
  from p obtain scSize where sw: "sw = Some scSize"
    by (cases sw) (simp_all add: present_def)
  define gl1 where "gl1 = (case im of
      None \<Rightarrow> emit (LogWarn noIntermediateWarning) gl | Some fb \<Rightarrow> gl)"
  from p sw obtain c2 g2 where
    e: "execute run cmds (ctx, emit SwapchainBind gl1) = Inr (c2, g2)"
    by (auto simp: present_def gl1_def Let_def split: if_splits sum.splits)
  from execute_frameId [OF run e] have f2: "frameId c2 = frameId ctx" .
  have "frameId ctx' = frameId ctx + 1 \<and> calls gl' \<noteq> [] \<and> last (calls gl') = SwapchainPresent"
  proof (cases im)
    case None
    with p sw e f2 show ?thesis
      by (auto simp: present_def gl1_def Let_def calls_emit split: if_splits)
  next
    case (Some fb)
    with p sw e obtain c3 g3 where
      v: "glxSetViewportAndScissor scSize (0, 0) (c2, g2) = Inr (c3, g3)"
      by (auto simp: present_def gl1_def Let_def split: if_splits sum.splits)
    from glxSetViewportAndScissor_frameId [OF v] f2 have f3: "frameId c3 = frameId ctx"
      by simp
    from p sw e v Some f3 show ?thesis
      by (auto simp: present_def gl1_def Let_def calls_emit split: if_splits)
  qed
  then show "frameId ctx' = frameId ctx + 1" "calls gl' \<noteq> []"
    "last (calls gl') = SwapchainPresent"
    by simp_all
qed

theorem present_contract_witness:
  "present runCalls (Some (fbLive True)) (Some (800, 600)) [[GlEnable 1]] (ctx0, gl0)
     = Inl (Fatal ''Couldn't present; swapchain and intermediate aren't same size'')
   \<and> present runCalls (None :: (GLenum, GLenum, u32) Framebuffer option) (Some (800, 600))
       [[GlEnable 1], [GlDisable 1]] (ctx0, gl0)
     = Inr (ctx0\<lparr>frameId := 1\<rparr>,
            gl0\<lparr>calls := [LogWarn noIntermediateWarning, SwapchainBind,
                           GlEnable 1, GlDisable 1, SwapchainPresent]\<rparr>)
   \<and> (case present runCalls (Some (fbLive True)) (Some (4, 4)) [[GlEnable 1]] (ctx0, gl0) of
        Inl e \<Rightarrow> False
      | Inr (c, g) \<Rightarrow> frameId c = 1 \<and> last (calls g) = SwapchainPresent)"
proof -
  let ?none = "None :: (GLenum, GLenum, u32) Framebuffer option"
  have d: "size_info (info (fbLive True)) \<noteq> (800, 600)"
    by (simp add: fbLive_def fbInfo_def)
  have run: "\<forall>cl c g c' g'. runCalls cl (c, g) = Inr (c', g') \<longrightarrow> frameId c' = frameId c"
    by (auto simp: runCalls_def)
  have e: "execute runCalls [[GlEnable 1], [GlDisable 1]]
        (ctx0, emit SwapchainBind (emit (LogWarn noIntermediateWarning) gl0))
      = Inr (ctx0, gl0\<lparr>calls := [LogWarn noIntermediateWarning, SwapchainBind,
                                   GlEnable 1, GlDisable 1]\<rparr>)"
    by (simp add: execute_def updateContext_def runCalls_def ctx0_def gl0_def emit_def)
  have 1: "present runCalls (Some (fbLive True)) (Some (800, 600)) [[GlEnable 1]] (ctx0, gl0)
      = Inl (Fatal ''Couldn't present; swapchain and intermediate aren't same size'')"
    using present_contract [of "fbLive True" "(800, 600)" runCalls "[[GlEnable 1]]" ctx0 gl0] d
    by blast
  have "present runCalls ?none (Some (800, 600)) [[GlEnable 1], [GlDisable 1]] (ctx0, gl0)
      = (case execute runCalls [[GlEnable 1], [GlDisable 1]]
               (ctx0, emit SwapchainBind (emit (LogWarn noIntermediateWarning) gl0)) of
          Inl e \<Rightarrow> Inl e
        | Inr (c, g) \<Rightarrow> Inr (c\<lparr>frameId := frameId c + 1\<rparr>, emit SwapchainPresent g))"
    using present_contract [of "fbLive True" "(800, 600)" runCalls
        "[[GlEnable 1], [GlDisable 1]]" ctx0 gl0]
    by blast
  then have 2: "present runCalls ?none (Some (800, 600)) [[GlEnable 1], [GlDisable 1]] (ctx0, gl0)
      = Inr (ctx0\<lparr>frameId := 1\<rparr>,
             gl0\<lparr>calls := [LogWarn noIntermediateWarning, SwapchainBind,
                            GlEnable 1, GlDisable 1, SwapchainPresent]\<rparr>)"
    unfolding e by (simp add: ctx0_def gl0_def emit_def)
  obtain c g where
    p: "present runCalls (Some (fbLive True)) (Some (4, 4)) [[GlEnable 1]] (ctx0, gl0) = Inr (c, g)"
    by (simp add: present_def execute_def updateContext_def runCalls_def ctx0_def gl0_def
        emit_def fbLive_def fbInfo_def glxSetViewportAndScissor_def glxSetViewport_def)
  have "frameId c = frameId ctx0 + 1 \<and> calls g \<noteq> [] \<and> last (calls g) = SwapchainPresent"
    using present_contract [of "fbLive True" "(4, 4)" runCalls "[[GlEnable 1]]" ctx0 gl0
        "Some (fbLive True)" "Some (4, 4)"] run p
    by blast
  then have 3: "frameId c = 1 \<and> last (calls g) = SwapchainPresent"
    by (simp add: ctx0_def)
  from 1 2 3 p show ?thesis by simp
qed
end
